theory Spec2Isabelle
  imports Main
begin

section \<open>JavaScript values and Enforcer exceptions\<close>

text \<open>
  The middleware of \<^verbatim>\<open>dist/index.js\<close> (the second module of that file, lines 27 to 502)
  passes untyped JavaScript values around: the value handed to \<^verbatim>\<open>next\<close>, the value thrown
  by a handler, a response body, a status code.  \<open>jsval\<close> keeps the distinctions the
  source depends on: which values are falsy (the tests \<^verbatim>\<open>if (err)\<close>, \<^verbatim>\<open>a || b\<close>), and that a
  string is never strictly equal to a number (\<^verbatim>\<open>version === 3\<close>).  Numbers are integers
  here, so \<^verbatim>\<open>NaN\<close> is not a value of the model.  \<open>JError m\<close> is an \<^verbatim>\<open>Error\<close> object with
  message \<open>m\<close>; \<open>JTextError e\<close> is \<^verbatim>\<open>Error(e.toString())\<close>, an \<^verbatim>\<open>Error\<close> whose message is the
  text of the exception \<open>e\<close>; \<open>JEnforcerError e\<close> is the result of \<^verbatim>\<open>errorFromException(e)\<close>.

  An \<^verbatim>\<open>Enforcer.Exception\<close> belongs to the openapi-enforcer library.  Its interface as the
  source uses it: \<^verbatim>\<open>message\<close> appends a message, \<^verbatim>\<open>at(key)\<close> and \<^verbatim>\<open>nest(header)\<close> give a
  child to write to, \<^verbatim>\<open>push\<close> appends a child exception, \<^verbatim>\<open>statusCode\<close> is a property the
  middleware assigns, and \<^verbatim>\<open>hasException\<close> holds when a message is recorded anywhere below.
  A message written to a child is kept with the path of \<^verbatim>\<open>at\<close>/\<^verbatim>\<open>nest\<close> steps leading to
  that child.
\<close>

datatype seg = At string | AtIndex nat | Nest string

datatype exception =
  Exception (header: string) (messages: "(seg list \<times> string) list")
    (pushed: "exception list") (exc_statusCode: "nat option")

fun hasException :: "exception \<Rightarrow> bool" where
  "hasException (Exception h ms cs st) = (ms \<noteq> [] \<or> list_ex hasException cs)"

definition new_Exception :: "string \<Rightarrow> exception" where
  "new_Exception h = Exception h [] [] None"

fun exc_message :: "seg list \<Rightarrow> string \<Rightarrow> exception \<Rightarrow> exception" where
  "exc_message p m (Exception h ms cs st) = Exception h (ms @ [(p, m)]) cs st"

fun exc_push :: "exception \<Rightarrow> exception \<Rightarrow> exception" where
  "exc_push c (Exception h ms cs st) = Exception h ms (cs @ [c]) st"

fun exc_set_statusCode :: "nat \<Rightarrow> exception \<Rightarrow> exception" where
  "exc_set_statusCode n (Exception h ms cs st) = Exception h ms cs (Some n)"

datatype jsval =
    JUndefined
  | JNull
  | JBool bool
  | JNum int
  | JStr string
  | JArr "jsval list"
  | JObj "(string \<times> jsval) list"
  | JError string
  | JTextError exception
  | JEnforcerError exception

fun truthy :: "jsval \<Rightarrow> bool" where
  "truthy JUndefined = False"
| "truthy JNull = False"
| "truthy (JBool b) = b"
| "truthy (JNum n) = (n \<noteq> 0)"
| "truthy (JStr s) = (s \<noteq> [])"
| "truthy _ = True"

text \<open>\<^verbatim>\<open>errorFromException\<close>: an \<^verbatim>\<open>Error\<close> that carries the exception; its \<^verbatim>\<open>statusCode\<close> is the
  exception's own \<^verbatim>\<open>statusCode\<close> property when that is set.\<close>

definition errorFromException :: "exception \<Rightarrow> jsval" where
  "errorFromException exception = JEnforcerError exception"

fun err_statusCode :: "jsval \<Rightarrow> nat option" where
  "err_statusCode (JEnforcerError e) = exc_statusCode e"
| "err_statusCode _ = None"

text \<open>A \<^verbatim>\<open>TypeError\<close> raised by the engine or by Express; its message is not kept.\<close>

definition TypeError :: jsval where
  "TypeError = JError ''TypeError''"

text \<open>\<^verbatim>\<open>Enforcer.v3_0.Schema.extractValue\<close> unwraps the library's value wrappers; on the plain
  values of \<open>jsval\<close> it returns its argument.\<close>

definition extractValue :: "jsval \<Rightarrow> jsval" where
  "extractValue v = v"

text \<open>\<^verbatim>\<open>a || b\<close> on values that are a string or \<^verbatim>\<open>undefined\<close>.\<close>

definition truthy_str :: "string option \<Rightarrow> bool" where
  "truthy_str a = (case a of None \<Rightarrow> False | Some s \<Rightarrow> s \<noteq> [])"

definition or_else :: "string option \<Rightarrow> string option \<Rightarrow> string option" where
  "or_else a b = (if truthy_str a then a else b)"

section \<open>The operation catalog (the external collaborator's surface)\<close>

record schema =
  random :: "jsval \<times> exception option \<times> exception option"

record media_type =
  mt_schema :: "schema option"

record response_spec =
  rs_schema :: "schema option"
  rs_content :: "(string \<rightharpoonup> media_type) option"

record serialized =
  ser_headers :: "(string \<times> jsval) list"
  ser_body :: "jsval option"

text \<open>
  What \<^verbatim>\<open>operation.getResponseContentTypeMatches\<close> returns is a result object of the
  library, like those of \<^verbatim>\<open>openapi.request\<close> and \<^verbatim>\<open>operation.response\<close>: its first
  component is the array of matching content types, or \<^verbatim>\<open>undefined\<close> when there is no match
  (the second component then is an exception).  \<open>cm_text\<close> is the property key that the
  result object itself turns into when it is used as one.
\<close>

record content_matches =
  cm_value :: "string list option"
  cm_text :: string

text \<open>
  An operation object.  \<open>op_id\<close> stands for the object's identity (the key of the
  controllers \<^verbatim>\<open>Map\<close>); \<open>op_props\<close> are its string properties (\<^verbatim>\<open>operationId\<close> and the
  extension properties); \<open>responses\<close> lists the declared responses in the order of
  \<^verbatim>\<open>Object.keys(operation.responses)\<close>.
\<close>

record operation =
  op_id :: nat
  op_props :: "string \<rightharpoonup> string"
  responses :: "(string \<times> response_spec) list"
  response_fn :: "jsval \<Rightarrow> jsval \<Rightarrow> (string \<rightharpoonup> jsval) \<Rightarrow> exception + serialized"
  getResponseContentTypeMatches :: "jsval \<Rightarrow> string \<Rightarrow> content_matches"

record request_obj =
  ro_headers :: "string \<rightharpoonup> string"
  ro_method :: string
  ro_path :: string
  ro_body :: "jsval option"

record request_result =
  rq_operation :: operation
  rq_path :: "(string \<rightharpoonup> jsval) option"
  rq_cookies :: "(string \<rightharpoonup> jsval) option"
  rq_headers :: "(string \<rightharpoonup> string) option"
  rq_params :: "(string \<rightharpoonup> jsval) option"
  rq_query :: "(string \<rightharpoonup> jsval) option"
  rq_body :: "jsval option"

record path_item =
  pi_props :: "string \<rightharpoonup> string"
  methods :: "string list"
  pi_operations :: "string \<rightharpoonup> operation"

record openapi =
  swagger :: "jsval option"
  openapi_version :: "string option"
  api_props :: "string \<rightharpoonup> string"
  paths :: "(string \<times> path_item) list"
  request_fn :: "request_obj \<Rightarrow> exception + request_result"
  path_fn :: "string \<Rightarrow> string \<Rightarrow> operation option"

section \<open>Request, response and the per-request state\<close>

record mock =
  source :: string
  specified :: bool
  mock_statusCode :: string
  mock_response :: "response_spec option"

text \<open>
  The properties the middleware attaches under configurable names
  (\<^verbatim>\<open>req[options.reqOpenApiProperty]\<close> and so on) are kept in the map \<open>props\<close>, keyed by the
  configured name; the standard Express fields are record fields.  The configured names
  are taken not to be names of the standard fields.
\<close>

datatype propval = POpenapi openapi | POperation operation | PMock mock

record request =
  headers :: "string \<rightharpoonup> string"
  req_method :: string
  originalUrl :: string
  baseUrl :: string
  body :: "jsval option"
  params :: "(string \<rightharpoonup> jsval) option"
  cookies :: "(string \<rightharpoonup> jsval) option"
  query :: "(string \<rightharpoonup> jsval) option"
  props :: "string \<rightharpoonup> propval"

text \<open>
  The response object: \<open>sendHooked\<close> tells whether \<^verbatim>\<open>res.send\<close> currently is the
  middleware's interceptor (line 158) or the original function; \<open>sent\<close> are the bodies
  handed to the original \<^verbatim>\<open>send\<close>, that is, to the transport (\<open>JUndefined\<close> for a call
  without a body).  \<open>resHeaders\<close> holds, under the header's name in lower case, the value
  last handed to \<^verbatim>\<open>res.set\<close> for it; the headers that Express adds on its own when it sends
  are not recorded.
\<close>

record response =
  statusCode :: jsval
  resHeaders :: "string \<rightharpoonup> jsval"
  sendHooked :: bool
  sent :: "jsval list"

text \<open>
  \<open>hostNext\<close> records the calls of the host's \<^verbatim>\<open>_next\<close> with their argument
  (\<open>JUndefined\<close> for \<^verbatim>\<open>_next()\<close>); \<open>flow\<close> is application state that handlers may write,
  like the \<^verbatim>\<open>flow\<close> array of the repository's tests.
\<close>

record world =
  req :: request
  res :: response
  hostNext :: "jsval list"
  flow :: "nat list"

definition ENFORCER_HEADER :: string where
  "ENFORCER_HEADER = ''x-openapi-enforcer''"

definition res_set :: "string \<Rightarrow> jsval \<Rightarrow> world \<Rightarrow> world" where
  "res_set field v w = w\<lparr>res := (res w)\<lparr>resHeaders := (resHeaders (res w))(field \<mapsto> v)\<rparr>\<rparr>"

definition res_removeHeader :: "string \<Rightarrow> world \<Rightarrow> world" where
  "res_removeHeader field w = w\<lparr>res := (res w)\<lparr>resHeaders := (resHeaders (res w))(field := None)\<rparr>\<rparr>"

definition res_status :: "jsval \<Rightarrow> world \<Rightarrow> world" where
  "res_status code w = w\<lparr>res := (res w)\<lparr>statusCode := code\<rparr>\<rparr>"

definition original_send :: "jsval \<Rightarrow> world \<Rightarrow> world" where
  "original_send b w = w\<lparr>res := (res w)\<lparr>sent := sent (res w) @ [b]\<rparr>\<rparr>"

section \<open>Handlers and the runner\<close>

text \<open>
  A handler is a function with a declared number of parameters (\<^verbatim>\<open>middleware.length\<close>).
  One invocation is modelled by what it does to the state and by how it ends: it calls
  the advance callback with a value (\<open>JUndefined\<close> for \<^verbatim>\<open>next()\<close>), it throws
  synchronously, or it does neither (it answered the request, or it never advances).
  The argument of \<open>invoke\<close> is the error for the four-argument call
  \<^verbatim>\<open>middleware(err, req, res, run)\<close> and \<open>None\<close> for \<^verbatim>\<open>middleware(req, res, run)\<close>.
\<close>

datatype outcome = CallNext jsval | Throw jsval | End

record handler =
  arity :: nat
  invoke :: "jsval option \<Rightarrow> world \<Rightarrow> outcome \<times> world"

definition isErrorHandling :: "handler \<Rightarrow> bool" where
  "isErrorHandling middleware = (arity middleware \<ge> 4)"

definition clearHeader :: "bool \<Rightarrow> world \<Rightarrow> world" where
  "clearHeader clearEnforcerHeader w =
     (if clearEnforcerHeader then res_removeHeader ENFORCER_HEADER w else w)"

text \<open>
  \<^verbatim>\<open>run\<close> of \<^verbatim>\<open>middlewareRunner\<close> (lines 474 to 491).  The result \<open>Some err\<close> says that
  the queue emptied and \<^verbatim>\<open>next(err)\<close> is due; \<open>None\<close> says that an invoked handler did
  not advance.
\<close>

fun run :: "bool \<Rightarrow> handler list \<Rightarrow> jsval \<Rightarrow> world \<Rightarrow> jsval option \<times> world" where
  "run clearEnforcerHeader [] err w = (Some err, clearHeader clearEnforcerHeader w)"
| "run clearEnforcerHeader (middleware # middlewares) err w =
     (let w1 = clearHeader clearEnforcerHeader w in
      if truthy err \<and> isErrorHandling middleware then
        (case invoke middleware (Some err) w1 of
           (CallNext e, w2) \<Rightarrow> run clearEnforcerHeader middlewares e w2
         | (Throw e, w2) \<Rightarrow> run clearEnforcerHeader middlewares e w2
         | (End, w2) \<Rightarrow> (None, w2))
      else if \<not> truthy err \<and> \<not> isErrorHandling middleware then
        (case invoke middleware None w1 of
           (CallNext e, w2) \<Rightarrow> run clearEnforcerHeader middlewares e w2
         | (Throw e, w2) \<Rightarrow> run clearEnforcerHeader middlewares e w2
         | (End, w2) \<Rightarrow> (None, w2))
      else run clearEnforcerHeader middlewares err w1)"

definition middlewareRunner ::
  "handler list \<Rightarrow> bool \<Rightarrow> (jsval \<Rightarrow> world \<Rightarrow> world) \<Rightarrow> jsval \<Rightarrow> world \<Rightarrow> world" where
  "middlewareRunner store clearEnforcerHeader next err w =
     (case run clearEnforcerHeader store err w of
        (Some e, w') \<Rightarrow> next e w'
      | (None, w') \<Rightarrow> w')"

section \<open>Controller values, module loading and the options\<close>

text \<open>
  \<open>hval\<close> is a value that a controller binds to an operation name, as far as the source
  looks at it (lines 442 to 462): a function; an array, with its items; a falsy value
  (\<^verbatim>\<open>undefined\<close>, \<^verbatim>\<open>null\<close>, \<^verbatim>\<open>false\<close>, \<^verbatim>\<open>0\<close>, \<^verbatim>\<open>NaN\<close> or the empty string); or any other
  value, of which the source uses only the text that string concatenation gives for it
  (line 461).
\<close>

datatype hval = HFun handler | HArr "hval list" | HFalsy | HOther string

fun hval_truthy :: "hval \<Rightarrow> bool" where
  "hval_truthy HFalsy = False"
| "hval_truthy _ = True"

fun is_function :: "hval \<Rightarrow> bool" where
  "is_function (HFun f) = True"
| "is_function _ = False"

fun functions_of :: "hval list \<Rightarrow> handler list" where
  "functions_of [] = []"
| "functions_of (HFun f # xs) = f # functions_of xs"
| "functions_of (_ # xs) = functions_of xs"

text \<open>
  A controller is read in two ways.  The export of a module loaded from a directory is
  asked \<^verbatim>\<open>hasOwnProperty(operationName)\<close> and then read at that name (lines 417 to 420):
  of it the model keeps the own properties.  The controllers of an object target are read
  by plain property access, \<^verbatim>\<open>controllersTarget[controllerName][operationName]\<close> (lines 432
  to 437), which also finds inherited members (of an object literal, \<^verbatim>\<open>toString\<close> and its
  like): of them the model keeps what property access gives, own or inherited, with
  \<open>None\<close> for \<^verbatim>\<open>undefined\<close>.
\<close>

type_synonym own_properties = "string \<rightharpoonup> hval"

type_synonym property_access = "string \<rightharpoonup> hval"

text \<open>
  What Node gives the source: an error caught around \<^verbatim>\<open>require\<close> (its \<^verbatim>\<open>code\<close>, its
  \<^verbatim>\<open>stack\<close> split at line breaks, with \<open>[]\<close> for a missing or empty stack, and its rendering
  by \<^verbatim>\<open>String\<close>), and a loaded module: a function to be applied to the injected
  dependencies, or a value used as it is.  A controller value of \<open>None\<close> is \<^verbatim>\<open>null\<close> or
  \<^verbatim>\<open>undefined\<close>; of any other value the own properties are kept, and its \<^verbatim>\<open>hasOwnProperty\<close>
  is taken to be the method of \<^verbatim>\<open>Object.prototype\<close>.  \<open>js_isNaN\<close> is the global \<^verbatim>\<open>isNaN\<close> on a
  header value (\<open>None\<close> for \<^verbatim>\<open>undefined\<close>), \<open>path_resolve\<close> is \<^verbatim>\<open>path.resolve\<close> with two
  arguments, and \<open>null_TypeError\<close> is the error of calling a method of \<^verbatim>\<open>null\<close> or
  \<^verbatim>\<open>undefined\<close>.
\<close>

record js_error =
  e_code :: "string option"
  e_stack :: "string list"
  e_string :: string

datatype module_export =
    MFun "jsval list \<Rightarrow> js_error + own_properties option"
  | MVal "own_properties option"

datatype load_result = ModuleLoaded module_export | LoadThrows js_error

record platform =
  js_isNaN :: "string option \<Rightarrow> bool"
  path_resolve :: "string \<Rightarrow> string \<Rightarrow> string"
  require :: "string \<Rightarrow> load_result"
  null_TypeError :: js_error

record options =
  fallthrough :: bool
  opt_middleware :: "handler list"
  mockHeader :: string
  mockQuery :: string
  reqMockStatusCodeProperty :: string
  reqOpenApiProperty :: string
  reqOperationProperty :: string
  xController :: string
  xOperation :: string

section \<open>The validation middleware and the interception of the outgoing write\<close>

definition set_prop :: "string \<Rightarrow> propval \<Rightarrow> world \<Rightarrow> world" where
  "set_prop name v w = w\<lparr>req := (req w)\<lparr>props := (props (req w))(name \<mapsto> v)\<rparr>\<rparr>"

text \<open>The local \<^verbatim>\<open>next\<close> of lines 127 to 131.\<close>

definition next_local :: "jsval \<Rightarrow> world \<Rightarrow> world" where
  "next_local err w =
     (let w1 = w\<lparr>res := (res w)\<lparr>sendHooked := False\<rparr>\<rparr> in
      if truthy err then w1\<lparr>hostNext := hostNext w1 @ [err]\<rparr>
      else w1\<lparr>hostNext := hostNext w1 @ [JUndefined]\<rparr>)"

definition has_swagger :: "propval \<Rightarrow> bool" where
  "has_swagger p = (case p of POpenapi a \<Rightarrow> swagger a \<noteq> None | _ \<Rightarrow> False)"

definition truthy_opt :: "jsval option \<Rightarrow> bool" where
  "truthy_opt v = (case v of None \<Rightarrow> False | Some x \<Rightarrow> truthy x)"

definition accepts_or_any :: "request \<Rightarrow> string" where
  "accepts_or_any r = (case or_else (headers r ''accepts'') (Some ''*/*'') of Some s \<Rightarrow> s | None \<Rightarrow> ''*/*'')"

text \<open>Line 161: \<^verbatim>\<open>res.statusCode || 200\<close>.\<close>

definition status_or_200 :: "world \<Rightarrow> jsval" where
  "status_or_200 w = (if truthy (statusCode (res w)) then statusCode (res w) else JNum 200)"

text \<open>
  Lines 168 to 170: when no content type is set and the catalog is not a Swagger 2
  document, \<^verbatim>\<open>type\<close> is the first component of the result of
  \<^verbatim>\<open>getResponseContentTypeMatches\<close>, the array of matches; otherwise nothing is derived.
\<close>

definition derived_content_type :: "propval \<Rightarrow> operation \<Rightarrow> world \<Rightarrow> string list option" where
  "derived_content_type openapi operation w =
     (if \<not> truthy_opt (resHeaders (res w) ''content-type'') \<and> \<not> has_swagger openapi
      then cm_value (getResponseContentTypeMatches operation (status_or_200 w) (accepts_or_any (req w)))
      else None)"

text \<open>
  A call \<^verbatim>\<open>res.send(body)\<close> runs whichever function the property holds: \<open>send\<close>.  The function
  stored in it at line 158 is \<open>intercepted_send\<close>.  The first component of a result is a value
  thrown out of the call.  The interceptor throws a \<^verbatim>\<open>TypeError\<close> when it reads a property of
  \<^verbatim>\<open>undefined\<close>, and at line 171 when a content type was derived: an array is truthy, and
  Express's \<^verbatim>\<open>res.set\<close> refuses an array as the value of \<^verbatim>\<open>Content-Type\<close>.  Its last
  statement is again a call of \<^verbatim>\<open>res.send\<close>.
\<close>

function send :: "options \<Rightarrow> jsval \<Rightarrow> world \<Rightarrow> jsval option \<times> world"
  and intercepted_send :: "options \<Rightarrow> jsval \<Rightarrow> world \<Rightarrow> jsval option \<times> world" where
  "send options b w =
     (if sendHooked (res w) then intercepted_send options b w else (None, original_send b w))"
| "intercepted_send options b w =
     (let w1 = w\<lparr>res := (res w)\<lparr>sendHooked := False\<rparr>\<rparr>;
          code = status_or_200 w1
      in case props (req w1) (reqOpenApiProperty options) of
           None \<Rightarrow> (Some TypeError, w1)
         | Some openapi \<Rightarrow>
            (case props (req w1) (reqOperationProperty options) of
               Some (POperation operation) \<Rightarrow>
                 (case derived_content_type openapi operation w1 of
                    Some type \<Rightarrow> (Some TypeError, w1)
                  | None \<Rightarrow>
                     (case response_fn operation code b (resHeaders (res w1)) of
                        Inl exception \<Rightarrow>
                          (None, next_local (errorFromException exception) (res_status (JNum 500) w1))
                      | Inr response \<Rightarrow>
                          send options
                            (case ser_body response of Some v \<Rightarrow> extractValue v | None \<Rightarrow> JUndefined)
                            (fold (\<lambda>(h, v). res_set h (extractValue v)) (ser_headers response) w1)))
             | _ \<Rightarrow> (Some TypeError, w1)))"
  by pat_completeness auto

termination
proof (relation "measure (\<lambda>x. case x of
                            Inl (options, b, w) \<Rightarrow> if sendHooked (res w) then 2 else 0
                          | Inr (options, b, w) \<Rightarrow> 1)")
  show "wf (measure (\<lambda>x. case x of
                            Inl (options, b, w) \<Rightarrow> if sendHooked (res w) then 2 else (0::nat)
                          | Inr (options, b, w) \<Rightarrow> 1))"
    by simp
next
  fix options :: options and b :: jsval and w :: world
  assume "sendHooked (res w)"
  then show "(Inr (options, b, w), Inl (options, b, w))
      \<in> measure (\<lambda>x. case x of
                            Inl (options, b, w) \<Rightarrow> if sendHooked (res w) then 2 else 0
                          | Inr (options, b, w) \<Rightarrow> 1)"
    by simp
next
  fix options :: options and b :: jsval and w w1 :: world and response :: serialized
  assume "w1 = w\<lparr>res := (res w)\<lparr>sendHooked := False\<rparr>\<rparr>"
  have "sendHooked (res (fold (\<lambda>(h, v). res_set h (extractValue v)) hs v)) = sendHooked (res v)"
    for hs v
    by (induction hs arbitrary: v) (simp_all add: split_def res_set_def)
  then have "\<not> sendHooked (res (fold (\<lambda>(h, v). res_set h (extractValue v)) (ser_headers response) w1))"
    using \<open>w1 = w\<lparr>res := (res w)\<lparr>sendHooked := False\<rparr>\<rparr>\<close> by simp
  then show "(Inl (options,
                   case ser_body response of Some v \<Rightarrow> extractValue v | None \<Rightarrow> JUndefined,
                   fold (\<lambda>(h, v). res_set h (extractValue v)) (ser_headers response) w1),
              Inr (options, b, w))
      \<in> measure (\<lambda>x. case x of
                            Inl (options, b, w) \<Rightarrow> if sendHooked (res w) then 2 else 0
                          | Inr (options, b, w) \<Rightarrow> 1)"
    by simp
qed

declare send.simps [simp del] intercepted_send.simps [simp del]

text \<open>Express's \<^verbatim>\<open>res.sendStatus\<close>: it sets the status code and sends the status text.  It is
  called at line 154 only, where \<^verbatim>\<open>res.send\<close> is the original function.\<close>

definition res_sendStatus :: "int \<Rightarrow> string \<Rightarrow> world \<Rightarrow> world" where
  "res_sendStatus code txt w = original_send (JStr txt) (res_status (JNum code) w)"

definition hasBody :: "platform \<Rightarrow> request \<Rightarrow> bool" where
  "hasBody pf r =
     (headers r ''transfer-encoding'' \<noteq> None \<or> \<not> js_isNaN pf (headers r ''content-length''))"

definition assign :: "('k \<rightharpoonup> 'v) option \<Rightarrow> ('k \<rightharpoonup> 'v) option \<Rightarrow> ('k \<rightharpoonup> 'v)" where
  "assign a b = (case a of None \<Rightarrow> Map.empty | Some m \<Rightarrow> m) ++ (case b of None \<Rightarrow> Map.empty | Some m \<Rightarrow> m)"

text \<open>Lines 200 to 203: the deserialized parameters and body are copied to the request.\<close>

definition copy_parameters :: "request_result \<Rightarrow> request \<Rightarrow> request" where
  "copy_parameters request r =
     (let r1 = r\<lparr>params := Some (case rq_path request of Some m \<Rightarrow> m | None \<Rightarrow> Map.empty)\<rparr>;
          r2 = r1\<lparr>cookies := Some (assign (cookies r1) (rq_cookies request))\<rparr>;
          r3 = r2\<lparr>headers := assign (Some (headers r2)) (rq_headers request)\<rparr>;
          r4 = r3\<lparr>params := Some (assign (params r3) (rq_params request))\<rparr>;
          r5 = r4\<lparr>query := Some (assign (query r4) (rq_query request))\<rparr>
      in case rq_body request of None \<Rightarrow> r5 | Some v \<Rightarrow> r5\<lparr>body := Some v\<rparr>)"

text \<open>Lines 140 to 145: the request handed to \<^verbatim>\<open>openapi.request\<close>.\<close>

definition requestObj :: "platform \<Rightarrow> request \<Rightarrow> request_obj" where
  "requestObj pf r =
     \<lparr>ro_headers = headers r, ro_method = req_method r,
      ro_path = drop (length (baseUrl r)) (originalUrl r),
      ro_body = (if hasBody pf r then body r else None)\<rparr>"

text \<open>
  The function returned by \<^verbatim>\<open>middleware()\<close> (lines 123 to 210), applied to a request.
  \<open>promise\<close> is the settled \<^verbatim>\<open>this.promise\<close>: the rejection value or the catalog.  \<open>req w\<close> is
  the request as the handlers of this middleware see it (the copy of line 136).  On entry
  \<^verbatim>\<open>res.send\<close> is the function the middleware keeps as the original.
\<close>

definition middleware :: "options \<Rightarrow> platform \<Rightarrow> jsval + openapi \<Rightarrow> world \<Rightarrow> world" where
  "middleware options pf promise w =
     (case promise of
        Inl err \<Rightarrow> next_local err w
      | Inr openapi \<Rightarrow>
         (case request_fn openapi (requestObj pf (req w)) of
            Inl clientError \<Rightarrow>
              if exc_statusCode clientError = Some 404 then
                (if fallthrough options then next_local JUndefined w
                 else res_sendStatus 404 ''Not Found'' w)
              else
                (let w1 = w\<lparr>res := (res w)\<lparr>sendHooked := True\<rparr>\<rparr>;
                     w2 = set_prop (reqOpenApiProperty options) (POpenapi openapi) w1
                 in case path_fn openapi (ro_method (requestObj pf (req w)))
                           (ro_path (requestObj pf (req w))) of
                      None \<Rightarrow> next_local TypeError w2
                    | Some operation \<Rightarrow>
                        middlewareRunner (opt_middleware options) True next_local
                          (errorFromException clientError)
                          (set_prop (reqOperationProperty options) (POperation operation) w2))
          | Inr request \<Rightarrow>
              (let w1 = w\<lparr>res := (res w)\<lparr>sendHooked := True\<rparr>\<rparr>;
                   w2 = set_prop (reqOpenApiProperty options) (POpenapi openapi) w1;
                   w3 = set_prop (reqOperationProperty options) (POperation (rq_operation request)) w2;
                   w4 = w3\<lparr>req := copy_parameters request (req w3)\<rparr>
               in middlewareRunner (opt_middleware options) True next_local JUndefined w4)))"

section \<open>The controllers middleware and the mock middleware\<close>

type_synonym registry = "nat \<rightharpoonup> handler"

text \<open>\<^verbatim>\<open>controllers.get(operation)\<close>: the \<^verbatim>\<open>Map\<close> is keyed by the operation object.\<close>

definition registry_get :: "registry \<Rightarrow> propval option \<Rightarrow> handler option" where
  "registry_get controllers operation =
     (case operation of Some (POperation op) \<Rightarrow> controllers (op_id op) | _ \<Rightarrow> None)"

text \<open>
  A controller is called as \<^verbatim>\<open>controller(req, res, next)\<close> inside a promise callback that
  ends in \<^verbatim>\<open>.catch(next)\<close> (and, in the mock middleware, inside \<^verbatim>\<open>try\<close>/\<^verbatim>\<open>catch\<close>): what it
  throws is handed to \<^verbatim>\<open>next\<close>.
\<close>

definition call_controller :: "handler \<Rightarrow> world \<Rightarrow> outcome \<times> world" where
  "call_controller controller w =
     (case invoke controller None w of
        (Throw e, w') \<Rightarrow> (CallNext e, w')
      | (CallNext e, w') \<Rightarrow> (CallNext e, w')
      | (End, w') \<Rightarrow> (End, w'))"

text \<open>The handler registered by \<^verbatim>\<open>controllers\<close> (lines 101 to 115).\<close>

definition controllers_middleware :: "options \<Rightarrow> jsval + registry \<Rightarrow> handler" where
  "controllers_middleware options promise =
     \<lparr>arity = 3,
      invoke = (\<lambda>_ w.
        case promise of
          Inl err \<Rightarrow> (CallNext err, w)
        | Inr controllers \<Rightarrow>
            (let operation = props (req w) (reqOperationProperty options);
                 controller = registry_get controllers operation
             in case controller of
                  Some c \<Rightarrow> call_controller c (res_set ENFORCER_HEADER (JStr ''controller'') w)
                | None \<Rightarrow> (CallNext JUndefined, w)))\<rparr>"

text \<open>
  Lines 230 to 251: the mock decision.  Both manual branches look the key up in
  \<^verbatim>\<open>req.headers\<close>; \<^verbatim>\<open>req.query\<close> is not read.
\<close>

definition first_code :: "string list \<Rightarrow> string option" where
  "first_code responseCodes = (case responseCodes of [] \<Rightarrow> None | c # cs \<Rightarrow> Some c)"

definition code_or_default :: "string option \<Rightarrow> string list \<Rightarrow> string" where
  "code_or_default requested responseCodes =
     (case or_else (or_else requested (first_code responseCodes)) (Some []) of
        Some s \<Rightarrow> s | None \<Rightarrow> [])"

definition mock_decision :: "options \<Rightarrow> bool \<Rightarrow> request \<Rightarrow> string list \<Rightarrow> mock option" where
  "mock_decision options automatic r responseCodes =
     (let mockHeaderKey = mockHeader options;
          mockQueryKey = mockQuery options
      in if headers r mockHeaderKey \<noteq> None then
           Some \<lparr>source = ''header'',
                 specified = (headers r mockHeaderKey \<noteq> Some []),
                 mock_statusCode = code_or_default (headers r mockHeaderKey) responseCodes,
                 mock_response = None\<rparr>
         else if headers r mockQueryKey \<noteq> None then
           Some \<lparr>source = ''query'',
                 specified = (headers r mockQueryKey \<noteq> Some []),
                 mock_statusCode = code_or_default (headers r mockHeaderKey) responseCodes,
                 mock_response = None\<rparr>
         else if automatic then
           Some \<lparr>source = ''automatic'',
                 specified = False,
                 mock_statusCode = code_or_default None responseCodes,
                 mock_response = None\<rparr>
         else None)"

text \<open>
  Line 257: \<^verbatim>\<open>_openapi.swagger ? 2 : /^(\d+)/.exec(_openapi.openapi)[0]\<close>.  The result is the
  number 2 or a string of digits; \<open>None\<close> stands for the \<^verbatim>\<open>TypeError\<close> of indexing the
  \<^verbatim>\<open>null\<close> of a failed match.
\<close>

definition is_digit :: "char \<Rightarrow> bool" where
  "is_digit c = (c \<in> set ''0123456789'')"

definition version_of :: "openapi \<Rightarrow> jsval option" where
  "version_of api =
     (if truthy_opt (swagger api) then Some (JNum 2)
      else (case takeWhile is_digit (case openapi_version api of Some s \<Rightarrow> s | None \<Rightarrow> ''undefined'') of
              [] \<Rightarrow> None
            | ds \<Rightarrow> Some (JStr ds)))"

definition unableToMock :: "exception \<Rightarrow> world \<Rightarrow> outcome \<times> world" where
  "unableToMock exception w =
     (CallNext (errorFromException
        (exc_set_statusCode 501 (exc_message [] ''Unable to generate mock response'' exception))), w)"

text \<open>Lines 284 to 294 and 301 to 311: a random value of the schema, then status and send.\<close>

definition mock_from_schema ::
  "options \<Rightarrow> exception \<Rightarrow> mock \<Rightarrow> schema \<Rightarrow> world \<Rightarrow> outcome \<times> world" where
  "mock_from_schema options exception mock sch w =
     (case random sch of
        (v, Some err, warning) \<Rightarrow> unableToMock (exc_push err exception) w
      | (v, None, Some warning) \<Rightarrow> unableToMock (exc_push warning exception) w
      | (v, None, None) \<Rightarrow>
          (case send options v (res_status (JStr (mock_statusCode mock)) w) of
             (Some thrown, w') \<Rightarrow> (CallNext thrown, w')
           | (None, w') \<Rightarrow> (End, w')))"

text \<open>
  Lines 280 to 318: the generation of a mock response when no controller is bound.
  \<^verbatim>\<open>version === 2\<close> and \<^verbatim>\<open>version === 3\<close> are strict comparisons with numbers.  At line 298
  \<^verbatim>\<open>type\<close> is the whole result object, used as a property key at line 299.
\<close>

definition generate_mock ::
  "options \<Rightarrow> jsval \<Rightarrow> exception \<Rightarrow> operation \<Rightarrow> mock \<Rightarrow> response_spec \<Rightarrow> world
     \<Rightarrow> outcome \<times> world" where
  "generate_mock options version exception operation mock response w =
     (if version = JNum 2 \<and> rs_schema response \<noteq> None then
        (case rs_schema response of
           Some sch \<Rightarrow> mock_from_schema options exception mock sch w
         | None \<Rightarrow> unableToMock exception w)
      else if version = JNum 3 \<and> rs_content response \<noteq> None then
        (case rs_content response of
           Some content \<Rightarrow>
             (let type = getResponseContentTypeMatches operation (JStr (mock_statusCode mock))
                           (accepts_or_any (req w))
              in case content (cm_text type) of
                   None \<Rightarrow> (CallNext TypeError, w)
                 | Some media \<Rightarrow>
                     (case mt_schema media of
                        Some sch \<Rightarrow> mock_from_schema options exception mock sch w
                      | None \<Rightarrow>
                          unableToMock (exc_message [] ''No schema associated with response'' exception) w))
         | None \<Rightarrow> unableToMock exception w)
      else unableToMock exception w)"

text \<open>
  The handler registered by \<^verbatim>\<open>mocks\<close> (lines 222 to 323); \<open>controllers\<close> is the registry
  of mock controllers, \<open>api\<close> the catalog kept in \<^verbatim>\<open>_openapi\<close>.
\<close>

definition mocks_middleware :: "options \<Rightarrow> bool \<Rightarrow> openapi \<Rightarrow> jsval + registry \<Rightarrow> handler" where
  "mocks_middleware options automatic api promise =
     \<lparr>arity = 3,
      invoke = (\<lambda>_ w.
        case promise of
          Inl err \<Rightarrow> (CallNext err, w)
        | Inr controllers \<Rightarrow>
            (case props (req w) (reqOperationProperty options) of
               Some (POperation operation) \<Rightarrow>
                 (let controller = registry_get controllers (Some (POperation operation));
                      responseCodes = map fst (responses operation)
                  in case mock_decision options automatic (req w) responseCodes of
                       None \<Rightarrow> (CallNext JUndefined, w)
                     | Some mock0 \<Rightarrow>
                        (case version_of api of
                           None \<Rightarrow> (CallNext TypeError, w)
                         | Some version \<Rightarrow>
                            (let exception = exc_set_statusCode 400
                                   (new_Exception ''Unable to generate mock response'');
                                 mock = mock0\<lparr>mock_response :=
                                          map_of (responses operation) (mock_statusCode mock0)\<rparr>;
                                 w1 = set_prop (reqMockStatusCodeProperty options) (PMock mock) w
                             in case controller of
                                  Some c \<Rightarrow>
                                    call_controller c (res_set ENFORCER_HEADER (JStr ''mock'') w1)
                                | None \<Rightarrow>
                                   (case mock_response mock of
                                      None \<Rightarrow>
                                        (CallNext (errorFromException
                                           (exc_message []
                                              (''No response is defined for status code: '' @ mock_statusCode mock)
                                              exception)), w1)
                                    | Some response \<Rightarrow>
                                        generate_mock options version exception operation mock response w1))))
             | _ \<Rightarrow> (CallNext TypeError, w)))\<rparr>"

text \<open>\<^verbatim>\<open>use\<close> appends a handler to \<^verbatim>\<open>options.middleware\<close>.\<close>

definition use :: "handler \<Rightarrow> options \<Rightarrow> options" where
  "use h options = options\<lparr>opt_middleware := opt_middleware options @ [h]\<rparr>"

section \<open>The controller registry: mapControllers\<close>

text \<open>
  The controllers target: a directory path, an object of controllers, a function that
  returns the object (\<open>Inr None\<close> when it returns anything but a non-null object, \<open>Inl\<close>
  when it throws), or any other value.  The object is read by property access only: the
  map gives, for a name, the controller that \<^verbatim>\<open>controllersTarget[name]\<close> yields, own or
  inherited, and \<open>None\<close> where that value is falsy (line 432).
\<close>

datatype target =
    TString string
  | TObject "string \<rightharpoonup> property_access"
  | TFunction "jsval list \<Rightarrow> jsval + (string \<rightharpoonup> property_access) option"
  | TOther

text \<open>What \<^verbatim>\<open>mapControllers\<close> throws: \<^verbatim>\<open>Error(exception.toString())\<close> for an exception it built,
  or what the target function threw.\<close>

datatype mc_error = Rendered exception | Rethrown jsval

text \<open>Lines 333 to 345.\<close>

definition exceptionPushError :: "seg list \<Rightarrow> js_error \<Rightarrow> exception \<Rightarrow> exception" where
  "exceptionPushError child error exception =
     (case e_stack error of
        [] \<Rightarrow> exc_message child (e_string error) exception
      | l # lines \<Rightarrow>
          fold (\<lambda>line. exc_message (child @ [Nest l]) line) (takeWhile (\<lambda>line. line \<noteq> []) lines) exception)"

text \<open>The state of the scan: \<^verbatim>\<open>loadedControllers\<close>, \<^verbatim>\<open>map\<close> and \<^verbatim>\<open>exception\<close>.\<close>

record scan =
  loadedControllers :: "string \<rightharpoonup> own_properties"
  controller_map :: registry
  scan_exception :: exception

text \<open>Lines 455 to 457: the function stored for an array of handlers.\<close>

definition array_handler :: "handler list \<Rightarrow> handler" where
  "array_handler middlewareArray =
     \<lparr>arity = 3,
      invoke = (\<lambda>_ w.
        case run False middlewareArray JUndefined w of
          (Some e, w') \<Rightarrow> (CallNext e, w')
        | (None, w') \<Rightarrow> (End, w'))\<rparr>"

fun not_a_function_messages :: "seg list \<Rightarrow> nat \<Rightarrow> hval list \<Rightarrow> exception \<Rightarrow> exception" where
  "not_a_function_messages grandChild i [] exception = exception"
| "not_a_function_messages grandChild i (item # items) exception =
     not_a_function_messages grandChild (Suc i) items
       (if is_function item then exception
        else exc_message (grandChild @ [AtIndex i]) ''Not a function'' exception)"

text \<open>Lines 442 to 463: a handler that was found is validated and stored.\<close>

definition store_handler :: "seg list \<Rightarrow> operation \<Rightarrow> hval \<Rightarrow> scan \<Rightarrow> scan" where
  "store_handler child operation handler st =
     (case handler of
        HFalsy \<Rightarrow> st
      | HArr items \<Rightarrow>
          st\<lparr>scan_exception :=
                not_a_function_messages
                  (child @ [Nest ''Expected a function or an array of functions'']) 0 items
                  (scan_exception st),
             controller_map := (controller_map st)(op_id operation \<mapsto> array_handler (functions_of items))\<rparr>
      | HFun f \<Rightarrow> st\<lparr>controller_map := (controller_map st)(op_id operation \<mapsto> f)\<rparr>
      | HOther text \<Rightarrow>
          st\<lparr>scan_exception :=
                exc_message child
                  (''Expected a function or an array of functions. Received: '' @ text)
                  (scan_exception st)\<rparr>)"

text \<open>
  Lines 409 to 428: the controller of a directory target is loaded once per resolved path.
  The result is the cache and either the error caught by the \<^verbatim>\<open>catch\<close> clause or the
  controller.  Calling \<^verbatim>\<open>hasOwnProperty\<close> on a controller that is \<^verbatim>\<open>null\<close> or \<^verbatim>\<open>undefined\<close> throws
  a \<^verbatim>\<open>TypeError\<close>, which has no \<^verbatim>\<open>code\<close>.
\<close>

definition load_controller ::
  "platform \<Rightarrow> jsval list \<Rightarrow> string \<Rightarrow> (string \<rightharpoonup> own_properties)
     \<Rightarrow> (string \<rightharpoonup> own_properties) \<times> (js_error + own_properties)" where
  "load_controller pf dependencyInjection controllerPath loaded =
     (case loaded controllerPath of
        Some c \<Rightarrow> (loaded, Inr c)
      | None \<Rightarrow>
          (case require pf controllerPath of
             LoadThrows e \<Rightarrow> (loaded, Inl e)
           | ModuleLoaded (MVal None) \<Rightarrow> (loaded, Inl ((null_TypeError pf)\<lparr>e_code := None\<rparr>))
           | ModuleLoaded (MVal (Some c)) \<Rightarrow> (loaded(controllerPath \<mapsto> c), Inr c)
           | ModuleLoaded (MFun f) \<Rightarrow>
               (case f dependencyInjection of
                  Inl e \<Rightarrow> (loaded, Inl e)
                | Inr None \<Rightarrow> (loaded, Inl ((null_TypeError pf)\<lparr>e_code := None\<rparr>))
                | Inr (Some c) \<Rightarrow> (loaded(controllerPath \<mapsto> c), Inr c))))"

text \<open>
  Lines 408 to 439: the handler bound to the operation name, or a recorded message.  For a
  directory the loaded controller must have the operation name as an own property; for an
  object target both the controller and the handler are read by property access, and
  either is missing when the value read is falsy.
\<close>

definition find_handler ::
  "platform \<Rightarrow> jsval list \<Rightarrow> (string + (string \<rightharpoonup> property_access)) \<Rightarrow> string \<Rightarrow> string \<Rightarrow> scan
     \<Rightarrow> hval option \<times> scan" where
  "find_handler pf dependencyInjection controllersTarget controllerName operationName st =
     (let child = [At controllerName] in
      case controllersTarget of
        Inl dir \<Rightarrow>
          (case load_controller pf dependencyInjection (path_resolve pf dir controllerName)
                  (loadedControllers st) of
             (loaded, Inl err) \<Rightarrow>
               (None,
                st\<lparr>loadedControllers := loaded,
                   scan_exception :=
                     (if e_code err = Some ''MODULE_NOT_FOUND''
                      then exc_message child ''Controller file not found'' (scan_exception st)
                      else exceptionPushError child err (scan_exception st))\<rparr>)
           | (loaded, Inr controller) \<Rightarrow>
               (case controller operationName of
                  None \<Rightarrow>
                    (None,
                     st\<lparr>loadedControllers := loaded,
                        scan_exception :=
                          exc_message child (''Operation not found: '' @ operationName) (scan_exception st)\<rparr>)
                | Some h \<Rightarrow> (Some h, st\<lparr>loadedControllers := loaded\<rparr>)))
      | Inr obj \<Rightarrow>
          (case obj controllerName of
             None \<Rightarrow>
               (None, st\<lparr>scan_exception := exc_message child ''Controller not found'' (scan_exception st)\<rparr>)
           | Some controller \<Rightarrow>
               (case controller operationName of
                  None \<Rightarrow>
                    (None,
                     st\<lparr>scan_exception :=
                          exc_message child (''Controller operation not found: '' @ operationName)
                            (scan_exception st)\<rparr>)
                | Some h \<Rightarrow>
                    if hval_truthy h then (Some h, st)
                    else (None,
                          st\<lparr>scan_exception :=
                               exc_message child (''Controller operation not found: '' @ operationName)
                                 (scan_exception st)\<rparr>))))"

text \<open>Lines 399 to 464: one operation of one path item.\<close>

definition scan_operation ::
  "platform \<Rightarrow> options \<Rightarrow> jsval list \<Rightarrow> (string + (string \<rightharpoonup> property_access))
     \<Rightarrow> string option \<Rightarrow> string option \<Rightarrow> operation option \<Rightarrow> scan \<Rightarrow> scan" where
  "scan_operation pf options dependencyInjection controllersTarget rootController pathController
     operation st =
     (case operation of
        None \<Rightarrow> st
      | Some op \<Rightarrow>
         (let operationController = op_props op (xController options);
              controllerName = or_else (or_else operationController pathController) rootController;
              operationName = or_else (op_props op (xOperation options)) (op_props op ''operationId'')
          in if truthy_str controllerName \<and> truthy_str operationName then
               (case (controllerName, operationName) of
                  (Some cn, Some opn) \<Rightarrow>
                    (case find_handler pf dependencyInjection controllersTarget cn opn st of
                       (None, st1) \<Rightarrow> st1
                     | (Some h, st1) \<Rightarrow> store_handler [At cn] op h st1)
                | _ \<Rightarrow> st)
             else st))"

text \<open>Lines 394 to 466: every method of every path item, in order.\<close>

definition scan_path ::
  "platform \<Rightarrow> options \<Rightarrow> jsval list \<Rightarrow> (string + (string \<rightharpoonup> property_access))
     \<Rightarrow> string option \<Rightarrow> path_item \<Rightarrow> scan \<Rightarrow> scan" where
  "scan_path pf options dependencyInjection controllersTarget rootController pathItem st =
     fold (\<lambda>m. scan_operation pf options dependencyInjection controllersTarget rootController
                  (pi_props pathItem (xController options)) (pi_operations pathItem m))
       (methods pathItem) st"

definition scan_paths ::
  "platform \<Rightarrow> options \<Rightarrow> jsval list \<Rightarrow> (string + (string \<rightharpoonup> property_access))
     \<Rightarrow> openapi \<Rightarrow> exception \<Rightarrow> scan" where
  "scan_paths pf options dependencyInjection controllersTarget api exception =
     fold (\<lambda>(pathKey, pathItem).
             scan_path pf options dependencyInjection controllersTarget
               (api_props api (xController options)) pathItem)
       (paths api)
       \<lparr>loadedControllers = Map.empty, controller_map = Map.empty, scan_exception = exception\<rparr>"

text \<open>Lines 468 and 469.\<close>

definition finish_scan :: "scan \<Rightarrow> mc_error + registry" where
  "finish_scan st =
     (if hasException (scan_exception st) then Inl (Rendered (scan_exception st))
      else Inr (controller_map st))"

definition mockStr :: "bool \<Rightarrow> string" where
  "mockStr isMock = (if isMock then ''mock '' else [])"

definition mapControllers ::
  "platform \<Rightarrow> openapi \<Rightarrow> bool \<Rightarrow> target \<Rightarrow> jsval list \<Rightarrow> options \<Rightarrow> mc_error + registry" where
  "mapControllers pf api isMock controllersTarget dependencyInjection options =
     (case controllersTarget of
        TOther \<Rightarrow>
          Inl (Rendered (exc_message []
            ''Controllers target must be a string, a non-null object, or a function that returns a non-null object''
            (new_Exception (''Unable to load '' @ mockStr isMock @ ''controllers''))))
      | TFunction f \<Rightarrow>
          (case f dependencyInjection of
             Inl thrown \<Rightarrow> Inl (Rethrown thrown)
           | Inr None \<Rightarrow>
               Inl (Rendered (exc_message []
                 ''Controllers target function must return a non-null object''
                 (new_Exception (''Unable to load '' @ mockStr isMock @ ''controllers''))))
           | Inr (Some obj) \<Rightarrow>
               finish_scan (scan_paths pf options dependencyInjection (Inr obj) api
                 (new_Exception (''Unable to load one or more '' @ mockStr isMock @ ''controllers''))))
      | TObject obj \<Rightarrow>
          finish_scan (scan_paths pf options dependencyInjection (Inr obj) api
            (new_Exception (''Unable to load one or more '' @ mockStr isMock @ ''controllers'')))
      | TString dir \<Rightarrow>
          finish_scan (scan_paths pf options dependencyInjection (Inl dir) api
            (new_Exception
               (''Unable to load one or more '' @ mockStr isMock @ ''directory controllers within '' @ dir))))"

text \<open>
  The promise of \<^verbatim>\<open>controllers\<close> and \<^verbatim>\<open>mocks\<close>: \<^verbatim>\<open>this.promise.then(openapi => mapControllers(...))\<close>.
\<close>

definition registry_promise ::
  "platform \<Rightarrow> jsval + openapi \<Rightarrow> bool \<Rightarrow> target \<Rightarrow> jsval list \<Rightarrow> options \<Rightarrow> jsval + registry" where
  "registry_promise pf promise isMock controllersTarget dependencyInjection options =
     (case promise of
        Inl err \<Rightarrow> Inl err
      | Inr api \<Rightarrow>
          (case mapControllers pf api isMock controllersTarget dependencyInjection options of
             Inl (Rendered exception) \<Rightarrow> Inl (JTextError exception)
           | Inl (Rethrown thrown) \<Rightarrow> Inl thrown
           | Inr controllers \<Rightarrow> Inr controllers))"

section \<open>Concrete requests and handlers used in the examples\<close>

text \<open>A handler that appends its number to \<open>flow\<close> and then ends in the given way.\<close>

definition pushing :: "nat \<Rightarrow> nat \<Rightarrow> outcome \<Rightarrow> handler" where
  "pushing n k out = \<lparr>arity = n, invoke = (\<lambda>_ w. (out, w\<lparr>flow := flow w @ [k]\<rparr>))\<rparr>"

definition request0 :: request where
  "request0 = \<lparr>headers = Map.empty, req_method = ''GET'', originalUrl = ''/people'', baseUrl = [],
     body = None, params = None, cookies = None, query = None, props = Map.empty\<rparr>"

definition world0 :: world where
  "world0 = \<lparr>req = request0,
      res = \<lparr>statusCode = JNum 200, resHeaders = Map.empty, sendHooked = False, sent = []\<rparr>,
      hostNext = [], flow = []\<rparr>"

text \<open>The same handler, except that where it would throw it hands the value to the
  advance callback instead.\<close>

definition throws_as_next :: "handler \<Rightarrow> handler" where
  "throws_as_next m =
     m\<lparr>invoke := (\<lambda>a w. case invoke m a w of
                     (Throw e, w') \<Rightarrow> (CallNext e, w')
                   | (CallNext e, w') \<Rightarrow> (CallNext e, w')
                   | (End, w') \<Rightarrow> (End, w'))\<rparr>"

section \<open>A concrete catalog: GET /people\<close>

text \<open>
  A Swagger 2 catalog with one operation, \<^verbatim>\<open>GET /people\<close>, whose only declared response is
  200 with an array schema.  Its response capability accepts an array and returns it as
  the body; anything else is a validation failure.  \<^verbatim>\<open>getResponseContentTypeMatches\<close> is not
  called for a Swagger 2 catalog; the fixture reports no match.
\<close>

definition people_schema :: schema where
  "people_schema = \<lparr>random = (JArr [JObj [(''name'', JStr ''Ann'')]], None, None)\<rparr>"

definition people_200 :: response_spec where
  "people_200 = \<lparr>rs_schema = Some people_schema, rs_content = None\<rparr>"

definition invalid_response :: exception where
  "invalid_response = Exception ''Response invalid'' [([], ''Expected an array'')] [] None"

fun people_response :: "jsval \<Rightarrow> jsval \<Rightarrow> (string \<rightharpoonup> jsval) \<Rightarrow> exception + serialized" where
  "people_response code (JArr xs) hdrs = Inr \<lparr>ser_headers = [], ser_body = Some (JArr xs)\<rparr>"
| "people_response code b hdrs = Inl invalid_response"

definition get_people :: operation where
  "get_people = \<lparr>op_id = 1,
     op_props = [''x-controller'' \<mapsto> ''people'', ''operationId'' \<mapsto> ''getPeople''],
     responses = [(''200'', people_200)],
     response_fn = people_response,
     getResponseContentTypeMatches =
       (\<lambda>code accepts. \<lparr>cm_value = None, cm_text = ''[object Object]''\<rparr>)\<rparr>"

definition not_found :: exception where
  "not_found = Exception ''Request has one or more errors'' [([], ''Path not found'')] [] (Some 404)"

definition people_api :: openapi where
  "people_api = \<lparr>swagger = Some (JStr ''2.0''), openapi_version = None, api_props = Map.empty,
     paths = [(''/people'', \<lparr>pi_props = Map.empty, methods = [''get''],
                              pi_operations = [''get'' \<mapsto> get_people]\<rparr>)],
     request_fn = (\<lambda>ro. if ro_path ro = ''/people''
                          then Inr \<lparr>rq_operation = get_people, rq_path = Some Map.empty,
                                    rq_cookies = None, rq_headers = Some Map.empty,
                                    rq_params = None, rq_query = Some Map.empty, rq_body = None\<rparr>
                          else Inl not_found),
     path_fn = (\<lambda>m p. if p = ''/people'' then Some get_people else None)\<rparr>"

text \<open>
  The global \<^verbatim>\<open>isNaN\<close> on a header value.  \<^verbatim>\<open>undefined\<close> converts to \<^verbatim>\<open>NaN\<close>.  A string converts
  to a number when, with the white space around it dropped, it is empty, or a binary,
  octal or hexadecimal integer literal, or a decimal literal (digits with an optional
  sign, fraction and exponent, or \<^verbatim>\<open>Infinity\<close>), and to \<^verbatim>\<open>NaN\<close> otherwise.
\<close>

definition is_space :: "char \<Rightarrow> bool" where
  "is_space c = (c \<in> set [CHR 0x09, CHR 0x0A, CHR 0x0B, CHR 0x0C, CHR 0x0D, CHR 0x20, CHR 0xA0])"

definition trim :: "string \<Rightarrow> string" where
  "trim s = rev (dropWhile is_space (rev (dropWhile is_space s)))"

definition digits_in :: "string \<Rightarrow> string \<Rightarrow> bool" where
  "digits_in alphabet s = (s \<noteq> [] \<and> list_all (\<lambda>c. c \<in> set alphabet) s)"

definition is_exponent_part :: "string \<Rightarrow> bool" where
  "is_exponent_part s =
     (case s of
        [] \<Rightarrow> True
      | c # r \<Rightarrow>
          (c = CHR ''e'' \<or> c = CHR ''E'') \<and>
          (case r of
             [] \<Rightarrow> False
           | d # r' \<Rightarrow>
               if d = CHR ''+'' \<or> d = CHR ''-'' then digits_in ''0123456789'' r'
               else digits_in ''0123456789'' r))"

definition is_unsigned_decimal :: "string \<Rightarrow> bool" where
  "is_unsigned_decimal s =
     (s = ''Infinity'' \<or>
      (let whole = takeWhile is_digit s; r = dropWhile is_digit s
       in case r of
            [] \<Rightarrow> whole \<noteq> []
          | c # r1 \<Rightarrow>
              if c = CHR ''.''
              then (whole \<noteq> [] \<or> takeWhile is_digit r1 \<noteq> []) \<and>
                   is_exponent_part (dropWhile is_digit r1)
              else whole \<noteq> [] \<and> is_exponent_part r))"

definition is_radix_integer :: "string \<Rightarrow> bool" where
  "is_radix_integer s =
     (take 2 s \<in> {''0x'', ''0X''} \<and> digits_in ''0123456789abcdefABCDEF'' (drop 2 s)
      \<or> take 2 s \<in> {''0o'', ''0O''} \<and> digits_in ''01234567'' (drop 2 s)
      \<or> take 2 s \<in> {''0b'', ''0B''} \<and> digits_in ''01'' (drop 2 s))"

definition is_numeric_string :: "string \<Rightarrow> bool" where
  "is_numeric_string s =
     (let t = trim s
      in t = [] \<or> is_radix_integer t \<or>
         (case t of
            [] \<Rightarrow> True
          | c # r \<Rightarrow>
              if c = CHR ''+'' \<or> c = CHR ''-'' then is_unsigned_decimal r
              else is_unsigned_decimal t))"

definition isNaN :: "string option \<Rightarrow> bool" where
  "isNaN h = (case h of None \<Rightarrow> True | Some s \<Rightarrow> \<not> is_numeric_string s)"

text \<open>
  \<^verbatim>\<open>path.resolve(base, name)\<close> on a POSIX system with the working directory \<open>cwd\<close> (an
  absolute path): the rightmost absolute argument and what follows it, below the working
  directory when neither is absolute; then empty and \<^verbatim>\<open>.\<close> segments are dropped and a
  \<^verbatim>\<open>..\<close> segment removes the segment before it.
\<close>

fun split_slash :: "string \<Rightarrow> string \<Rightarrow> string list" where
  "split_slash seg [] = [rev seg]"
| "split_slash seg (c # cs) =
     (if c = CHR ''/'' then rev seg # split_slash [] cs else split_slash (c # seg) cs)"

fun normalize_segments :: "string list \<Rightarrow> string list \<Rightarrow> string list" where
  "normalize_segments kept [] = rev kept"
| "normalize_segments kept (x # xs) =
     (if x = [] \<or> x = ''.'' then normalize_segments kept xs
      else if x = ''..'' then normalize_segments (tl kept) xs
      else normalize_segments (x # kept) xs)"

definition posix_resolve :: "string \<Rightarrow> string \<Rightarrow> string \<Rightarrow> string" where
  "posix_resolve cwd base name =
     (let whole = (if take 1 name = ''/'' then name
                   else if take 1 base = ''/'' then base @ ''/'' @ name
                   else cwd @ ''/'' @ base @ ''/'' @ name);
          segs = normalize_segments [] (split_slash [] whole)
      in if segs = [] then ''/'' else concat (map (\<lambda>x. CHR ''/'' # x) segs))"

text \<open>
  The platform of the examples: the working directory is \<^verbatim>\<open>/app\<close> and no module can be
  loaded.  Of the text of the errors the examples keep a first line and one frame.
\<close>

definition module_not_found :: "string \<Rightarrow> js_error" where
  "module_not_found p =
     \<lparr>e_code = Some ''MODULE_NOT_FOUND'',
      e_stack = [''Error: Cannot find module '' @ p, ''    at require''],
      e_string = ''Error: Cannot find module '' @ p\<rparr>"

definition node :: platform where
  "node = \<lparr>js_isNaN = isNaN,
     path_resolve = posix_resolve ''/app'',
     require = (\<lambda>p. LoadThrows (module_not_found p)),
     null_TypeError = \<lparr>e_code = None,
                       e_stack = [''TypeError: Cannot read property hasOwnProperty of null'',
                                  ''    at mapControllers''],
                       e_string = ''TypeError: Cannot read property hasOwnProperty of null''\<rparr>\<rparr>"

text \<open>The options with every default of the constructor (lines 65 to 75).\<close>

definition options0 :: options where
  "options0 = \<lparr>fallthrough = True, opt_middleware = [], mockHeader = ''x-mock'', mockQuery = ''x-mock'',
     reqMockStatusCodeProperty = ''mockStatusCode'', reqOpenApiProperty = ''openapi'',
     reqOperationProperty = ''operation'', xController = ''x-controller'', xOperation = ''x-operation''\<rparr>"

text \<open>A handler that calls \<^verbatim>\<open>res.send(b)\<close> and returns.\<close>

definition sender :: "options \<Rightarrow> jsval \<Rightarrow> handler" where
  "sender options b =
     \<lparr>arity = 3,
      invoke = (\<lambda>_ w. case send options b w of
                         (Some thrown, w') \<Rightarrow> (Throw thrown, w')
                       | (None, w') \<Rightarrow> (End, w'))\<rparr>"

text \<open>A handler that calls \<^verbatim>\<open>res.send\<close> twice.\<close>

definition sender2 :: "options \<Rightarrow> jsval \<Rightarrow> jsval \<Rightarrow> handler" where
  "sender2 options b1 b2 =
     \<lparr>arity = 3,
      invoke = (\<lambda>_ w. case send options b1 w of
                         (Some thrown, w') \<Rightarrow> (Throw thrown, w')
                       | (None, w') \<Rightarrow>
                           (case send options b2 w' of
                              (Some thrown, w'') \<Rightarrow> (Throw thrown, w'')
                            | (None, w'') \<Rightarrow> (End, w'')))\<rparr>"

text \<open>
  The state in which the chain of a request to \<^verbatim>\<open>GET /people\<close> with the given headers starts:
  the interceptor is installed and the catalog and the operation are attached under the
  default property names.
\<close>

definition people_world :: "(string \<rightharpoonup> string) \<Rightarrow> world" where
  "people_world hs =
     set_prop ''operation'' (POperation get_people)
       (set_prop ''openapi'' (POpenapi people_api)
          (world0\<lparr>req := request0\<lparr>headers := hs\<rparr>, res := (res world0)\<lparr>sendHooked := True\<rparr>\<rparr>))"

text \<open>The status code of the error with which a handler advanced, if it did.\<close>

fun outcome_status :: "outcome \<Rightarrow> nat option" where
  "outcome_status (CallNext e) = err_statusCode e"
| "outcome_status (Throw e) = err_statusCode e"
| "outcome_status End = None"

text \<open>
  The same operation with a response capability that rejects every body, and the state
  in which the chain starts for it.
\<close>

definition rejecting_people :: operation where
  "rejecting_people = get_people\<lparr>response_fn := (\<lambda>code b hdrs. Inl invalid_response)\<rparr>"

definition rejecting_world :: "(string \<rightharpoonup> string) \<Rightarrow> world" where
  "rejecting_world hs = set_prop ''operation'' (POperation rejecting_people) (people_world hs)"

section \<open>A concrete OpenAPI 3 catalog\<close>

text \<open>
  The catalog of \<^verbatim>\<open>GET /people\<close> as an OpenAPI 3 document: the 200 response has the content
  type \<^verbatim>\<open>application/json\<close> with the array schema.  For the status code 200 and a request
  that accepts anything or JSON the matches are that one type; for other requests the
  fixture reports no match.
\<close>

definition people_200_v3 :: response_spec where
  "people_200_v3 =
     \<lparr>rs_schema = None, rs_content = Some [''application/json'' \<mapsto> \<lparr>mt_schema = Some people_schema\<rparr>]\<rparr>"

definition get_people_v3 :: operation where
  "get_people_v3 =
     get_people\<lparr>responses := [(''200'', people_200_v3)],
       getResponseContentTypeMatches :=
         (\<lambda>code accepts.
            \<lparr>cm_value = (if code \<in> {JNum 200, JStr ''200''} \<and> accepts \<in> {''*/*'', ''application/json''}
                          then Some [''application/json''] else None),
             cm_text = ''[object Object]''\<rparr>)\<rparr>"

definition people_api_v3 :: openapi where
  "people_api_v3 =
     \<lparr>swagger = None, openapi_version = Some ''3.0.0'', api_props = Map.empty,
      paths = [(''/people'', \<lparr>pi_props = Map.empty, methods = [''get''],
                               pi_operations = [''get'' \<mapsto> get_people_v3]\<rparr>)],
      request_fn = (\<lambda>ro. if ro_path ro = ''/people''
                           then Inr \<lparr>rq_operation = get_people_v3, rq_path = Some Map.empty,
                                     rq_cookies = None, rq_headers = Some Map.empty,
                                     rq_params = None, rq_query = Some Map.empty, rq_body = None\<rparr>
                           else Inl not_found),
      path_fn = (\<lambda>m p. if p = ''/people'' then Some get_people_v3 else None)\<rparr>"

section \<open>The request copy, at the level of the object store\<close>

text \<open>
  Line 136 makes a shallow copy of the host's request object and every later write of the
  middleware goes to that copy.  Whether the host's object is left alone depends on which
  objects are shared, so this part of \<^verbatim>\<open>middleware\<close> is also modelled over a store of
  objects: an address is an index into the store, an object maps property names to values,
  and a value is a plain value, a reference to an object, or one of the objects the
  middleware attaches.  The objects returned by \<^verbatim>\<open>openapi.request\<close> are new objects; they
  enter the store when the middleware first uses them.
\<close>

type_synonym addr = nat

datatype sval = SJs jsval | SRef addr | SProp propval

type_synonym obj = "string \<rightharpoonup> sval"

type_synonym store = "obj list"

definition alloc :: "obj \<Rightarrow> store \<Rightarrow> store \<times> addr" where
  "alloc ob s = (s @ [ob], length s)"

definition put :: "addr \<Rightarrow> string \<Rightarrow> sval \<Rightarrow> store \<Rightarrow> store" where
  "put a k v s = (if a < length s then s[a := (s ! a)(k \<mapsto> v)] else s)"

definition get :: "store \<Rightarrow> addr \<Rightarrow> string \<Rightarrow> sval option" where
  "get s a k = (if a < length s then (s ! a) k else None)"

text \<open>The own properties that \<^verbatim>\<open>Object.assign\<close> copies from a source: those of the object
  referred to; none for \<^verbatim>\<open>undefined\<close>, \<^verbatim>\<open>null\<close> and the other plain values.\<close>

definition own_props :: "store \<Rightarrow> sval option \<Rightarrow> obj" where
  "own_props s v =
     (case v of Some (SRef a) \<Rightarrow> (if a < length s then s ! a else Map.empty) | _ \<Rightarrow> Map.empty)"

definition js_obj :: "(string \<rightharpoonup> jsval) option \<Rightarrow> obj" where
  "js_obj m = (case m of None \<Rightarrow> Map.empty | Some f \<Rightarrow> (\<lambda>k. map_option SJs (f k)))"

definition str_obj :: "(string \<rightharpoonup> string) option \<Rightarrow> obj" where
  "str_obj m = (case m of None \<Rightarrow> Map.empty | Some f \<Rightarrow> (\<lambda>k. map_option (\<lambda>x. SJs (JStr x)) (f k)))"

text \<open>Line 202, for one key: \<^verbatim>\<open>req[key] = Object.assign({}, req[key], request[key])\<close>.\<close>

definition merge_key :: "string \<Rightarrow> obj \<Rightarrow> addr \<Rightarrow> store \<Rightarrow> store" where
  "merge_key key from_request c s =
     (case alloc (own_props s (get s c key) ++ from_request) s of
        (s', a) \<Rightarrow> put c key (SRef a) s')"

text \<open>Lines 198 to 203 on the copy at address \<open>c\<close>.\<close>

definition attach_parameters :: "options \<Rightarrow> request_result \<Rightarrow> addr \<Rightarrow> store \<Rightarrow> store" where
  "attach_parameters options request c s =
     (let s1 = put c (reqOperationProperty options) (SProp (POperation (rq_operation request))) s;
          s2 = (case alloc (js_obj (rq_path request)) s1 of (s', p) \<Rightarrow> put c ''params'' (SRef p) s');
          s3 = merge_key ''cookies'' (js_obj (rq_cookies request)) c s2;
          s4 = merge_key ''headers'' (str_obj (rq_headers request)) c s3;
          s5 = merge_key ''params'' (js_obj (rq_params request)) c s4;
          s6 = merge_key ''query'' (js_obj (rq_query request)) c s5
      in case rq_body request of None \<Rightarrow> s6 | Some v \<Rightarrow> put c ''body'' (SJs v) s6)"

text \<open>
  What lines 136 to 203 do to the store, given the host's request object at address \<open>r\<close>,
  the result of \<^verbatim>\<open>openapi.request\<close> and, for a client error, the operation found by
  \<^verbatim>\<open>openapi.path\<close>.  The result is the store and the address of the copy, which is the
  request the handler chain receives.
\<close>

definition request_copy ::
  "options \<Rightarrow> openapi \<Rightarrow> exception + request_result \<Rightarrow> operation option \<Rightarrow> addr \<Rightarrow> store
     \<Rightarrow> store \<times> addr" where
  "request_copy options api validation found r s =
     (case alloc (own_props s (Some (SRef r))) s of
        (s1, c) \<Rightarrow>
          (case validation of
             Inl clientError \<Rightarrow>
               if exc_statusCode clientError = Some 404 then (s1, c)
               else
                 (let s2 = put c (reqOpenApiProperty options) (SProp (POpenapi api)) s1
                  in case found of
                       None \<Rightarrow> (s2, c)
                     | Some operation \<Rightarrow>
                         (put c (reqOperationProperty options) (SProp (POperation operation)) s2, c))
           | Inr request \<Rightarrow>
               (attach_parameters options request c
                  (put c (reqOpenApiProperty options) (SProp (POpenapi api)) s1), c)))"

text \<open>A host request in the store: the request object at address 0 refers to its headers
  at address 1 and to its query at address 2.\<close>

definition host_store :: store where
  "host_store =
     [[''headers'' \<mapsto> SRef 1, ''query'' \<mapsto> SRef 2, ''method'' \<mapsto> SJs (JStr ''GET''),
       ''originalUrl'' \<mapsto> SJs (JStr ''/people'')],
      [''accept'' \<mapsto> SJs (JStr ''*/*'')],
      [''limit'' \<mapsto> SJs (JStr ''5'')]]"

definition people_request :: request_result where
  "people_request =
     \<lparr>rq_operation = get_people, rq_path = Some Map.empty, rq_cookies = None,
      rq_headers = Some Map.empty, rq_params = None,
      rq_query = Some [''limit'' \<mapsto> JNum 5], rq_body = None\<rparr>"

text \<open>
  A host request whose query string is \<^verbatim>\<open>limit=abc\<close>, and the client error with which its
  validation ends: the route is matched, the request is invalid.
\<close>

definition invalid_host_store :: store where
  "invalid_host_store =
     [[''headers'' \<mapsto> SRef 1, ''query'' \<mapsto> SRef 2, ''method'' \<mapsto> SJs (JStr ''GET''),
       ''originalUrl'' \<mapsto> SJs (JStr ''/people'')],
      [''accept'' \<mapsto> SJs (JStr ''*/*'')],
      [''limit'' \<mapsto> SJs (JStr ''abc'')]]"

definition bad_request :: exception where
  "bad_request =
     Exception ''Request has one or more errors''
       [([At ''query'', At ''limit''], ''Expected an integer'')] [] (Some 400)"

section \<open>Concrete controller targets\<close>

text \<open>A platform on which \<^verbatim>\<open>/app/controllers/people\<close> is a module that exports an object
  with the one own property \<^verbatim>\<open>getPeople\<close>, bound to the number 0, a falsy value; no other
  module exists.\<close>

definition zero_binding_node :: platform where
  "zero_binding_node =
     node\<lparr>require := (\<lambda>p. if p = ''/app/controllers/people''
                           then ModuleLoaded (MVal (Some [''getPeople'' \<mapsto> HFalsy]))
                           else require node p)\<rparr>"

text \<open>A catalog with three operations, each naming its controller and its operation.\<close>

definition named_operation :: "nat \<Rightarrow> string \<Rightarrow> string \<Rightarrow> operation" where
  "named_operation i c n =
     \<lparr>op_id = i, op_props = [''x-controller'' \<mapsto> c, ''operationId'' \<mapsto> n], responses = [],
      response_fn = people_response,
      getResponseContentTypeMatches =
        (\<lambda>code accepts. \<lparr>cm_value = None, cm_text = ''[object Object]''\<rparr>)\<rparr>"

definition three_api :: openapi where
  "three_api =
     people_api\<lparr>paths :=
       [(''/people'', \<lparr>pi_props = Map.empty, methods = [''get'', ''post''],
                        pi_operations = [''get'' \<mapsto> named_operation 1 ''people'' ''getPeople'',
                                         ''post'' \<mapsto> named_operation 2 ''people'' ''addPerson'']\<rparr>),
        (''/pets'', \<lparr>pi_props = Map.empty, methods = [''get''],
                      pi_operations = [''get'' \<mapsto> named_operation 3 ''pets'' ''getPets'']\<rparr>)]\<rparr>"

section \<open>The runner: classification, skipping, thrown values\<close>

lemma clearHeader_idem: "clearHeader c (clearHeader c w) = clearHeader c w"
  by (simp add: clearHeader_def res_removeHeader_def)

lemma run_skip:
  "truthy err \<noteq> isErrorHandling m \<Longrightarrow> run c (m # ms) err w = run c ms err (clearHeader c w)"
  by (auto simp: Let_def)

lemma run_clear: "run c ms err (clearHeader c w) = run c ms err w"
  by (cases ms) (simp_all add: clearHeader_idem Let_def)

lemma run_dropWhile:
  "run c ms err w = run c (dropWhile (\<lambda>m. truthy err \<noteq> isErrorHandling m) ms) err w"
proof (induction ms arbitrary: w)
  case Nil
  show ?case by simp
next
  case (Cons m ms)
  show ?case
  proof (cases "truthy err \<noteq> isErrorHandling m")
    case True
    then have "run c (m # ms) err w = run c ms err (clearHeader c w)"
      by (rule run_skip)
    also have "\<dots> = run c ms err w"
      by (rule run_clear)
    also have "\<dots> = run c (dropWhile (\<lambda>m. truthy err \<noteq> isErrorHandling m) ms) err w"
      by (rule Cons.IH)
    finally show ?thesis using True by simp
  next
    case False
    then show ?thesis by simp
  qed
qed

lemma run_invoke:
  "truthy err = isErrorHandling m \<Longrightarrow>
   run c (m # ms) err w =
     (case invoke m (if truthy err then Some err else None) (clearHeader c w) of
        (CallNext e, w') \<Rightarrow> run c ms e w'
      | (Throw e, w') \<Rightarrow> run c ms e w'
      | (End, w') \<Rightarrow> (None, w'))"
  by (auto simp: Let_def)

lemma run_throws_as_next: "run c (map throws_as_next ms) err w = run c ms err w"
proof (induction ms arbitrary: err w)
  case Nil
  show ?case by simp
next
  case (Cons m ms)
  have ar: "isErrorHandling (throws_as_next m) = isErrorHandling m"
    by (simp add: throws_as_next_def isErrorHandling_def)
  have inv: "invoke (throws_as_next m) a v =
      (case invoke m a v of
         (Throw e, w') \<Rightarrow> (CallNext e, w')
       | (CallNext e, w') \<Rightarrow> (CallNext e, w')
       | (End, w') \<Rightarrow> (End, w'))" for a v
    by (simp add: throws_as_next_def)
  show ?case
    by (simp add: ar inv Cons.IH Let_def split: prod.splits outcome.splits)
qed

lemma run_test_chain:
  "flow (snd (run True
      [pushing 3 1 (Throw (JError ''error'')), pushing 3 2 (CallNext JUndefined),
       pushing 4 3 (CallNext JUndefined), pushing 3 4 (CallNext JUndefined)]
      JUndefined world0)) = [1, 3, 4]"
  by (simp add: pushing_def isErrorHandling_def Let_def clearHeader_def res_removeHeader_def
      world0_def)

lemma run_advances:
  "\<forall>m \<in> set ms. \<forall>a v. fst (invoke m a v) \<noteq> End \<Longrightarrow> fst (run c ms err w) \<noteq> None"
proof (induction ms arbitrary: err w)
  case Nil
  show ?case by simp
next
  case (Cons m ms)
  then have m: "fst (invoke m a v) \<noteq> End" for a v
    by simp
  from Cons.prems have rest: "\<forall>m \<in> set ms. \<forall>a v. fst (invoke m a v) \<noteq> End"
    by simp
  note IH = Cons.IH [OF rest]
  show ?case
  proof (cases "truthy err = isErrorHandling m")
    case False
    then have "run c (m # ms) err w = run c ms err (clearHeader c w)"
      by (intro run_skip) simp
    with IH show ?thesis by simp
  next
    case True
    obtain out w' where i: "invoke m (if truthy err then Some err else None) (clearHeader c w) = (out, w')"
      by (cases "invoke m (if truthy err then Some err else None) (clearHeader c w)")
    with m [of "if truthy err then Some err else None" "clearHeader c w"] have out: "out \<noteq> End"
      by simp
    have eq: "run c (m # ms) err w =
        (case out of CallNext e \<Rightarrow> run c ms e w' | Throw e \<Rightarrow> run c ms e w' | End \<Rightarrow> (None, w'))"
      by (simp only: run_invoke [OF True] i prod.case)
    show ?thesis
      unfolding eq using out IH by (cases out) simp_all
  qed
qed

lemma middlewareRunner_step:
  "middlewareRunner (m # ms) c terminal err w =
     (if truthy err = isErrorHandling m then
        (case invoke m (if truthy err then Some err else None) (clearHeader c w) of
           (CallNext e, w') \<Rightarrow> middlewareRunner ms c terminal e w'
         | (Throw e, w') \<Rightarrow> middlewareRunner ms c terminal e w'
         | (End, w') \<Rightarrow> w')
      else middlewareRunner ms c terminal err (clearHeader c w))"
proof (cases "truthy err = isErrorHandling m")
  case True
  then show ?thesis
    by (simp add: middlewareRunner_def run_invoke split: prod.splits outcome.splits)
next
  case False
  then have "run c (m # ms) err w = run c ms err (clearHeader c w)"
    by (intro run_skip) simp
  with False show ?thesis
    by (simp add: middlewareRunner_def)
qed

lemma middlewareRunner_advances:
  assumes "\<forall>m \<in> set ms. \<forall>a v. fst (invoke m a v) \<noteq> End"
  shows "\<exists>e w'. run c ms err w = (Some e, w') \<and> middlewareRunner ms c terminal err w = terminal e w'"
proof -
  from assms have "fst (run c ms err w) \<noteq> None"
    by (rule run_advances)
  then obtain e w' where "run c ms err w = (Some e, w')"
    by (cases "run c ms err w") auto
  then show ?thesis
    by (simp add: middlewareRunner_def)
qed

lemma runner_test_chain:
  "flow (middlewareRunner
      [pushing 3 1 (Throw (JError ''error'')), pushing 3 2 (CallNext JUndefined),
       pushing 4 3 (CallNext JUndefined), pushing 3 4 (CallNext JUndefined)]
      True next_local JUndefined world0) = [1, 3, 4]
   \<and> hostNext (middlewareRunner
      [pushing 3 1 (Throw (JError ''error'')), pushing 3 2 (CallNext JUndefined),
       pushing 4 3 (CallNext JUndefined), pushing 3 4 (CallNext JUndefined)]
      True next_local JUndefined world0) = [JUndefined]"
  by (simp add: middlewareRunner_def pushing_def isErrorHandling_def Let_def clearHeader_def
      res_removeHeader_def world0_def next_local_def)

text \<open>
  Claim C1, as the source has it.  A handler is an error handler exactly when it declares
  four or more parameters.  The runner tests the propagated value for truthiness, not for
  being non-null: with a truthy value it skips the normal handlers and calls the next
  error handler with the value as first argument; with a falsy value (\<^verbatim>\<open>undefined\<close>,
  \<^verbatim>\<open>null\<close>, \<^verbatim>\<open>false\<close>, \<^verbatim>\<open>0\<close>, the empty string) it skips the error handlers and calls the next
  normal handler without an error argument.  A value thrown by the called handler
  continues the chain exactly as if the handler had passed it to the advance callback.
  The runner built for a chain goes through it by these steps, and when the queue is
  empty it calls the terminal continuation with the value that remains: after a chain
  whose handlers all advance the terminal continuation is called, once, with the value the
  last step left.  The chain of the repository's test (1 throws; 2 normal; 3 error
  handling; 4 normal) records 1, 3, 4 and ends in a call of the host's \<^verbatim>\<open>next\<close> without an
  error.
\<close>

theorem runner_dispatches_on_truthiness:
  "isErrorHandling m = (4 \<le> arity m)
   \<and> run c ms err w = run c (dropWhile (\<lambda>m. truthy err \<noteq> isErrorHandling m) ms) err w
   \<and> (truthy err = isErrorHandling m \<longrightarrow>
        run c (m # ms) err w =
          (case invoke m (if truthy err then Some err else None) (clearHeader c w) of
             (CallNext e, w') \<Rightarrow> run c ms e w'
           | (Throw e, w') \<Rightarrow> run c ms e w'
           | (End, w') \<Rightarrow> (None, w')))
   \<and> run c (map throws_as_next ms) err w = run c ms err w
   \<and> middlewareRunner [] c terminal err w = terminal err (clearHeader c w)
   \<and> middlewareRunner (m # ms) c terminal err w =
       (if truthy err = isErrorHandling m then
          (case invoke m (if truthy err then Some err else None) (clearHeader c w) of
             (CallNext e, w') \<Rightarrow> middlewareRunner ms c terminal e w'
           | (Throw e, w') \<Rightarrow> middlewareRunner ms c terminal e w'
           | (End, w') \<Rightarrow> w')
        else middlewareRunner ms c terminal err (clearHeader c w))
   \<and> ((\<forall>m \<in> set ms. \<forall>a v. fst (invoke m a v) \<noteq> End) \<longrightarrow>
        (\<exists>e w'. run c ms err w = (Some e, w') \<and> middlewareRunner ms c terminal err w = terminal e w'))
   \<and> flow (snd (run True
        [pushing 3 1 (Throw (JError ''error'')), pushing 3 2 (CallNext JUndefined),
         pushing 4 3 (CallNext JUndefined), pushing 3 4 (CallNext JUndefined)]
        JUndefined world0)) = [1, 3, 4]
   \<and> flow (middlewareRunner
        [pushing 3 1 (Throw (JError ''error'')), pushing 3 2 (CallNext JUndefined),
         pushing 4 3 (CallNext JUndefined), pushing 3 4 (CallNext JUndefined)]
        True next_local JUndefined world0) = [1, 3, 4]
   \<and> hostNext (middlewareRunner
        [pushing 3 1 (Throw (JError ''error'')), pushing 3 2 (CallNext JUndefined),
         pushing 4 3 (CallNext JUndefined), pushing 3 4 (CallNext JUndefined)]
        True next_local JUndefined world0) = [JUndefined]"
proof (intro conjI impI)
  show "middlewareRunner (m # ms) c terminal err w =
       (if truthy err = isErrorHandling m then
          (case invoke m (if truthy err then Some err else None) (clearHeader c w) of
             (CallNext e, w') \<Rightarrow> middlewareRunner ms c terminal e w'
           | (Throw e, w') \<Rightarrow> middlewareRunner ms c terminal e w'
           | (End, w') \<Rightarrow> w')
        else middlewareRunner ms c terminal err (clearHeader c w))"
    by (rule middlewareRunner_step)
  show "flow (middlewareRunner
        [pushing 3 1 (Throw (JError ''error'')), pushing 3 2 (CallNext JUndefined),
         pushing 4 3 (CallNext JUndefined), pushing 3 4 (CallNext JUndefined)]
        True next_local JUndefined world0) = [1, 3, 4]"
    using runner_test_chain by (rule conjunct1)
  show "hostNext (middlewareRunner
        [pushing 3 1 (Throw (JError ''error'')), pushing 3 2 (CallNext JUndefined),
         pushing 4 3 (CallNext JUndefined), pushing 3 4 (CallNext JUndefined)]
        True next_local JUndefined world0) = [JUndefined]"
    using runner_test_chain by (rule conjunct2)
  show "isErrorHandling m = (4 \<le> arity m)"
    by (simp add: isErrorHandling_def)
  show "run c ms err w = run c (dropWhile (\<lambda>m. truthy err \<noteq> isErrorHandling m) ms) err w"
    by (rule run_dropWhile)
  show "run c (map throws_as_next ms) err w = run c ms err w"
    by (rule run_throws_as_next)
  show "middlewareRunner [] c terminal err w = terminal err (clearHeader c w)"
    by (simp add: middlewareRunner_def)
  show "flow (snd (run True
        [pushing 3 1 (Throw (JError ''error'')), pushing 3 2 (CallNext JUndefined),
         pushing 4 3 (CallNext JUndefined), pushing 3 4 (CallNext JUndefined)]
        JUndefined world0)) = [1, 3, 4]"
    by (rule run_test_chain)
next
  assume "truthy err = isErrorHandling m"
  then show "run c (m # ms) err w =
      (case invoke m (if truthy err then Some err else None) (clearHeader c w) of
         (CallNext e, w') \<Rightarrow> run c ms e w'
       | (Throw e, w') \<Rightarrow> run c ms e w'
       | (End, w') \<Rightarrow> (None, w'))"
    by (rule run_invoke)
next
  assume "\<forall>m \<in> set ms. \<forall>a v. fst (invoke m a v) \<noteq> End"
  then show "\<exists>e w'. run c ms err w = (Some e, w') \<and> middlewareRunner ms c terminal err w = terminal e w'"
    by (rule middlewareRunner_advances)
qed

text \<open>
  The theorem at the error handler of the test chain, reached with an \<^verbatim>\<open>Error\<close>: the normal
  handler before it is skipped, it is called, and the terminal continuation gets what it
  passed on.
\<close>

theorem runner_dispatches_on_truthiness_witness:
  "truthy (JError ''error'') = isErrorHandling (pushing 4 3 (CallNext JUndefined))
   \<and> run True [pushing 3 2 (CallNext JUndefined), pushing 4 3 (CallNext JUndefined)]
        (JError ''error'') world0
     = run True [pushing 4 3 (CallNext JUndefined)] (JError ''error'') world0
   \<and> flow (snd (run True [pushing 4 3 (CallNext JUndefined)] (JError ''error'') world0)) = [3]
   \<and> fst (run True [pushing 4 3 (CallNext JUndefined)] (JError ''error'') world0) = Some JUndefined
   \<and> hostNext (middlewareRunner
        [pushing 3 2 (CallNext JUndefined), pushing 4 3 (CallNext JUndefined)]
        True next_local (JError ''error'') world0) = [JUndefined]"
proof -
  note t = runner_dispatches_on_truthiness
    [where m = "pushing 4 3 (CallNext JUndefined)" and c = True
       and ms = "[pushing 3 2 (CallNext JUndefined), pushing 4 3 (CallNext JUndefined)]"
       and err = "JError ''error''" and w = world0 and terminal = next_local]
  have advance: "\<forall>m \<in> set [pushing 3 2 (CallNext JUndefined), pushing 4 3 (CallNext JUndefined)].
      \<forall>a v. fst (invoke m a v) \<noteq> End"
    by (simp add: pushing_def)
  have same: "truthy (JError ''error'') = isErrorHandling (pushing 4 3 (CallNext JUndefined))"
    by (simp add: pushing_def isErrorHandling_def)
  have skip: "run True [pushing 3 2 (CallNext JUndefined), pushing 4 3 (CallNext JUndefined)]
        (JError ''error'') world0
     = run True [pushing 4 3 (CallNext JUndefined)] (JError ''error'') world0"
    using t [THEN conjunct2, THEN conjunct1] by (simp add: pushing_def isErrorHandling_def)
  have called: "run True [pushing 4 3 (CallNext JUndefined)] (JError ''error'') world0
     = (Some JUndefined, (clearHeader True (clearHeader True world0))\<lparr>flow := [3]\<rparr>)"
    by (simp add: pushing_def isErrorHandling_def Let_def world0_def clearHeader_def
        res_removeHeader_def)
  from t [THEN conjunct2, THEN conjunct2, THEN conjunct2, THEN conjunct2, THEN conjunct2,
      THEN conjunct2, THEN conjunct1, THEN mp, OF advance]
  obtain e w' where r: "run True [pushing 3 2 (CallNext JUndefined), pushing 4 3 (CallNext JUndefined)]
        (JError ''error'') world0 = (Some e, w')"
    and n: "middlewareRunner [pushing 3 2 (CallNext JUndefined), pushing 4 3 (CallNext JUndefined)]
        True next_local (JError ''error'') world0 = next_local e w'"
    by blast
  from r skip called have "e = JUndefined"
    by simp
  with n have host: "hostNext (middlewareRunner
        [pushing 3 2 (CallNext JUndefined), pushing 4 3 (CallNext JUndefined)]
        True next_local (JError ''error'') world0) = hostNext w' @ [JUndefined]"
    by (simp add: next_local_def Let_def)
  from r skip called have "hostNext w' = []"
    by (auto simp: world0_def clearHeader_def res_removeHeader_def)
  with host same skip called show ?thesis
    by simp
qed

text \<open>
  The claim as written fails for a propagated value that is not null but falsy.  Handler 1
  throws the number 0; the error handler 2 is skipped and the normal handler 3 is called.
\<close>

theorem runner_nonnull_falsy_counterexample:
  "JNum 0 \<noteq> JNull \<and> JNum 0 \<noteq> JUndefined
   \<and> isErrorHandling (pushing 4 2 (CallNext JUndefined))
   \<and> \<not> isErrorHandling (pushing 3 3 (CallNext JUndefined))
   \<and> flow (snd (run True
        [pushing 3 1 (Throw (JNum 0)), pushing 4 2 (CallNext JUndefined),
         pushing 3 3 (CallNext JUndefined)]
        JUndefined world0)) = [1, 3]"
  by (simp add: pushing_def isErrorHandling_def Let_def clearHeader_def res_removeHeader_def
      world0_def)

section \<open>What the parts of a response write leaves alone\<close>

lemma res_set_frame [simp]:
  "sendHooked (res (res_set h v w)) = sendHooked (res w)"
  "sent (res (res_set h v w)) = sent (res w)"
  "statusCode (res (res_set h v w)) = statusCode (res w)"
  "hostNext (res_set h v w) = hostNext w"
  "flow (res_set h v w) = flow w"
  "req (res_set h v w) = req w"
  by (simp_all add: res_set_def)

lemma fold_res_set_sendHooked [simp]:
  "sendHooked (res (fold (\<lambda>(h, v). res_set h (f v)) hs w)) = sendHooked (res w)"
  by (induction hs arbitrary: w) (simp_all add: split_def)

lemma fold_res_set_sent [simp]:
  "sent (res (fold (\<lambda>(h, v). res_set h (f v)) hs w)) = sent (res w)"
  by (induction hs arbitrary: w) (simp_all add: split_def)

lemma fold_res_set_statusCode [simp]:
  "statusCode (res (fold (\<lambda>(h, v). res_set h (f v)) hs w)) = statusCode (res w)"
  by (induction hs arbitrary: w) (simp_all add: split_def)

lemma fold_res_set_hostNext [simp]:
  "hostNext (fold (\<lambda>(h, v). res_set h (f v)) hs w) = hostNext w"
  by (induction hs arbitrary: w) (simp_all add: split_def)

lemma fold_res_set_flow [simp]:
  "flow (fold (\<lambda>(h, v). res_set h (f v)) hs w) = flow w"
  by (induction hs arbitrary: w) (simp_all add: split_def)

lemma fold_res_set_req [simp]:
  "req (fold (\<lambda>(h, v). res_set h (f v)) hs w) = req w"
  by (induction hs arbitrary: w) (simp_all add: split_def)

lemma next_local_unhooks [simp]: "sendHooked (res (next_local e w)) = False"
  by (simp add: next_local_def Let_def)

lemma original_send_hook [simp]: "sendHooked (res (original_send b w)) = sendHooked (res w)"
  by (simp add: original_send_def)

lemma res_status_hook [simp]: "sendHooked (res (res_status c w)) = sendHooked (res w)"
  by (simp add: res_status_def)

lemma unhooked_view:
  "status_or_200 (w\<lparr>res := (res w)\<lparr>sendHooked := h\<rparr>\<rparr>) = status_or_200 w"
  "derived_content_type openapi operation (w\<lparr>res := (res w)\<lparr>sendHooked := h\<rparr>\<rparr>)
     = derived_content_type openapi operation w"
  by (simp_all add: status_or_200_def derived_content_type_def)

section \<open>An unmatched route\<close>

text \<open>
  Claim C2.  When the validation of the request ends in a client error with status code
  404: with \<^verbatim>\<open>fallthrough\<close> set, the middleware calls the host's \<^verbatim>\<open>next\<close> once, without an
  error, and leaves status, headers and transport untouched; with \<^verbatim>\<open>fallthrough\<close> unset it
  responds with status 404 and the host's \<^verbatim>\<open>next\<close> is not called.  In neither case is a
  handler of the chain invoked: the outcome is the same whatever handlers are registered.
\<close>

theorem unmatched_route_policy:
  assumes "request_fn api (requestObj pf (req w)) = Inl clientError"
    and "exc_statusCode clientError = Some 404"
  shows "middleware options pf (Inr api) w =
           (if fallthrough options
            then w\<lparr>res := (res w)\<lparr>sendHooked := False\<rparr>, hostNext := hostNext w @ [JUndefined]\<rparr>
            else w\<lparr>res := (res w)\<lparr>statusCode := JNum 404,
                                  sent := sent (res w) @ [JStr ''Not Found'']\<rparr>\<rparr>)
         \<and> middleware (options\<lparr>opt_middleware := hs\<rparr>) pf (Inr api) w
             = middleware options pf (Inr api) w"
  using assms
  by (simp add: middleware_def next_local_def res_sendStatus_def original_send_def res_status_def
      Let_def)

theorem unmatched_route_policy_witness:
  "middleware (options0\<lparr>fallthrough := False, opt_middleware := [pushing 3 1 End]\<rparr>) node
     (Inr people_api) (world0\<lparr>req := request0\<lparr>originalUrl := ''/dne''\<rparr>\<rparr>)
   = world0\<lparr>req := request0\<lparr>originalUrl := ''/dne''\<rparr>,
            res := (res world0)\<lparr>statusCode := JNum 404, sent := [JStr ''Not Found'']\<rparr>\<rparr>
   \<and> middleware (options0\<lparr>opt_middleware := [pushing 3 1 End]\<rparr>) node
       (Inr people_api) (world0\<lparr>req := request0\<lparr>originalUrl := ''/dne''\<rparr>\<rparr>)
     = world0\<lparr>req := request0\<lparr>originalUrl := ''/dne''\<rparr>, hostNext := [JUndefined]\<rparr>"
  using unmatched_route_policy
      [of people_api node "world0\<lparr>req := request0\<lparr>originalUrl := ''/dne''\<rparr>\<rparr>" not_found
          "options0\<lparr>fallthrough := False, opt_middleware := [pushing 3 1 End]\<rparr>" "[]"]
    unmatched_route_policy
      [of people_api node "world0\<lparr>req := request0\<lparr>originalUrl := ''/dne''\<rparr>\<rparr>" not_found
          "options0\<lparr>opt_middleware := [pushing 3 1 End]\<rparr>" "[]"]
  by (simp add: people_api_def requestObj_def not_found_def options0_def world0_def request0_def)

section \<open>The interception of the outgoing write\<close>

lemma send_raw: "\<not> sendHooked (res w) \<Longrightarrow> send options b w = (None, original_send b w)"
  by (simp add: send.simps)

lemma send_hooked: "sendHooked (res w) \<Longrightarrow> send options b w = intercepted_send options b w"
  by (simp add: send.simps)

text \<open>
  The interceptor with its last statement resolved: when it reaches that call of
  \<^verbatim>\<open>res.send\<close> the property holds the original function, because line 159 put it there and
  neither \<^verbatim>\<open>res.set\<close> nor \<^verbatim>\<open>res.status\<close> changes it.
\<close>

lemma intercepted_send_eq:
  "intercepted_send options b w =
     (case props (req w) (reqOpenApiProperty options) of
        None \<Rightarrow> (Some TypeError, w\<lparr>res := (res w)\<lparr>sendHooked := False\<rparr>\<rparr>)
      | Some openapi \<Rightarrow>
         (case props (req w) (reqOperationProperty options) of
            Some (POperation operation) \<Rightarrow>
              (case derived_content_type openapi operation w of
                 Some type \<Rightarrow> (Some TypeError, w\<lparr>res := (res w)\<lparr>sendHooked := False\<rparr>\<rparr>)
               | None \<Rightarrow>
                  (case response_fn operation (status_or_200 w) b (resHeaders (res w)) of
                     Inl exception \<Rightarrow>
                       (None, next_local (errorFromException exception)
                                (res_status (JNum 500) (w\<lparr>res := (res w)\<lparr>sendHooked := False\<rparr>\<rparr>)))
                   | Inr response \<Rightarrow>
                       (None, original_send
                                (case ser_body response of Some v \<Rightarrow> extractValue v | None \<Rightarrow> JUndefined)
                                (fold (\<lambda>(h, v). res_set h (extractValue v)) (ser_headers response)
                                   (w\<lparr>res := (res w)\<lparr>sendHooked := False\<rparr>\<rparr>)))))
          | _ \<Rightarrow> (Some TypeError, w\<lparr>res := (res w)\<lparr>sendHooked := False\<rparr>\<rparr>)))"
  by (simp add: intercepted_send.simps Let_def unhooked_view send_raw
      split: option.splits propval.splits sum.splits)

lemma intercepted_send_unhooks: "sendHooked (res (snd (intercepted_send options b w))) = False"
  by (simp add: intercepted_send_eq split: option.splits propval.splits sum.splits)

lemma send_unhooks: "sendHooked (res (snd (send options b w))) = False"
  by (cases "sendHooked (res w)") (simp_all add: send_hooked send_raw intercepted_send_unhooks)

lemma send_throws:
  assumes "sendHooked (res w)"
    and "props (req w) (reqOpenApiProperty options) = Some openapi"
    and "props (req w) (reqOperationProperty options) = Some (POperation operation)"
    and "derived_content_type openapi operation w = Some type"
  shows "send options b w = (Some TypeError, w\<lparr>res := (res w)\<lparr>sendHooked := False\<rparr>\<rparr>)"
  using assms by (simp add: send_hooked intercepted_send_eq)

lemma send_failure:
  assumes "sendHooked (res w)"
    and "props (req w) (reqOpenApiProperty options) = Some openapi"
    and "props (req w) (reqOperationProperty options) = Some (POperation operation)"
    and "derived_content_type openapi operation w = None"
    and "response_fn operation (status_or_200 w) b (resHeaders (res w)) = Inl exception"
  shows "send options b w =
     (None, next_local (errorFromException exception)
        (res_status (JNum 500) (w\<lparr>res := (res w)\<lparr>sendHooked := False\<rparr>\<rparr>)))"
  using assms by (simp add: send_hooked intercepted_send_eq)

lemma send_success:
  assumes "sendHooked (res w)"
    and "props (req w) (reqOpenApiProperty options) = Some openapi"
    and "props (req w) (reqOperationProperty options) = Some (POperation operation)"
    and "derived_content_type openapi operation w = None"
    and "response_fn operation (status_or_200 w) b (resHeaders (res w)) = Inr response"
  shows "send options b w =
     (None, original_send
        (case ser_body response of Some v \<Rightarrow> extractValue v | None \<Rightarrow> JUndefined)
        (fold (\<lambda>(h, v). res_set h (extractValue v)) (ser_headers response)
           (w\<lparr>res := (res w)\<lparr>sendHooked := False\<rparr>\<rparr>)))"
  using assms by (simp add: send_hooked intercepted_send_eq)

lemma derived_none:
  "has_swagger openapi \<or> truthy_opt (resHeaders (res w) ''content-type'') \<Longrightarrow>
   derived_content_type openapi operation w = None"
  by (auto simp: derived_content_type_def)

text \<open>
  What holds of \<^verbatim>\<open>res.send\<close> on every path.  Whatever the property was before a call, it is
  the original function after it, and the interceptor behaves the same whether or not the
  property still holds it.  A call made while the property holds the original is a raw
  pass-through: the body goes to the transport as it is and neither the request's
  operation nor its response capability is consulted.  Hence the second of two calls is
  always a raw pass-through.  A first call, made while the property holds the interceptor,
  on a request that carries catalog and operation and for which no content type is
  derived (the catalog is a Swagger 2 document, or a content type is set, or nothing
  matches), hands the body with the status code and the headers to the operation's
  response capability: what that returns is written, once, with its headers set; what it
  rejects is not written.  When a content type is derived the call throws instead.
\<close>

lemma interception_once:
  "sendHooked (res (snd (send options b w))) = False
   \<and> intercepted_send options b (w\<lparr>res := (res w)\<lparr>sendHooked := False\<rparr>\<rparr>)
       = intercepted_send options b w
   \<and> (\<not> sendHooked (res w) \<longrightarrow> send options b w = (None, original_send b w))
   \<and> send options b2 (snd (send options b1 w))
       = (None, original_send b2 (snd (send options b1 w)))
   \<and> (sendHooked (res w)
        \<and> props (req w) (reqOpenApiProperty options) = Some openapi
        \<and> props (req w) (reqOperationProperty options) = Some (POperation operation)
        \<and> derived_content_type openapi operation w = None \<longrightarrow>
        send options b w =
          (case response_fn operation (status_or_200 w) b (resHeaders (res w)) of
             Inl exception \<Rightarrow>
               (None, next_local (errorFromException exception)
                        (res_status (JNum 500) (w\<lparr>res := (res w)\<lparr>sendHooked := False\<rparr>\<rparr>)))
           | Inr response \<Rightarrow>
               (None, original_send
                        (case ser_body response of Some v \<Rightarrow> extractValue v | None \<Rightarrow> JUndefined)
                        (fold (\<lambda>(h, v). res_set h (extractValue v)) (ser_headers response)
                           (w\<lparr>res := (res w)\<lparr>sendHooked := False\<rparr>\<rparr>)))))
   \<and> (sendHooked (res w)
        \<and> props (req w) (reqOpenApiProperty options) = Some openapi
        \<and> props (req w) (reqOperationProperty options) = Some (POperation operation)
        \<and> derived_content_type openapi operation w = Some type \<longrightarrow>
        send options b w = (Some TypeError, w\<lparr>res := (res w)\<lparr>sendHooked := False\<rparr>\<rparr>))"
proof (intro conjI impI)
  show "sendHooked (res (snd (send options b w))) = False"
    by (rule send_unhooks)
  show "intercepted_send options b (w\<lparr>res := (res w)\<lparr>sendHooked := False\<rparr>\<rparr>)
       = intercepted_send options b w"
    by (simp add: intercepted_send_eq unhooked_view
        split: option.splits propval.splits sum.splits)
  show "send options b2 (snd (send options b1 w))
       = (None, original_send b2 (snd (send options b1 w)))"
    by (simp add: send_raw send_unhooks)
next
  assume "\<not> sendHooked (res w)"
  then show "send options b w = (None, original_send b w)"
    by (rule send_raw)
next
  assume "sendHooked (res w)
        \<and> props (req w) (reqOpenApiProperty options) = Some openapi
        \<and> props (req w) (reqOperationProperty options) = Some (POperation operation)
        \<and> derived_content_type openapi operation w = None"
  then show "send options b w =
          (case response_fn operation (status_or_200 w) b (resHeaders (res w)) of
             Inl exception \<Rightarrow>
               (None, next_local (errorFromException exception)
                        (res_status (JNum 500) (w\<lparr>res := (res w)\<lparr>sendHooked := False\<rparr>\<rparr>)))
           | Inr response \<Rightarrow>
               (None, original_send
                        (case ser_body response of Some v \<Rightarrow> extractValue v | None \<Rightarrow> JUndefined)
                        (fold (\<lambda>(h, v). res_set h (extractValue v)) (ser_headers response)
                           (w\<lparr>res := (res w)\<lparr>sendHooked := False\<rparr>\<rparr>))))"
    by (simp add: send_hooked intercepted_send_eq)
next
  assume "sendHooked (res w)
        \<and> props (req w) (reqOpenApiProperty options) = Some openapi
        \<and> props (req w) (reqOperationProperty options) = Some (POperation operation)
        \<and> derived_content_type openapi operation w = Some type"
  then show "send options b w = (Some TypeError, w\<lparr>res := (res w)\<lparr>sendHooked := False\<rparr>\<rparr>)"
    by (simp add: send_hooked intercepted_send_eq)
qed

text \<open>
  On a Swagger 2 catalog a handler that sends the string \<^verbatim>\<open>oops\<close> twice has the first call
  validated (it fails: status 500, the error goes to the host) and the second put on the
  transport unvalidated; a handler that sends an array has it validated and written.
\<close>

lemma interception_once_swagger2:
  "sent (res (middleware (options0\<lparr>opt_middleware := [sender2 options0 (JStr ''oops'') (JStr ''oops'')]\<rparr>)
        node (Inr people_api) world0)) = [JStr ''oops'']
   \<and> statusCode (res (middleware (options0\<lparr>opt_middleware := [sender2 options0 (JStr ''oops'') (JStr ''oops'')]\<rparr>)
        node (Inr people_api) world0)) = JNum 500
   \<and> hostNext (middleware (options0\<lparr>opt_middleware := [sender2 options0 (JStr ''oops'') (JStr ''oops'')]\<rparr>)
        node (Inr people_api) world0) = [JEnforcerError invalid_response]
   \<and> sent (res (middleware (options0\<lparr>opt_middleware := [sender options0 (JArr [])]\<rparr>)
        node (Inr people_api) world0)) = [JArr []]
   \<and> hostNext (middleware (options0\<lparr>opt_middleware := [sender options0 (JArr [])]\<rparr>)
        node (Inr people_api) world0) = []"
  by (simp add: world0_def request0_def options0_def middleware_def people_api_def requestObj_def
      hasBody_def node_def isNaN_def set_prop_def copy_parameters_def assign_def
      middlewareRunner_def isErrorHandling_def sender_def sender2_def send.simps
      intercepted_send_eq Let_def clearHeader_def res_removeHeader_def status_or_200_def
      derived_content_type_def has_swagger_def truthy_opt_def get_people_def next_local_def
      res_status_def errorFromException_def original_send_def extractValue_def)

text \<open>
  Claim C4 at an OpenAPI 3 catalog.  The handler of \<^verbatim>\<open>GET /people\<close> sends the empty array, a
  body that the operation's response capability accepts, and sets no content type.  The
  first call of \<^verbatim>\<open>res.send\<close> restores the original function and then derives the content
  type: \<^verbatim>\<open>type\<close> is the array of matches (line 169), Express's \<^verbatim>\<open>res.set\<close> refuses it (line
  171), and the call ends in a \<^verbatim>\<open>TypeError\<close> before \<^verbatim>\<open>operation.response\<close> is reached (line
  176).  The body is neither validated nor serialized nor written, and the host's \<^verbatim>\<open>next\<close>
  gets the \<^verbatim>\<open>TypeError\<close>.  On the Swagger 2 catalog the same handler's body is validated and
  written.
\<close>

theorem first_send_throws_on_openapi3:
  "response_fn get_people_v3 (JNum 200) (JArr []) Map.empty
     = Inr \<lparr>ser_headers = [], ser_body = Some (JArr [])\<rparr>
   \<and> derived_content_type (POpenapi people_api_v3) get_people_v3
       (world0\<lparr>res := (res world0)\<lparr>sendHooked := True\<rparr>\<rparr>) = Some [''application/json'']
   \<and> sent (res (middleware (options0\<lparr>opt_middleware := [sender options0 (JArr [])]\<rparr>)
        node (Inr people_api_v3) world0)) = []
   \<and> hostNext (middleware (options0\<lparr>opt_middleware := [sender options0 (JArr [])]\<rparr>)
        node (Inr people_api_v3) world0) = [TypeError]
   \<and> sendHooked (res (middleware (options0\<lparr>opt_middleware := [sender options0 (JArr [])]\<rparr>)
        node (Inr people_api_v3) world0)) = False
   \<and> sent (res (middleware (options0\<lparr>opt_middleware := [sender options0 (JArr [])]\<rparr>)
        node (Inr people_api) world0)) = [JArr []]"
proof (intro conjI)
  show "response_fn get_people_v3 (JNum 200) (JArr []) Map.empty
     = Inr \<lparr>ser_headers = [], ser_body = Some (JArr [])\<rparr>"
    by (simp add: get_people_v3_def get_people_def)
  show "derived_content_type (POpenapi people_api_v3) get_people_v3
       (world0\<lparr>res := (res world0)\<lparr>sendHooked := True\<rparr>\<rparr>) = Some [''application/json'']"
    by (simp add: derived_content_type_def has_swagger_def people_api_v3_def get_people_v3_def
        get_people_def world0_def request0_def truthy_opt_def status_or_200_def accepts_or_any_def
        or_else_def truthy_str_def)
  show "sent (res (middleware (options0\<lparr>opt_middleware := [sender options0 (JArr [])]\<rparr>)
        node (Inr people_api) world0)) = [JArr []]"
    using interception_once_swagger2 by simp
  have run3: "middleware (options0\<lparr>opt_middleware := [sender options0 (JArr [])]\<rparr>)
      node (Inr people_api_v3) world0
    = (set_prop ''operation'' (POperation get_people_v3)
        (set_prop ''openapi'' (POpenapi people_api_v3) world0))
      \<lparr>req := copy_parameters
         \<lparr>rq_operation = get_people_v3, rq_path = Some Map.empty, rq_cookies = None,
          rq_headers = Some Map.empty, rq_params = None, rq_query = Some Map.empty,
          rq_body = None\<rparr>
         (req (set_prop ''operation'' (POperation get_people_v3)
                (set_prop ''openapi'' (POpenapi people_api_v3) world0))),
       hostNext := [TypeError]\<rparr>"
    by (simp add: world0_def request0_def options0_def middleware_def people_api_v3_def
        requestObj_def hasBody_def node_def isNaN_def set_prop_def copy_parameters_def assign_def
        middlewareRunner_def isErrorHandling_def sender_def send.simps intercepted_send_eq Let_def
        clearHeader_def res_removeHeader_def status_or_200_def derived_content_type_def
        has_swagger_def truthy_opt_def get_people_v3_def get_people_def next_local_def
        accepts_or_any_def or_else_def truthy_str_def TypeError_def)
  show "sent (res (middleware (options0\<lparr>opt_middleware := [sender options0 (JArr [])]\<rparr>)
        node (Inr people_api_v3) world0)) = []"
    by (simp add: run3) (simp add: set_prop_def world0_def)
  show "hostNext (middleware (options0\<lparr>opt_middleware := [sender options0 (JArr [])]\<rparr>)
        node (Inr people_api_v3) world0) = [TypeError]"
    by (simp add: run3)
  show "sendHooked (res (middleware (options0\<lparr>opt_middleware := [sender options0 (JArr [])]\<rparr>)
        node (Inr people_api_v3) world0)) = False"
    by (simp add: run3) (simp add: set_prop_def world0_def)
qed

section \<open>A response that fails validation\<close>

lemma clearHeader_frame [simp]:
  "sendHooked (res (clearHeader c w)) = sendHooked (res w)"
  "sent (res (clearHeader c w)) = sent (res w)"
  "statusCode (res (clearHeader c w)) = statusCode (res w)"
  "hostNext (clearHeader c w) = hostNext w"
  "flow (clearHeader c w) = flow w"
  "req (clearHeader c w) = req w"
  by (simp_all add: clearHeader_def res_removeHeader_def)

lemma next_local_frame [simp]:
  "sent (res (next_local e w)) = sent (res w)"
  "statusCode (res (next_local e w)) = statusCode (res w)"
  "resHeaders (res (next_local e w)) = resHeaders (res w)"
  "flow (next_local e w) = flow w"
  "req (next_local e w) = req w"
  "hostNext (next_local e w) = hostNext w @ [if truthy e then e else JUndefined]"
  by (simp_all add: next_local_def Let_def)

lemma res_status_frame [simp]:
  "sent (res (res_status code w)) = sent (res w)"
  "statusCode (res (res_status code w)) = code"
  "resHeaders (res (res_status code w)) = resHeaders (res w)"
  "hostNext (res_status code w) = hostNext w"
  "flow (res_status code w) = flow w"
  "req (res_status code w) = req w"
  by (simp_all add: res_status_def)

lemma clearHeader_view:
  "status_or_200 (clearHeader c w) = status_or_200 w"
  "derived_content_type openapi operation (clearHeader c w) = derived_content_type openapi operation w"
  "props (req (clearHeader c w)) = props (req w)"
  by (simp_all add: status_or_200_def derived_content_type_def clearHeader_def res_removeHeader_def
      ENFORCER_HEADER_def accepts_or_any_def)

text \<open>
  Claim C5, as the source has it, where no content type is derived (the catalog is a
  Swagger 2 document or a content type is set).  When the body handed to the intercepted
  \<^verbatim>\<open>res.send\<close> fails the operation's response validation, the status is set to 500, nothing
  is written to the transport, and the error made from the exception is passed to the
  \<^verbatim>\<open>next\<close> of lines 127 to 131, that is, straight to the host's \<^verbatim>\<open>next\<close>.  The runner's queue
  is not involved: a handler that sends such a body ends the chain, whatever handlers
  follow it.
\<close>

theorem response_failure_goes_to_host:
  assumes "sendHooked (res w)"
    and "props (req w) (reqOpenApiProperty options) = Some openapi"
    and "props (req w) (reqOperationProperty options) = Some (POperation operation)"
    and "has_swagger openapi \<or> truthy_opt (resHeaders (res w) ''content-type'')"
    and "response_fn operation (status_or_200 w) b (resHeaders (res (clearHeader c w)))
           = Inl exception"
  shows "run c (sender options b # rest) JUndefined w = (None, snd (send options b (clearHeader c w)))
         \<and> statusCode (res (snd (send options b (clearHeader c w)))) = JNum 500
         \<and> sent (res (snd (send options b (clearHeader c w)))) = sent (res w)
         \<and> hostNext (snd (send options b (clearHeader c w)))
             = hostNext w @ [errorFromException exception]
         \<and> flow (snd (send options b (clearHeader c w))) = flow w"
proof -
  have d: "derived_content_type openapi operation (clearHeader c w) = None"
    using assms(4) by (simp add: clearHeader_view derived_none)
  have s: "send options b (clearHeader c w) =
      (None, next_local (errorFromException exception)
        (res_status (JNum 500)
           ((clearHeader c w)\<lparr>res := (res (clearHeader c w))\<lparr>sendHooked := False\<rparr>\<rparr>)))"
    using assms d by (intro send_failure) (simp_all add: clearHeader_view)
  have t: "truthy (errorFromException exception)"
    by (simp add: errorFromException_def)
  have ar: "\<not> isErrorHandling (sender options b)"
    by (simp add: sender_def isErrorHandling_def)
  have inv: "invoke (sender options b) None (clearHeader c w)
      = (End, snd (send options b (clearHeader c w)))"
    by (simp add: sender_def s)
  have r: "run c (sender options b # rest) JUndefined w = (None, snd (send options b (clearHeader c w)))"
    by (simp add: ar inv Let_def)
  have q: "statusCode (res (snd (send options b (clearHeader c w)))) = JNum 500
      \<and> sent (res (snd (send options b (clearHeader c w)))) = sent (res w)
      \<and> hostNext (snd (send options b (clearHeader c w)))
           = hostNext w @ [errorFromException exception]
      \<and> flow (snd (send options b (clearHeader c w))) = flow w"
    by (simp add: s t)
  from r q show ?thesis by (rule conjI)
qed

theorem response_failure_goes_to_host_witness:
  "run False [sender options0 (JStr ''oops''), pushing 4 2 (CallNext JUndefined)] JUndefined
      (set_prop ''operation'' (POperation get_people)
         (set_prop ''openapi'' (POpenapi people_api) (world0\<lparr>res := (res world0)\<lparr>sendHooked := True\<rparr>\<rparr>)))
     = (None, snd (send options0 (JStr ''oops'')
         (set_prop ''operation'' (POperation get_people)
            (set_prop ''openapi'' (POpenapi people_api) (world0\<lparr>res := (res world0)\<lparr>sendHooked := True\<rparr>\<rparr>)))))
   \<and> statusCode (res (snd (send options0 (JStr ''oops'')
         (set_prop ''operation'' (POperation get_people)
            (set_prop ''openapi'' (POpenapi people_api) (world0\<lparr>res := (res world0)\<lparr>sendHooked := True\<rparr>\<rparr>)))))) = JNum 500
   \<and> hostNext (snd (send options0 (JStr ''oops'')
         (set_prop ''operation'' (POperation get_people)
            (set_prop ''openapi'' (POpenapi people_api) (world0\<lparr>res := (res world0)\<lparr>sendHooked := True\<rparr>\<rparr>)))))
       = [errorFromException invalid_response]"
  using response_failure_goes_to_host
    [of "set_prop ''operation'' (POperation get_people)
           (set_prop ''openapi'' (POpenapi people_api) (world0\<lparr>res := (res world0)\<lparr>sendHooked := True\<rparr>\<rparr>))"
        options0 "POpenapi people_api" get_people "JStr ''oops''" False invalid_response
        "[pushing 4 2 (CallNext JUndefined)]"]
  by (simp add: set_prop_def world0_def options0_def get_people_def clearHeader_def
      has_swagger_def people_api_def status_or_200_def)

text \<open>
  The claim as written fails where it sends the failure into the handler chain's error
  path.  The chain is a handler that sends an invalid body, followed by an error handler
  that would record 2: the error handler is never called (\<open>flow\<close> stays empty) and the
  error is given to the host.
\<close>

theorem response_failure_skips_chain_counterexample:
  "isErrorHandling (pushing 4 2 (CallNext JUndefined))
   \<and> flow (middleware
        (options0\<lparr>opt_middleware := [sender options0 (JStr ''oops''), pushing 4 2 (CallNext JUndefined)]\<rparr>)
        node (Inr people_api) world0) = []
   \<and> hostNext (middleware
        (options0\<lparr>opt_middleware := [sender options0 (JStr ''oops''), pushing 4 2 (CallNext JUndefined)]\<rparr>)
        node (Inr people_api) world0) = [errorFromException invalid_response]
   \<and> statusCode (res (middleware
        (options0\<lparr>opt_middleware := [sender options0 (JStr ''oops''), pushing 4 2 (CallNext JUndefined)]\<rparr>)
        node (Inr people_api) world0)) = JNum 500
   \<and> sent (res (middleware
        (options0\<lparr>opt_middleware := [sender options0 (JStr ''oops''), pushing 4 2 (CallNext JUndefined)]\<rparr>)
        node (Inr people_api) world0)) = []"
  by (simp add: world0_def request0_def options0_def middleware_def people_api_def requestObj_def
      hasBody_def node_def isNaN_def set_prop_def copy_parameters_def assign_def
      middlewareRunner_def isErrorHandling_def sender_def pushing_def send.simps
      intercepted_send_eq Let_def clearHeader_def res_removeHeader_def status_or_200_def
      derived_content_type_def has_swagger_def truthy_opt_def get_people_def next_local_def
      res_status_def errorFromException_def original_send_def)

text \<open>
  Where a content type is derived the body is not validated at all: the call of
  \<^verbatim>\<open>res.send\<close> throws, the runner catches the \<^verbatim>\<open>TypeError\<close> and goes on with it, and the status
  code stays as it was.
\<close>

lemma derived_type_throws_into_chain:
  assumes "sendHooked (res w)"
    and "props (req w) (reqOpenApiProperty options) = Some openapi"
    and "props (req w) (reqOperationProperty options) = Some (POperation operation)"
    and "derived_content_type openapi operation w = Some type"
  shows "run c (sender options b # rest) JUndefined w
           = run c rest TypeError ((clearHeader c w)\<lparr>res := (res (clearHeader c w))\<lparr>sendHooked := False\<rparr>\<rparr>)"
proof -
  have s: "send options b (clearHeader c w) =
      (Some TypeError, (clearHeader c w)\<lparr>res := (res (clearHeader c w))\<lparr>sendHooked := False\<rparr>\<rparr>)"
    using assms by (intro send_throws) (simp_all add: clearHeader_view)
  have ar: "\<not> isErrorHandling (sender options b)"
    by (simp add: sender_def isErrorHandling_def)
  have inv: "invoke (sender options b) None (clearHeader c w)
      = (Throw TypeError, (clearHeader c w)\<lparr>res := (res (clearHeader c w))\<lparr>sendHooked := False\<rparr>\<rparr>)"
    by (simp add: sender_def s)
  show ?thesis
    by (simp add: ar inv Let_def)
qed

section \<open>The mock decision\<close>

lemma decision_ignores_query:
  "mock_decision options automatic (r\<lparr>query := q\<rparr>) codes = mock_decision options automatic r codes"
  by (simp add: mock_decision_def Let_def)

lemma empty_header_decision:
  "headers r (mockHeader options) = Some [] \<Longrightarrow>
   mock_decision options automatic r codes =
     Some \<lparr>source = ''header'', specified = False,
           mock_statusCode = (case codes of [] \<Rightarrow> [] | c # cs \<Rightarrow> c), mock_response = None\<rparr>"
  by (simp add: mock_decision_def code_or_default_def or_else_def truthy_str_def first_code_def
      split: list.splits)

lemma decision_no_response:
  "mock_decision options automatic r codes = Some m \<Longrightarrow> mock_response m = None"
  by (auto simp: mock_decision_def Let_def split: if_splits)

lemma version_2_iff: "version_of api = Some (JNum 2) \<longleftrightarrow> truthy_opt (swagger api)"
  by (simp add: version_of_def split: list.splits)

lemma version_never_3: "version_of api \<noteq> Some (JNum 3)"
  by (simp add: version_of_def split: list.splits)

text \<open>
  Claim C6 at a request that carries the query parameter \<^verbatim>\<open>x-mock=200\<close> and no mock header,
  with the default options and automatic mocking off: the mock middleware makes no
  decision and calls \<^verbatim>\<open>next()\<close>.  The decision never depends on \<^verbatim>\<open>req.query\<close>: the branch
  that names its source \<^verbatim>\<open>query\<close> tests \<^verbatim>\<open>req.headers\<close> for the query key (line 239).
\<close>

theorem query_parameter_is_no_trigger:
  "mock_decision options automatic (r\<lparr>query := q\<rparr>) codes = mock_decision options automatic r codes
   \<and> query ((req (people_world Map.empty))\<lparr>query := Some [''x-mock'' \<mapsto> JStr ''200'']\<rparr>)
       = Some [''x-mock'' \<mapsto> JStr ''200'']
   \<and> mock_decision options0 False
        ((req (people_world Map.empty))\<lparr>query := Some [''x-mock'' \<mapsto> JStr ''200'']\<rparr>) [''200'']
       = None
   \<and> fst (invoke (mocks_middleware options0 False people_api (Inr Map.empty)) None
        ((people_world Map.empty)\<lparr>req := (req (people_world Map.empty))
            \<lparr>query := Some [''x-mock'' \<mapsto> JStr ''200'']\<rparr>\<rparr>))
       = CallNext JUndefined"
proof (intro conjI)
  show "mock_decision options automatic (r\<lparr>query := q\<rparr>) codes
      = mock_decision options automatic r codes"
    by (rule decision_ignores_query)
  show "query ((req (people_world Map.empty))\<lparr>query := Some [''x-mock'' \<mapsto> JStr ''200'']\<rparr>)
       = Some [''x-mock'' \<mapsto> JStr ''200'']"
    by simp
  show d: "mock_decision options0 False
        ((req (people_world Map.empty))\<lparr>query := Some [''x-mock'' \<mapsto> JStr ''200'']\<rparr>) [''200'']
       = None"
    by (simp add: mock_decision_def options0_def people_world_def set_prop_def world0_def
        request0_def)
  show "fst (invoke (mocks_middleware options0 False people_api (Inr Map.empty)) None
        ((people_world Map.empty)\<lparr>req := (req (people_world Map.empty))
            \<lparr>query := Some [''x-mock'' \<mapsto> JStr ''200'']\<rparr>\<rparr>))
       = CallNext JUndefined"
    by (simp add: mocks_middleware_def registry_get_def Let_def mock_decision_def options0_def
        people_world_def set_prop_def world0_def request0_def)
qed

section \<open>The mock middleware: bound controller, unlisted status code, generation\<close>

lemma mocks_unlisted:
  assumes "props (req w) (reqOperationProperty options) = Some (POperation operation)"
    and "controllers (op_id operation) = None"
    and "mock_decision options automatic (req w) (map fst (responses operation)) = Some m"
    and "map_of (responses operation) (mock_statusCode m) = None"
    and "version_of api = Some v"
  shows "invoke (mocks_middleware options automatic api (Inr controllers)) a w =
     (CallNext (errorFromException
        (exc_message [] (''No response is defined for status code: '' @ mock_statusCode m)
           (exc_set_statusCode 400 (new_Exception ''Unable to generate mock response'')))),
      set_prop (reqMockStatusCodeProperty options) (PMock m) w)"
proof -
  have n: "mock_response m = None"
    using assms(3) by (rule decision_no_response)
  then have m: "m\<lparr>mock_response := None\<rparr> = m"
    by simp
  show ?thesis
    using assms by (simp add: mocks_middleware_def registry_get_def Let_def m n)
qed

lemma mocks_controller:
  assumes "props (req w) (reqOperationProperty options) = Some (POperation operation)"
    and "controllers (op_id operation) = Some c"
    and "mock_decision options automatic (req w) (map fst (responses operation)) = Some m"
    and "version_of api = Some v"
  shows "invoke (mocks_middleware options automatic api (Inr controllers)) a w =
     call_controller c
       (res_set ENFORCER_HEADER (JStr ''mock'')
          (set_prop (reqMockStatusCodeProperty options)
             (PMock (m\<lparr>mock_response := map_of (responses operation) (mock_statusCode m)\<rparr>)) w))"
  using assms by (simp add: mocks_middleware_def registry_get_def Let_def)

lemma controllers_controller:
  assumes "props (req w) (reqOperationProperty options) = Some (POperation operation)"
    and "controllers (op_id operation) = Some c"
  shows "invoke (controllers_middleware options (Inr controllers)) a w =
     call_controller c (res_set ENFORCER_HEADER (JStr ''controller'') w)"
  using assms by (simp add: controllers_middleware_def registry_get_def Let_def)

lemma mocks_generate_v2:
  assumes "props (req w) (reqOperationProperty options) = Some (POperation operation)"
    and "controllers (op_id operation) = None"
    and "mock_decision options automatic (req w) (map fst (responses operation)) = Some m"
    and "map_of (responses operation) (mock_statusCode m) = Some response"
    and "version_of api = Some (JNum 2)"
    and "rs_schema response = Some sch"
    and "random sch = (v, None, None)"
  shows "invoke (mocks_middleware options automatic api (Inr controllers)) a w =
     (case send options v
             (res_status (JStr (mock_statusCode m))
                (set_prop (reqMockStatusCodeProperty options)
                   (PMock (m\<lparr>mock_response := Some response\<rparr>)) w)) of
        (Some thrown, w') \<Rightarrow> (CallNext thrown, w')
      | (None, w') \<Rightarrow> (End, w'))"
  using assms
  by (simp add: mocks_middleware_def registry_get_def Let_def generate_mock_def mock_from_schema_def)

text \<open>
  Claim C3, as the source has it.  In the mock middleware, when a mock controller is bound
  to the request's operation and a mock decision is made, the decision (with its status
  code and, when declared, its response) is attached to the request under the configured
  property, the marker header is set to \<^verbatim>\<open>mock\<close>, and the controller is called on that
  state; what its call yields is what the middleware yields, so no value is generated.
  The marker \<^verbatim>\<open>controller\<close> is what the controllers middleware sets before it calls a
  bound controller; that middleware attaches no decision.
\<close>

theorem mock_controller_precedence:
  assumes "props (req w) (reqOperationProperty options) = Some (POperation operation)"
    and "controllers (op_id operation) = Some c"
    and "mock_decision options automatic (req w) (map fst (responses operation)) = Some m"
    and "version_of api = Some v"
  shows "invoke (mocks_middleware options automatic api (Inr controllers)) a w =
           call_controller c
             (res_set ENFORCER_HEADER (JStr ''mock'')
                (set_prop (reqMockStatusCodeProperty options)
                   (PMock (m\<lparr>mock_response := map_of (responses operation) (mock_statusCode m)\<rparr>))
                   w))
         \<and> resHeaders (res (res_set ENFORCER_HEADER (JStr ''mock'')
                (set_prop (reqMockStatusCodeProperty options)
                   (PMock (m\<lparr>mock_response := map_of (responses operation) (mock_statusCode m)\<rparr>))
                   w))) ENFORCER_HEADER = Some (JStr ''mock'')
         \<and> props (req (res_set ENFORCER_HEADER (JStr ''mock'')
                (set_prop (reqMockStatusCodeProperty options)
                   (PMock (m\<lparr>mock_response := map_of (responses operation) (mock_statusCode m)\<rparr>))
                   w))) (reqMockStatusCodeProperty options)
             = Some (PMock (m\<lparr>mock_response := map_of (responses operation) (mock_statusCode m)\<rparr>))
         \<and> invoke (controllers_middleware options (Inr controllers)) a w =
             call_controller c (res_set ENFORCER_HEADER (JStr ''controller'') w)"
proof (intro conjI)
  show "invoke (mocks_middleware options automatic api (Inr controllers)) a w =
           call_controller c
             (res_set ENFORCER_HEADER (JStr ''mock'')
                (set_prop (reqMockStatusCodeProperty options)
                   (PMock (m\<lparr>mock_response := map_of (responses operation) (mock_statusCode m)\<rparr>))
                   w))"
    using assms by (rule mocks_controller)
  show "invoke (controllers_middleware options (Inr controllers)) a w =
             call_controller c (res_set ENFORCER_HEADER (JStr ''controller'') w)"
    using assms(1,2) by (rule controllers_controller)
qed (simp_all add: res_set_def set_prop_def)

theorem mock_controller_precedence_witness:
  "invoke (mocks_middleware options0 False people_api (Inr [1 \<mapsto> pushing 3 7 End])) None
      (people_world [''x-mock'' \<mapsto> []])
     = call_controller (pushing 3 7 End)
         (res_set ENFORCER_HEADER (JStr ''mock'')
            (set_prop ''mockStatusCode''
               (PMock \<lparr>source = ''header'', specified = False, mock_statusCode = ''200'',
                        mock_response = Some people_200\<rparr>)
               (people_world [''x-mock'' \<mapsto> []])))
   \<and> flow (snd (invoke (mocks_middleware options0 False people_api (Inr [1 \<mapsto> pushing 3 7 End])) None
        (people_world [''x-mock'' \<mapsto> []]))) = [7]"
  using mock_controller_precedence
    [of "people_world [''x-mock'' \<mapsto> []]" options0 get_people "[1 \<mapsto> pushing 3 7 End]"
        "pushing 3 7 End" False
        "\<lparr>source = ''header'', specified = False, mock_statusCode = ''200'', mock_response = None\<rparr>"
        people_api "JNum 2" None]
  by (simp add: people_world_def set_prop_def options0_def world0_def request0_def get_people_def
      mock_decision_def code_or_default_def or_else_def truthy_str_def first_code_def
      version_of_def people_api_def truthy_opt_def call_controller_def pushing_def res_set_def)

text \<open>
  The claim as written fails at the marker header.  A request to \<^verbatim>\<open>GET /people\<close> with an
  empty mock header, and a mock controller bound to the operation: the controller runs
  (it records 7) and the response carries the marker \<^verbatim>\<open>mock\<close>, not \<^verbatim>\<open>controller\<close>.
\<close>

theorem mock_controller_marker_counterexample:
  "resHeaders (res (middleware
      (options0\<lparr>opt_middleware :=
         [mocks_middleware options0 False people_api (Inr [1 \<mapsto> pushing 3 7 End])]\<rparr>)
      node (Inr people_api) (world0\<lparr>req := request0\<lparr>headers := [''x-mock'' \<mapsto> []]\<rparr>\<rparr>)))
     ENFORCER_HEADER = Some (JStr ''mock'')
   \<and> JStr ''mock'' \<noteq> JStr ''controller''
   \<and> flow (middleware
      (options0\<lparr>opt_middleware :=
         [mocks_middleware options0 False people_api (Inr [1 \<mapsto> pushing 3 7 End])]\<rparr>)
      node (Inr people_api) (world0\<lparr>req := request0\<lparr>headers := [''x-mock'' \<mapsto> []]\<rparr>\<rparr>)) = [7]"
  by (simp add: world0_def request0_def options0_def middleware_def people_api_def requestObj_def
      hasBody_def node_def set_prop_def copy_parameters_def assign_def middlewareRunner_def
      isErrorHandling_def mocks_middleware_def registry_get_def mock_decision_def
      code_or_default_def or_else_def truthy_str_def first_code_def version_of_def truthy_opt_def
      call_controller_def pushing_def Let_def clearHeader_def res_removeHeader_def get_people_def
      ENFORCER_HEADER_def res_set_def)

text \<open>
  Claim C7, as the source has it.  With the mock header present and empty the decision
  has the first declared response code (the empty string when none is declared).  When the
  decided status code is not among the operation's declared responses and no mock
  controller is bound, the middleware attaches the decision and advances the chain with an
  error whose status code is 400: it is made from the exception as created at lines 258
  and 259, and \<^verbatim>\<open>unableToMock\<close>, which would set 501, is not called on this branch.
\<close>

theorem empty_trigger_and_unlisted_code:
  "(headers r (mockHeader options) = Some [] \<longrightarrow>
      mock_decision options automatic r codes =
        Some \<lparr>source = ''header'', specified = False,
              mock_statusCode = (case codes of [] \<Rightarrow> [] | c # cs \<Rightarrow> c), mock_response = None\<rparr>)
   \<and> (props (req w) (reqOperationProperty options) = Some (POperation operation)
        \<and> controllers (op_id operation) = None
        \<and> mock_decision options automatic (req w) (map fst (responses operation)) = Some m
        \<and> map_of (responses operation) (mock_statusCode m) = None
        \<and> version_of api = Some v \<longrightarrow>
      invoke (mocks_middleware options automatic api (Inr controllers)) a w =
        (CallNext (errorFromException
           (exc_message [] (''No response is defined for status code: '' @ mock_statusCode m)
              (exc_set_statusCode 400 (new_Exception ''Unable to generate mock response'')))),
         set_prop (reqMockStatusCodeProperty options) (PMock m) w)
      \<and> outcome_status (fst (invoke (mocks_middleware options automatic api (Inr controllers)) a w))
          = Some 400)"
proof (intro conjI impI)
  assume "headers r (mockHeader options) = Some []"
  then show "mock_decision options automatic r codes =
        Some \<lparr>source = ''header'', specified = False,
              mock_statusCode = (case codes of [] \<Rightarrow> [] | c # cs \<Rightarrow> c), mock_response = None\<rparr>"
    by (rule empty_header_decision)
next
  assume h: "props (req w) (reqOperationProperty options) = Some (POperation operation)
        \<and> controllers (op_id operation) = None
        \<and> mock_decision options automatic (req w) (map fst (responses operation)) = Some m
        \<and> map_of (responses operation) (mock_statusCode m) = None
        \<and> version_of api = Some v"
  from h have h1: "props (req w) (reqOperationProperty options) = Some (POperation operation)"
    and h2: "controllers (op_id operation) = None"
    and h3: "mock_decision options automatic (req w) (map fst (responses operation)) = Some m"
    and h4: "map_of (responses operation) (mock_statusCode m) = None"
    and h5: "version_of api = Some v"
    by simp_all
  from h1 h2 h3 h4 h5
  show e: "invoke (mocks_middleware options automatic api (Inr controllers)) a w =
        (CallNext (errorFromException
           (exc_message [] (''No response is defined for status code: '' @ mock_statusCode m)
              (exc_set_statusCode 400 (new_Exception ''Unable to generate mock response'')))),
         set_prop (reqMockStatusCodeProperty options) (PMock m) w)"
    by (rule mocks_unlisted)
  show "outcome_status (fst (invoke (mocks_middleware options automatic api (Inr controllers)) a w))
          = Some 400"
    by (simp add: e errorFromException_def new_Exception_def)
qed

theorem empty_trigger_and_unlisted_code_witness:
  "mock_decision options0 False (req (people_world [''x-mock'' \<mapsto> []])) [''200''] =
     Some \<lparr>source = ''header'', specified = False, mock_statusCode = ''200'', mock_response = None\<rparr>
   \<and> outcome_status (fst (invoke (mocks_middleware options0 False people_api (Inr Map.empty)) None
        (people_world [''x-mock'' \<mapsto> ''404'']))) = Some 400"
proof -
  have a: "headers (req (people_world [''x-mock'' \<mapsto> []])) (mockHeader options0) = Some []"
    by (simp add: people_world_def set_prop_def options0_def world0_def request0_def)
  have b: "props (req (people_world [''x-mock'' \<mapsto> ''404''])) (reqOperationProperty options0)
        = Some (POperation get_people)
      \<and> Map.empty (op_id get_people) = None
      \<and> mock_decision options0 False (req (people_world [''x-mock'' \<mapsto> ''404'']))
          (map fst (responses get_people))
        = Some \<lparr>source = ''header'', specified = True, mock_statusCode = ''404'',
                 mock_response = None\<rparr>
      \<and> map_of (responses get_people)
          (mock_statusCode \<lparr>source = ''header'', specified = True, mock_statusCode = ''404'',
                             mock_response = None\<rparr>) = None
      \<and> version_of people_api = Some (JNum 2)"
    by (simp add: people_world_def set_prop_def options0_def world0_def request0_def get_people_def
        mock_decision_def code_or_default_def or_else_def truthy_str_def first_code_def
        version_of_def people_api_def truthy_opt_def)
  note t = empty_trigger_and_unlisted_code
    [of "req (people_world [''x-mock'' \<mapsto> []])" options0 False "[''200'']"
        "people_world [''x-mock'' \<mapsto> ''404'']" get_people Map.empty
        "\<lparr>source = ''header'', specified = True, mock_statusCode = ''404'', mock_response = None\<rparr>"
        people_api "JNum 2" None]
  have x: "mock_decision options0 False (req (people_world [''x-mock'' \<mapsto> []])) [''200''] =
     Some \<lparr>source = ''header'', specified = False, mock_statusCode = ''200'', mock_response = None\<rparr>"
    using t [THEN conjunct1, THEN mp, OF a] by simp
  have y: "outcome_status (fst (invoke (mocks_middleware options0 False people_api (Inr Map.empty)) None
        (people_world [''x-mock'' \<mapsto> ''404'']))) = Some 400"
    using t [THEN conjunct2, THEN mp, OF b, THEN conjunct2] .
  from x y show ?thesis by (rule conjI)
qed

text \<open>
  The claim as written fails at the status code of the error.  The mock header asks for
  404, which \<^verbatim>\<open>GET /people\<close> does not declare, and no controller is bound: the chain advances
  with an error of status code 400, not 501.
\<close>

theorem unlisted_code_is_400_counterexample:
  "map_of (responses get_people) ''404'' = None
   \<and> outcome_status (fst (invoke (mocks_middleware options0 False people_api (Inr Map.empty)) None
        (people_world [''x-mock'' \<mapsto> ''404'']))) = Some 400
   \<and> Some (400::nat) \<noteq> Some 501"
  by (simp add: mocks_middleware_def registry_get_def Let_def people_world_def set_prop_def
      options0_def world0_def request0_def get_people_def mock_decision_def code_or_default_def
      or_else_def truthy_str_def first_code_def version_of_def people_api_def truthy_opt_def
      errorFromException_def new_Exception_def)

section \<open>A generated mock response\<close>

lemma fold_res_set_other:
  "k \<notin> fst ` set hs \<Longrightarrow>
   resHeaders (res (fold (\<lambda>(h, v). res_set h (f v)) hs w)) k = resHeaders (res w) k"
  by (induction hs arbitrary: w) (auto simp: res_set_def)

lemma set_prop_frame [simp]:
  "res (set_prop name v w) = res w"
  "hostNext (set_prop name v w) = hostNext w"
  "flow (set_prop name v w) = flow w"
  "headers (req (set_prop name v w)) = headers (req w)"
  "props (req (set_prop name v w)) = (props (req w))(name \<mapsto> v)"
  by (simp_all add: set_prop_def)

lemma swagger_not_derived:
  "truthy_opt (swagger api) \<Longrightarrow> derived_content_type (POpenapi api) operation w = None"
  by (auto simp: derived_content_type_def has_swagger_def truthy_opt_def split: option.splits)

lemma generated_mock_outcome:
  assumes v2: "truthy_opt (swagger api)"
    and api: "props (req w) (reqOpenApiProperty options) = Some (POpenapi api)"
    and op: "props (req w) (reqOperationProperty options) = Some (POperation operation)"
    and d1: "reqMockStatusCodeProperty options \<noteq> reqOpenApiProperty options"
    and d2: "reqMockStatusCodeProperty options \<noteq> reqOperationProperty options"
    and hooked: "sendHooked (res w)"
    and unbound: "controllers (op_id operation) = None"
    and empty: "headers (req w) (mockHeader options) = Some []"
    and first: "responses operation = (code, response) # others"
    and code: "code \<noteq> []"
    and sch: "rs_schema response = Some sch"
    and rnd: "random sch = (v, None, None)"
  shows "invoke (mocks_middleware options automatic api (Inr controllers)) a w =
           (End,
            case response_fn operation (JStr code) v (resHeaders (res w)) of
              Inl exception \<Rightarrow>
                next_local (errorFromException exception)
                  (res_status (JNum 500)
                     (set_prop (reqMockStatusCodeProperty options)
                        (PMock \<lparr>source = ''header'', specified = False, mock_statusCode = code,
                                 mock_response = Some response\<rparr>) w))
            | Inr ser \<Rightarrow>
                original_send (case ser_body ser of Some x \<Rightarrow> extractValue x | None \<Rightarrow> JUndefined)
                  (fold (\<lambda>(h, x). res_set h (extractValue x)) (ser_headers ser)
                     ((res_status (JStr code)
                        (set_prop (reqMockStatusCodeProperty options)
                           (PMock \<lparr>source = ''header'', specified = False, mock_statusCode = code,
                                    mock_response = Some response\<rparr>) w))
                      \<lparr>res := (res (res_status (JStr code) w))\<lparr>sendHooked := False\<rparr>\<rparr>)))"
proof -
  let ?m = "\<lparr>source = ''header'', specified = False, mock_statusCode = code, mock_response = None\<rparr>"
  let ?m' = "\<lparr>source = ''header'', specified = False, mock_statusCode = code,
               mock_response = Some response\<rparr>"
  let ?w1 = "res_status (JStr code) (set_prop (reqMockStatusCodeProperty options) (PMock ?m') w)"
  have dec: "mock_decision options automatic (req w) (map fst (responses operation)) = Some ?m"
    using empty first by (simp add: empty_header_decision)
  have found: "map_of (responses operation) (mock_statusCode ?m) = Some response"
    using first by simp
  have ver: "version_of api = Some (JNum 2)"
    using v2 by (simp add: version_2_iff)
  have inv: "invoke (mocks_middleware options automatic api (Inr controllers)) a w =
     (case send options v ?w1 of
        (Some thrown, w') \<Rightarrow> (CallNext thrown, w')
      | (None, w') \<Rightarrow> (End, w'))"
    using mocks_generate_v2 [where controllers = controllers, OF op unbound dec found ver sch rnd] by simp
  have hk: "sendHooked (res ?w1)"
    using hooked by (simp add: res_status_def)
  have p1: "props (req ?w1) (reqOpenApiProperty options) = Some (POpenapi api)"
    using api d1 by (simp add: res_status_def)
  have p2: "props (req ?w1) (reqOperationProperty options) = Some (POperation operation)"
    using op d2 by (simp add: res_status_def)
  have st: "status_or_200 ?w1 = JStr code"
    using code by (simp add: status_or_200_def)
  have dt: "derived_content_type (POpenapi api) operation ?w1 = None"
    using v2 by (rule swagger_not_derived)
  have hd: "resHeaders (res ?w1) = resHeaders (res w)"
    by (simp add: res_status_def)
  show ?thesis
  proof (cases "response_fn operation (JStr code) v (resHeaders (res w))")
    case (Inl exception)
    then have f: "response_fn operation (status_or_200 ?w1) v (resHeaders (res ?w1)) = Inl exception"
      by (simp add: st hd)
    show ?thesis
      by (simp add: inv send_failure [OF hk p1 p2 dt f] Inl)
  next
    case (Inr ser)
    then have f: "response_fn operation (status_or_200 ?w1) v (resHeaders (res ?w1)) = Inr ser"
      by (simp add: st hd)
    show ?thesis
      by (simp add: inv send_success [OF hk p1 p2 dt f] Inr)
         (simp add: res_status_def set_prop_def)
  qed
qed

text \<open>
  Claim C8, as the source has it, for a Swagger 2 catalog.  The mock header is sent empty,
  the first declared response of the operation has a schema whose random generation
  succeeds, and no mock controller is bound.  The middleware attaches the decision, sets
  the status to the decided code and calls \<^verbatim>\<open>res.send\<close> with the generated value.  That
  function is the interceptor: the value is given, with the decided code, to the
  operation's response capability, and either what that returns is written as the body
  with the decided status, or, when the value is rejected, nothing is written, the status
  becomes 500 and the error goes to the host.
\<close>

theorem generated_mock_goes_through_interceptor:
  assumes v2: "truthy_opt (swagger api)"
    and api: "props (req w) (reqOpenApiProperty options) = Some (POpenapi api)"
    and op: "props (req w) (reqOperationProperty options) = Some (POperation operation)"
    and d1: "reqMockStatusCodeProperty options \<noteq> reqOpenApiProperty options"
    and d2: "reqMockStatusCodeProperty options \<noteq> reqOperationProperty options"
    and hooked: "sendHooked (res w)"
    and unbound: "controllers (op_id operation) = None"
    and empty: "headers (req w) (mockHeader options) = Some []"
    and first: "responses operation = (code, response) # others"
    and code: "code \<noteq> []"
    and sch: "rs_schema response = Some sch"
    and rnd: "random sch = (v, None, None)"
  shows "invoke (mocks_middleware options automatic api (Inr controllers)) a w =
           (End,
            case response_fn operation (JStr code) v (resHeaders (res w)) of
              Inl exception \<Rightarrow>
                next_local (errorFromException exception)
                  (res_status (JNum 500)
                     (set_prop (reqMockStatusCodeProperty options)
                        (PMock \<lparr>source = ''header'', specified = False, mock_statusCode = code,
                                 mock_response = Some response\<rparr>) w))
            | Inr ser \<Rightarrow>
                original_send (case ser_body ser of Some x \<Rightarrow> extractValue x | None \<Rightarrow> JUndefined)
                  (fold (\<lambda>(h, x). res_set h (extractValue x)) (ser_headers ser)
                     ((res_status (JStr code)
                        (set_prop (reqMockStatusCodeProperty options)
                           (PMock \<lparr>source = ''header'', specified = False, mock_statusCode = code,
                                    mock_response = Some response\<rparr>) w))
                      \<lparr>res := (res (res_status (JStr code) w))\<lparr>sendHooked := False\<rparr>\<rparr>)))
         \<and> (response_fn operation (JStr code) v (resHeaders (res w)) = Inr ser \<longrightarrow>
           statusCode (res (snd (invoke (mocks_middleware options automatic api (Inr controllers)) a w)))
             = JStr code
           \<and> sent (res (snd (invoke (mocks_middleware options automatic api (Inr controllers)) a w)))
             = sent (res w) @ [case ser_body ser of Some x \<Rightarrow> extractValue x | None \<Rightarrow> JUndefined]
           \<and> hostNext (snd (invoke (mocks_middleware options automatic api (Inr controllers)) a w))
             = hostNext w)
         \<and> (response_fn operation (JStr code) v (resHeaders (res w)) = Inl exception \<longrightarrow>
           statusCode (res (snd (invoke (mocks_middleware options automatic api (Inr controllers)) a w)))
             = JNum 500
           \<and> sent (res (snd (invoke (mocks_middleware options automatic api (Inr controllers)) a w)))
             = sent (res w)
           \<and> hostNext (snd (invoke (mocks_middleware options automatic api (Inr controllers)) a w))
             = hostNext w @ [errorFromException exception])"
proof -
  note main = generated_mock_outcome [where controllers = controllers and automatic = automatic
      and a = a, OF v2 api op d1 d2 hooked unbound empty first code sch rnd]
  have rest: "response_fn operation (JStr code) v (resHeaders (res w)) = Inr ser \<longrightarrow>
           statusCode (res (snd (invoke (mocks_middleware options automatic api (Inr controllers)) a w)))
             = JStr code
           \<and> sent (res (snd (invoke (mocks_middleware options automatic api (Inr controllers)) a w)))
             = sent (res w) @ [case ser_body ser of Some x \<Rightarrow> extractValue x | None \<Rightarrow> JUndefined]
           \<and> hostNext (snd (invoke (mocks_middleware options automatic api (Inr controllers)) a w))
             = hostNext w"
    by (simp add: main original_send_def res_status_def)
  have failed: "response_fn operation (JStr code) v (resHeaders (res w)) = Inl exception \<longrightarrow>
           statusCode (res (snd (invoke (mocks_middleware options automatic api (Inr controllers)) a w)))
             = JNum 500
           \<and> sent (res (snd (invoke (mocks_middleware options automatic api (Inr controllers)) a w)))
             = sent (res w)
           \<and> hostNext (snd (invoke (mocks_middleware options automatic api (Inr controllers)) a w))
             = hostNext w @ [errorFromException exception]"
    by (simp add: main errorFromException_def)
  from main rest failed show ?thesis by (intro conjI)
qed

theorem generated_mock_goes_through_interceptor_witness:
  "invoke (mocks_middleware options0 False people_api (Inr Map.empty)) None
      (people_world [''x-mock'' \<mapsto> []])
     = (End,
        original_send (JArr [JObj [(''name'', JStr ''Ann'')]])
          ((res_status (JStr ''200'')
             (set_prop ''mockStatusCode''
                (PMock \<lparr>source = ''header'', specified = False, mock_statusCode = ''200'',
                         mock_response = Some people_200\<rparr>)
                (people_world [''x-mock'' \<mapsto> []])))
           \<lparr>res := (res (res_status (JStr ''200'') (people_world [''x-mock'' \<mapsto> []])))
                     \<lparr>sendHooked := False\<rparr>\<rparr>))
   \<and> statusCode (res (snd (invoke (mocks_middleware options0 False people_api (Inr Map.empty)) None
        (people_world [''x-mock'' \<mapsto> []])))) = JStr ''200''
   \<and> sent (res (snd (invoke (mocks_middleware options0 False people_api (Inr Map.empty)) None
        (people_world [''x-mock'' \<mapsto> []])))) = [JArr [JObj [(''name'', JStr ''Ann'')]]]
   \<and> statusCode (res (snd (invoke (mocks_middleware options0 False people_api (Inr Map.empty)) None
        (rejecting_world [''x-mock'' \<mapsto> []])))) = JNum 500
   \<and> sent (res (snd (invoke (mocks_middleware options0 False people_api (Inr Map.empty)) None
        (rejecting_world [''x-mock'' \<mapsto> []])))) = []
   \<and> hostNext (snd (invoke (mocks_middleware options0 False people_api (Inr Map.empty)) None
        (rejecting_world [''x-mock'' \<mapsto> []]))) = [errorFromException invalid_response]"
proof -
  let ?w = "people_world [''x-mock'' \<mapsto> []]"
  let ?r = "rejecting_world [''x-mock'' \<mapsto> []]"
  let ?ser = "\<lparr>ser_headers = [], ser_body = Some (JArr [JObj [(''name'', JStr ''Ann'')]])\<rparr>"
  have v2: "truthy_opt (swagger people_api)"
    by (simp add: people_api_def truthy_opt_def)
  have api: "props (req ?w) (reqOpenApiProperty options0) = Some (POpenapi people_api)"
    by (simp add: people_world_def options0_def)
  have op: "props (req ?w) (reqOperationProperty options0) = Some (POperation get_people)"
    by (simp add: people_world_def options0_def)
  have api': "props (req ?r) (reqOpenApiProperty options0) = Some (POpenapi people_api)"
    by (simp add: rejecting_world_def people_world_def options0_def)
  have op': "props (req ?r) (reqOperationProperty options0) = Some (POperation rejecting_people)"
    by (simp add: rejecting_world_def people_world_def options0_def)
  have d1: "reqMockStatusCodeProperty options0 \<noteq> reqOpenApiProperty options0"
    by (simp add: options0_def)
  have d2: "reqMockStatusCodeProperty options0 \<noteq> reqOperationProperty options0"
    by (simp add: options0_def)
  have hooked: "sendHooked (res ?w)"
    by (simp add: people_world_def world0_def)
  have hooked': "sendHooked (res ?r)"
    by (simp add: rejecting_world_def people_world_def world0_def)
  have unbound: "Map.empty (op_id get_people) = None"
    by simp
  have unbound': "Map.empty (op_id rejecting_people) = None"
    by simp
  have empty: "headers (req ?w) (mockHeader options0) = Some []"
    by (simp add: people_world_def options0_def)
  have empty': "headers (req ?r) (mockHeader options0) = Some []"
    by (simp add: rejecting_world_def people_world_def options0_def)
  have first: "responses get_people = (''200'', people_200) # []"
    by (simp add: get_people_def)
  have first': "responses rejecting_people = (''200'', people_200) # []"
    by (simp add: rejecting_people_def get_people_def)
  have code: "''200'' \<noteq> []"
    by simp
  have sch: "rs_schema people_200 = Some people_schema"
    by (simp add: people_200_def)
  have rnd: "random people_schema = (JArr [JObj [(''name'', JStr ''Ann'')]], None, None)"
    by (simp add: people_schema_def)
  have ok: "response_fn get_people (JStr ''200'') (JArr [JObj [(''name'', JStr ''Ann'')]])
      (resHeaders (res ?w)) = Inr ?ser"
    by (simp add: get_people_def)
  have no: "response_fn rejecting_people (JStr ''200'') (JArr [JObj [(''name'', JStr ''Ann'')]])
      (resHeaders (res ?r)) = Inl invalid_response"
    by (simp add: rejecting_people_def)
  note t = generated_mock_goes_through_interceptor
    [where controllers = Map.empty and automatic = False and a = None and ser = ?ser,
     OF v2 api op d1 d2 hooked unbound empty first code sch rnd]
  note t' = generated_mock_goes_through_interceptor
    [where controllers = Map.empty and automatic = False and a = None
       and exception = invalid_response,
     OF v2 api' op' d1 d2 hooked' unbound' empty' first' code sch rnd]
  have nothing_sent: "sent (res ?w) = []" "sent (res ?r) = []" "hostNext ?r = []"
    by (simp_all add: rejecting_world_def people_world_def world0_def)
  have name: "reqMockStatusCodeProperty options0 = ''mockStatusCode''"
    by (simp add: options0_def)
  let ?i = "invoke (mocks_middleware options0 False people_api (Inr Map.empty)) None ?w"
  let ?j = "invoke (mocks_middleware options0 False people_api (Inr Map.empty)) None ?r"
  have main: "?i = (End,
        original_send (JArr [JObj [(''name'', JStr ''Ann'')]])
          ((res_status (JStr ''200'')
             (set_prop ''mockStatusCode''
                (PMock \<lparr>source = ''header'', specified = False, mock_statusCode = ''200'',
                         mock_response = Some people_200\<rparr>) ?w))
           \<lparr>res := (res (res_status (JStr ''200'') ?w))\<lparr>sendHooked := False\<rparr>\<rparr>))"
    using t [THEN conjunct1] by (simp add: ok extractValue_def name)
  note rest = t [THEN conjunct2, THEN conjunct1, THEN mp, OF ok]
  note failed = t' [THEN conjunct2, THEN conjunct2, THEN mp, OF no]
  have r1: "statusCode (res (snd ?i)) = JStr ''200''"
    using rest by simp
  have r2: "sent (res (snd ?i)) = [JArr [JObj [(''name'', JStr ''Ann'')]]]"
    using rest by (simp add: nothing_sent extractValue_def)
  have f1: "statusCode (res (snd ?j)) = JNum 500"
    using failed by simp
  have f2: "sent (res (snd ?j)) = []"
    using failed by (simp add: nothing_sent)
  have f3: "hostNext (snd ?j) = [errorFromException invalid_response]"
    using failed by (simp add: nothing_sent)
  from main r1 r2 f1 f2 f3 show ?thesis
    by (intro conjI)
qed

text \<open>
  The claim as written fails at the bypass and at the marker header.  The generated value
  is handed to the operation's response capability: for an operation whose capability
  rejects it, the response has status 500, not 200, nothing is written, and the host gets
  the validation error.  For the operation whose capability accepts it, the whole
  middleware answers with status 200 and the generated array, and the response carries no
  marker header.
\<close>

theorem generated_mock_is_validated_counterexample:
  "random people_schema = (JArr [JObj [(''name'', JStr ''Ann'')]], None, None)
   \<and> statusCode (res (snd (invoke (mocks_middleware options0 False people_api (Inr Map.empty)) None
        (rejecting_world [''x-mock'' \<mapsto> []])))) = JNum 500
   \<and> sent (res (snd (invoke (mocks_middleware options0 False people_api (Inr Map.empty)) None
        (rejecting_world [''x-mock'' \<mapsto> []])))) = []
   \<and> hostNext (snd (invoke (mocks_middleware options0 False people_api (Inr Map.empty)) None
        (rejecting_world [''x-mock'' \<mapsto> []]))) = [errorFromException invalid_response]
   \<and> statusCode (res (middleware
      (options0\<lparr>opt_middleware := [mocks_middleware options0 False people_api (Inr Map.empty)]\<rparr>)
      node (Inr people_api) (world0\<lparr>req := request0\<lparr>headers := [''x-mock'' \<mapsto> []]\<rparr>\<rparr>)))
     = JStr ''200''
   \<and> sent (res (middleware
      (options0\<lparr>opt_middleware := [mocks_middleware options0 False people_api (Inr Map.empty)]\<rparr>)
      node (Inr people_api) (world0\<lparr>req := request0\<lparr>headers := [''x-mock'' \<mapsto> []]\<rparr>\<rparr>)))
     = [JArr [JObj [(''name'', JStr ''Ann'')]]]
   \<and> resHeaders (res (middleware
      (options0\<lparr>opt_middleware := [mocks_middleware options0 False people_api (Inr Map.empty)]\<rparr>)
      node (Inr people_api) (world0\<lparr>req := request0\<lparr>headers := [''x-mock'' \<mapsto> []]\<rparr>\<rparr>)))
     ENFORCER_HEADER \<noteq> Some (JStr ''mock'')"
  by (simp add: world0_def request0_def options0_def middleware_def people_api_def requestObj_def
      hasBody_def node_def isNaN_def set_prop_def copy_parameters_def assign_def
      middlewareRunner_def isErrorHandling_def mocks_middleware_def registry_get_def
      mock_decision_def code_or_default_def or_else_def truthy_str_def first_code_def
      version_of_def truthy_opt_def generate_mock_def mock_from_schema_def people_200_def
      people_schema_def send.simps intercepted_send_eq Let_def clearHeader_def
      res_removeHeader_def status_or_200_def derived_content_type_def has_swagger_def
      get_people_def rejecting_people_def rejecting_world_def people_world_def next_local_def
      res_status_def errorFromException_def original_send_def new_Exception_def
      ENFORCER_HEADER_def res_set_def extractValue_def)

text \<open>
  The generation path sets no marker header, unlike the branch of a bound mock controller
  (line 266): after a generated response the header is as the runner left it, unless the
  serialized headers carry it.
\<close>

lemma generation_sets_no_marker:
  assumes v2: "truthy_opt (swagger api)"
    and api: "props (req w) (reqOpenApiProperty options) = Some (POpenapi api)"
    and op: "props (req w) (reqOperationProperty options) = Some (POperation operation)"
    and d1: "reqMockStatusCodeProperty options \<noteq> reqOpenApiProperty options"
    and d2: "reqMockStatusCodeProperty options \<noteq> reqOperationProperty options"
    and hooked: "sendHooked (res w)"
    and unbound: "controllers (op_id operation) = None"
    and empty: "headers (req w) (mockHeader options) = Some []"
    and first: "responses operation = (code, response) # others"
    and code: "code \<noteq> []"
    and sch: "rs_schema response = Some sch"
    and rnd: "random sch = (v, None, None)"
    and ser: "response_fn operation (JStr code) v (resHeaders (res w)) = Inr ser"
    and other: "ENFORCER_HEADER \<notin> fst ` set (ser_headers ser)"
  shows "resHeaders (res (snd (invoke (mocks_middleware options automatic api (Inr controllers)) a w)))
           ENFORCER_HEADER = resHeaders (res w) ENFORCER_HEADER"
  using generated_mock_outcome [where controllers = controllers and automatic = automatic and a = a,
      OF v2 api op d1 d2 hooked unbound empty first code sch rnd] ser other
  by (simp add: original_send_def fold_res_set_other res_status_def)

text \<open>
  For a catalog that is not a Swagger 2 document the version is a string of digits, which
  is strictly equal neither to the number 2 nor to the number 3: generation always ends
  in \<^verbatim>\<open>unableToMock\<close>.
\<close>

lemma openapi3_generation_unreachable:
  assumes "\<not> truthy_opt (swagger api)" and "version_of api = Some version"
  shows "generate_mock options version exception operation mock response w
           = unableToMock exception w"
proof -
  from assms obtain ds where "version = JStr ds"
    by (auto simp: version_of_def split: list.splits)
  then show ?thesis
    by (simp add: generate_mock_def)
qed

section \<open>The host's request object is left alone\<close>

lemma alloc_old [simp]:
  "length (fst (alloc ob s)) = Suc (length s)"
  "snd (alloc ob s) = length s"
  "n \<le> length s \<Longrightarrow> take n (fst (alloc ob s)) = take n s"
  by (simp_all add: alloc_def)

lemma put_old [simp]:
  "length (put a k v s) = length s"
  "n \<le> a \<Longrightarrow> take n (put a k v s) = take n s"
  by (simp_all add: put_def)

lemma merge_key_old [simp]:
  "length (merge_key key m c s) = Suc (length s)"
  "n \<le> c \<Longrightarrow> n \<le> length s \<Longrightarrow> take n (merge_key key m c s) = take n s"
  by (simp_all add: merge_key_def alloc_def)

lemma attach_parameters_old:
  "n \<le> c \<Longrightarrow> n \<le> length s \<Longrightarrow> take n (attach_parameters options request c s) = take n s"
  by (simp add: attach_parameters_def Let_def alloc_def split: option.splits)

lemma get_put:
  "get (put a k v s) a' k' = (if a' = a \<and> k' = k \<and> a < length s then Some v else get s a' k')"
  by (auto simp: get_def put_def nth_list_update)

lemma get_alloc_new: "get (fst (alloc ob s)) (length s) k = ob k"
  by (simp add: get_def alloc_def)

lemma get_merge_key:
  "c < length s \<Longrightarrow>
   get (merge_key key m c s) c k = (if k = key then Some (SRef (length s)) else get s c k)"
  by (auto simp: merge_key_def alloc_def get_def put_def nth_append)

lemma merge_key_contents:
  "c < length s \<Longrightarrow> merge_key key m c s ! length s = own_props s (get s c key) ++ m"
  by (simp add: merge_key_def alloc_def put_def nth_append)

lemma get_alloc_old: "a < length s \<Longrightarrow> get (fst (alloc ob s)) a k = get s a k"
  by (simp add: get_def alloc_def nth_append)

lemma get_append_old: "a < length s \<Longrightarrow> get (s @ [ob]) a k = get s a k"
  by (simp add: get_def nth_append)

lemma attach_parameters_get:
  assumes "c < length s"
  shows "get (attach_parameters options request c s) c k =
     (if k = ''body'' \<and> rq_body request \<noteq> None then map_option SJs (rq_body request)
      else if k = ''query'' then Some (SRef (length s + 4))
      else if k = ''params'' then Some (SRef (length s + 3))
      else if k = ''headers'' then Some (SRef (length s + 2))
      else if k = ''cookies'' then Some (SRef (length s + 1))
      else if k = reqOperationProperty options
           then Some (SProp (POperation (rq_operation request)))
      else get s c k)"
  using assms
  by (auto simp: attach_parameters_def Let_def get_merge_key get_put alloc_def get_append_old
      split: option.splits)

lemma nth_put_other: "a \<noteq> b \<Longrightarrow> put a k v s ! b = s ! b"
  by (simp add: put_def)

lemma nth_put_less: "b < a \<Longrightarrow> put a k v s ! b = s ! b"
  by (simp add: put_def)

lemma nth_merge_key_less:
  "b < c \<Longrightarrow> c < length s \<Longrightarrow> merge_key key m c s ! b = s ! b"
  by (simp add: merge_key_def alloc_def put_def nth_append)

lemma nth_merge_key_other:
  "b < length s \<Longrightarrow> b \<noteq> c \<Longrightarrow> merge_key key m c s ! b = s ! b"
  by (simp add: merge_key_def alloc_def put_def nth_append)

lemma own_props_old:
  assumes "\<And>a. v = Some (SRef a) \<Longrightarrow> a < n \<and> s' ! a = s ! a"
    and "n \<le> length s" and "n \<le> length s'"
  shows "own_props s' v = own_props s v"
proof (cases v)
  case None
  then show ?thesis by (simp add: own_props_def)
next
  case (Some x)
  show ?thesis
  proof (cases x)
    case (SRef a)
    with Some assms show ?thesis by (auto simp: own_props_def)
  qed (simp_all add: Some own_props_def)
qed

lemma attach_parameters_contents:
  assumes c: "c < length s"
    and names: "reqOperationProperty options \<notin> {''cookies'', ''headers'', ''query''}"
    and closed: "\<forall>k a. get s c k = Some (SRef a) \<longrightarrow> a < c"
  shows "attach_parameters options request c s ! (length s + 1)
           = own_props s (get s c ''cookies'') ++ js_obj (rq_cookies request)"
    and "attach_parameters options request c s ! (length s + 2)
           = own_props s (get s c ''headers'') ++ str_obj (rq_headers request)"
    and "attach_parameters options request c s ! (length s + 3)
           = js_obj (rq_path request) ++ js_obj (rq_params request)"
    and "attach_parameters options request c s ! (length s + 4)
           = own_props s (get s c ''query'') ++ js_obj (rq_query request)"
proof -
  let ?s1 = "put c (reqOperationProperty options) (SProp (POperation (rq_operation request))) s"
  let ?s2 = "put c ''params'' (SRef (length s)) (?s1 @ [js_obj (rq_path request)])"
  let ?s3 = "merge_key ''cookies'' (js_obj (rq_cookies request)) c ?s2"
  let ?s4 = "merge_key ''headers'' (str_obj (rq_headers request)) c ?s3"
  let ?s5 = "merge_key ''params'' (js_obj (rq_params request)) c ?s4"
  let ?s6 = "merge_key ''query'' (js_obj (rq_query request)) c ?s5"
  have fin: "attach_parameters options request c s ! b = ?s6 ! b" if "b \<noteq> c" for b
    using that
    by (simp add: attach_parameters_def Let_def alloc_def nth_put_other split: option.splits)
  have l2: "length ?s2 = length s + 1" by simp
  have l3: "length ?s3 = length s + 2" by simp
  have l4: "length ?s4 = length s + 3" by simp
  have l5: "length ?s5 = length s + 4" by simp
  have c2: "c < length ?s2" and c3: "c < length ?s3" and c4: "c < length ?s4"
    and c5: "c < length ?s5"
    using c by simp_all
  have old2: "?s2 ! a = s ! a" if "a < c" for a
    using that c by (simp add: nth_put_less nth_append)
  have old3: "?s3 ! a = s ! a" if "a < c" for a
    using that c by (simp add: nth_merge_key_less nth_put_less nth_append)
  have old4: "?s4 ! a = s ! a" if "a < c" for a
    using that c by (simp add: nth_merge_key_less nth_put_less nth_append)
  have old5: "?s5 ! a = s ! a" if "a < c" for a
    using that c by (simp add: nth_merge_key_less nth_put_less nth_append)
  have g2: "get ?s2 c k = get s c k" if "k \<in> {''cookies'', ''headers'', ''query''}" for k
    using that names c by (auto simp: get_put get_append_old)
  have g3: "get ?s3 c k = get s c k" if "k \<in> {''headers'', ''query''}" for k
    using that g2 [of k] by (auto simp: get_merge_key [OF c2])
  have g4: "get ?s4 c ''query'' = get s c ''query''"
    using g3 [of "''query''"] by (simp add: get_merge_key [OF c3])
  have g5: "get ?s5 c ''query'' = get s c ''query''"
    using g4 by (simp add: get_merge_key [OF c4])
  have p4: "get ?s4 c ''params'' = Some (SRef (length s))"
    using c by (simp add: get_merge_key [OF c3] get_merge_key [OF c2] get_put)
  have np: "?s4 ! length s = js_obj (rq_path request)"
    using c by (simp add: nth_merge_key_other nth_put_other nth_append)
  have k3: "?s3 ! (length s + 1) = own_props s (get s c ''cookies'') ++ js_obj (rq_cookies request)"
  proof -
    have "?s3 ! length ?s2 = own_props ?s2 (get ?s2 c ''cookies'') ++ js_obj (rq_cookies request)"
      using c2 by (rule merge_key_contents)
    moreover have "own_props ?s2 (get s c ''cookies'') = own_props s (get s c ''cookies'')"
      using closed c by (intro own_props_old [where n = c]) (auto simp: old2)
    ultimately show ?thesis by (simp add: g2 eval_nat_numeral)
  qed
  have k4: "?s4 ! (length s + 2) = own_props s (get s c ''headers'') ++ str_obj (rq_headers request)"
  proof -
    have "?s4 ! length ?s3 = own_props ?s3 (get ?s3 c ''headers'') ++ str_obj (rq_headers request)"
      using c3 by (rule merge_key_contents)
    moreover have "own_props ?s3 (get s c ''headers'') = own_props s (get s c ''headers'')"
      using closed c by (intro own_props_old [where n = c]) (auto simp: old3)
    ultimately show ?thesis by (simp add: g3 eval_nat_numeral)
  qed
  have k5: "?s5 ! (length s + 3) = js_obj (rq_path request) ++ js_obj (rq_params request)"
  proof -
    have "?s5 ! length ?s4 = own_props ?s4 (get ?s4 c ''params'') ++ js_obj (rq_params request)"
      using c4 by (rule merge_key_contents)
    then show ?thesis by (simp add: p4 own_props_def np eval_nat_numeral)
  qed
  have k6: "?s6 ! (length s + 4) = own_props s (get s c ''query'') ++ js_obj (rq_query request)"
  proof -
    have "?s6 ! length ?s5 = own_props ?s5 (get ?s5 c ''query'') ++ js_obj (rq_query request)"
      using c5 by (rule merge_key_contents)
    moreover have "own_props ?s5 (get s c ''query'') = own_props s (get s c ''query'')"
      using closed c by (intro own_props_old [where n = c]) (auto simp: old5)
    ultimately show ?thesis by (simp add: g5 eval_nat_numeral)
  qed
  show "attach_parameters options request c s ! (length s + 1)
           = own_props s (get s c ''cookies'') ++ js_obj (rq_cookies request)"
    using c k3 by (simp add: fin nth_merge_key_other)
  show "attach_parameters options request c s ! (length s + 2)
           = own_props s (get s c ''headers'') ++ str_obj (rq_headers request)"
    using c k4 by (simp add: fin nth_merge_key_other)
  show "attach_parameters options request c s ! (length s + 3)
           = js_obj (rq_path request) ++ js_obj (rq_params request)"
    using c k5 by (simp add: fin nth_merge_key_other)
  show "attach_parameters options request c s ! (length s + 4)
           = own_props s (get s c ''query'') ++ js_obj (rq_query request)"
    using c k6 by (simp add: fin)
qed

lemma request_copy_frame:
  "take (length s) (fst (request_copy options api validation found r s)) = s
   \<and> snd (request_copy options api validation found r s) = length s"
  by (simp add: request_copy_def alloc_def Let_def attach_parameters_old
      split: sum.splits option.splits)

lemma request_copy_attached:
  assumes r: "r < length s"
    and n1: "reqOpenApiProperty options \<notin>
               {reqOperationProperty options, ''params'', ''cookies'', ''headers'', ''query'', ''body''}"
    and n2: "reqOperationProperty options \<notin> {''params'', ''cookies'', ''headers'', ''query'', ''body''}"
    and closed: "\<forall>k a. get s r k = Some (SRef a) \<longrightarrow> a < length s"
  shows "get (fst (request_copy options api (Inr request) found r s)) (length s)
           (reqOpenApiProperty options) = Some (SProp (POpenapi api))"
    and "get (fst (request_copy options api (Inr request) found r s)) (length s)
           (reqOperationProperty options) = Some (SProp (POperation (rq_operation request)))"
    and "get (fst (request_copy options api (Inr request) found r s)) (length s) ''cookies''
           = Some (SRef (length s + 2))"
    and "fst (request_copy options api (Inr request) found r s) ! (length s + 2)
           = own_props s (get s r ''cookies'') ++ js_obj (rq_cookies request)"
    and "get (fst (request_copy options api (Inr request) found r s)) (length s) ''headers''
           = Some (SRef (length s + 3))"
    and "fst (request_copy options api (Inr request) found r s) ! (length s + 3)
           = own_props s (get s r ''headers'') ++ str_obj (rq_headers request)"
    and "get (fst (request_copy options api (Inr request) found r s)) (length s) ''params''
           = Some (SRef (length s + 4))"
    and "fst (request_copy options api (Inr request) found r s) ! (length s + 4)
           = js_obj (rq_path request) ++ js_obj (rq_params request)"
    and "get (fst (request_copy options api (Inr request) found r s)) (length s) ''query''
           = Some (SRef (length s + 5))"
    and "fst (request_copy options api (Inr request) found r s) ! (length s + 5)
           = own_props s (get s r ''query'') ++ js_obj (rq_query request)"
    and "get (fst (request_copy options api (Inr request) found r s)) (length s) ''body''
           = (case rq_body request of Some v \<Rightarrow> Some (SJs v) | None \<Rightarrow> get s r ''body'')"
    and "\<forall>k. k \<notin> {reqOpenApiProperty options, reqOperationProperty options,
                    ''params'', ''cookies'', ''headers'', ''query'', ''body''} \<longrightarrow>
           get (fst (request_copy options api (Inr request) found r s)) (length s) k = get s r k"
proof -
  let ?c = "length s"
  let ?s1 = "put ?c (reqOpenApiProperty options) (SProp (POpenapi api)) (s @ [s ! r])"
  have rc: "fst (request_copy options api (Inr request) found r s)
      = attach_parameters options request ?c ?s1"
    using r by (simp add: request_copy_def alloc_def own_props_def)
  have len: "length ?s1 = ?c + 1" by simp
  have c: "?c < length ?s1" by simp
  have g1: "get ?s1 ?c k = (if k = reqOpenApiProperty options then Some (SProp (POpenapi api))
                            else get s r k)" for k
    using r by (simp add: get_put) (simp add: get_def)
  have old: "?s1 ! a = s ! a" if "a < ?c" for a
    using that by (simp add: nth_put_less nth_append)
  have cl: "\<forall>k a. get ?s1 ?c k = Some (SRef a) \<longrightarrow> a < ?c"
    using closed by (auto simp: g1 split: if_splits)
  have sym: "''cookies'' \<noteq> reqOpenApiProperty options" "''headers'' \<noteq> reqOpenApiProperty options"
    "''query'' \<noteq> reqOpenApiProperty options"
    using n1 by auto
  have names: "reqOperationProperty options \<notin> {''cookies'', ''headers'', ''query''}"
    using n2 by auto
  have own: "own_props ?s1 (get s r k) = own_props s (get s r k)" for k
    using closed by (intro own_props_old [where n = ?c]) (auto simp: old)
  note get = attach_parameters_get [OF c, where options = options and request = request]
  note contents = attach_parameters_contents [OF c names cl, where request = request]
  show "get (fst (request_copy options api (Inr request) found r s)) ?c
           (reqOpenApiProperty options) = Some (SProp (POpenapi api))"
    using n1 by (auto simp: rc get g1)
  show "get (fst (request_copy options api (Inr request) found r s)) ?c
           (reqOperationProperty options) = Some (SProp (POperation (rq_operation request)))"
    using n2 by (auto simp: rc get)
  show "get (fst (request_copy options api (Inr request) found r s)) ?c ''cookies''
           = Some (SRef (?c + 2))"
    by (simp add: rc get)
  show "get (fst (request_copy options api (Inr request) found r s)) ?c ''headers''
           = Some (SRef (?c + 3))"
    by (simp add: rc get)
  show "get (fst (request_copy options api (Inr request) found r s)) ?c ''params''
           = Some (SRef (?c + 4))"
    by (simp add: rc get)
  show "get (fst (request_copy options api (Inr request) found r s)) ?c ''query''
           = Some (SRef (?c + 5))"
    by (simp add: rc get)
  show "get (fst (request_copy options api (Inr request) found r s)) ?c ''body''
           = (case rq_body request of Some v \<Rightarrow> Some (SJs v) | None \<Rightarrow> get s r ''body'')"
    using n1 n2 by (auto simp: rc get g1 split: option.splits)
  show "\<forall>k. k \<notin> {reqOpenApiProperty options, reqOperationProperty options,
                    ''params'', ''cookies'', ''headers'', ''query'', ''body''} \<longrightarrow>
           get (fst (request_copy options api (Inr request) found r s)) ?c k = get s r k"
    by (auto simp: rc get g1)
  show "fst (request_copy options api (Inr request) found r s) ! (?c + 2)
           = own_props s (get s r ''cookies'') ++ js_obj (rq_cookies request)"
    using contents(1) by (simp add: rc len g1 own sym eval_nat_numeral)
  show "fst (request_copy options api (Inr request) found r s) ! (?c + 3)
           = own_props s (get s r ''headers'') ++ str_obj (rq_headers request)"
    using contents(2) by (simp add: rc len g1 own sym eval_nat_numeral)
  show "fst (request_copy options api (Inr request) found r s) ! (?c + 4)
           = js_obj (rq_path request) ++ js_obj (rq_params request)"
    using contents(3) by (simp add: rc len eval_nat_numeral)
  show "fst (request_copy options api (Inr request) found r s) ! (?c + 5)
           = own_props s (get s r ''query'') ++ js_obj (rq_query request)"
    using contents(4) by (simp add: rc len g1 own sym eval_nat_numeral)
qed

lemma request_copy_invalid:
  assumes r: "r < length s"
    and c: "exc_statusCode clientError \<noteq> Some 404"
    and n: "reqOpenApiProperty options \<noteq> reqOperationProperty options"
  shows "get (fst (request_copy options api (Inl clientError) (Some operation) r s)) (length s)
           (reqOpenApiProperty options) = Some (SProp (POpenapi api))"
    and "get (fst (request_copy options api (Inl clientError) (Some operation) r s)) (length s)
           (reqOperationProperty options) = Some (SProp (POperation operation))"
    and "\<forall>k. k \<notin> {reqOpenApiProperty options, reqOperationProperty options} \<longrightarrow>
           get (fst (request_copy options api (Inl clientError) (Some operation) r s)) (length s) k
             = get s r k"
proof -
  have rc: "fst (request_copy options api (Inl clientError) (Some operation) r s)
      = put (length s) (reqOperationProperty options) (SProp (POperation operation))
          (put (length s) (reqOpenApiProperty options) (SProp (POpenapi api)) (s @ [s ! r]))"
    using r c by (simp add: request_copy_def alloc_def own_props_def Let_def)
  have base: "get (s @ [s ! r]) (length s) k = get s r k" for k
    using r by (simp add: get_def)
  show "get (fst (request_copy options api (Inl clientError) (Some operation) r s)) (length s)
           (reqOpenApiProperty options) = Some (SProp (POpenapi api))"
    using n by (simp add: rc get_put)
  show "get (fst (request_copy options api (Inl clientError) (Some operation) r s)) (length s)
           (reqOperationProperty options) = Some (SProp (POperation operation))"
    by (simp add: rc get_put)
  show "\<forall>k. k \<notin> {reqOpenApiProperty options, reqOperationProperty options} \<longrightarrow>
           get (fst (request_copy options api (Inl clientError) (Some operation) r s)) (length s) k
             = get s r k"
    by (simp add: rc get_put base)
qed

text \<open>
  Claim C10, as the source has it.  The middleware copies the host's request object into
  a new object and writes only to new objects: every object that existed when the request
  arrived, the host's request object and all that it refers to among them, is unchanged
  when the handler chain starts, on every path.  With property names that do not clash:
  on a valid request the copy carries the catalog and the operation under the configured
  names, new objects for cookies, headers, path parameters and query in which the
  deserialized values override those of the host's objects, and the deserialized body,
  and every other property of the copy is the host's; on a matched request that fails
  validation the copy carries the catalog and the operation, and every other property of
  the copy, the parameters among them, is the host's.  The chain receives the copy; the
  host's \<^verbatim>\<open>next\<close> is called without a request, so later host handlers see the host's own
  object.
\<close>

theorem host_request_untouched:
  assumes "r < length s"
  shows "take (length s) (fst (request_copy options api validation found r s)) = s
    \<and> snd (request_copy options api validation found r s) = length s
    \<and> (reqOpenApiProperty options \<notin>
          {reqOperationProperty options, ''params'', ''cookies'', ''headers'', ''query'', ''body''}
        \<and> reqOperationProperty options \<notin> {''params'', ''cookies'', ''headers'', ''query'', ''body''}
        \<and> (\<forall>k a. get s r k = Some (SRef a) \<longrightarrow> a < length s) \<longrightarrow>
          get (fst (request_copy options api (Inr request) found r s)) (length s)
            (reqOpenApiProperty options) = Some (SProp (POpenapi api))
        \<and> get (fst (request_copy options api (Inr request) found r s)) (length s)
            (reqOperationProperty options) = Some (SProp (POperation (rq_operation request)))
        \<and> get (fst (request_copy options api (Inr request) found r s)) (length s) ''cookies''
            = Some (SRef (length s + 2))
        \<and> fst (request_copy options api (Inr request) found r s) ! (length s + 2)
            = own_props s (get s r ''cookies'') ++ js_obj (rq_cookies request)
        \<and> get (fst (request_copy options api (Inr request) found r s)) (length s) ''headers''
            = Some (SRef (length s + 3))
        \<and> fst (request_copy options api (Inr request) found r s) ! (length s + 3)
            = own_props s (get s r ''headers'') ++ str_obj (rq_headers request)
        \<and> get (fst (request_copy options api (Inr request) found r s)) (length s) ''params''
            = Some (SRef (length s + 4))
        \<and> fst (request_copy options api (Inr request) found r s) ! (length s + 4)
            = js_obj (rq_path request) ++ js_obj (rq_params request)
        \<and> get (fst (request_copy options api (Inr request) found r s)) (length s) ''query''
            = Some (SRef (length s + 5))
        \<and> fst (request_copy options api (Inr request) found r s) ! (length s + 5)
            = own_props s (get s r ''query'') ++ js_obj (rq_query request)
        \<and> get (fst (request_copy options api (Inr request) found r s)) (length s) ''body''
            = (case rq_body request of Some v \<Rightarrow> Some (SJs v) | None \<Rightarrow> get s r ''body'')
        \<and> (\<forall>k. k \<notin> {reqOpenApiProperty options, reqOperationProperty options,
                      ''params'', ''cookies'', ''headers'', ''query'', ''body''} \<longrightarrow>
             get (fst (request_copy options api (Inr request) found r s)) (length s) k
               = get s r k))
    \<and> (exc_statusCode clientError \<noteq> Some 404
        \<and> reqOpenApiProperty options \<noteq> reqOperationProperty options \<longrightarrow>
          get (fst (request_copy options api (Inl clientError) (Some operation) r s)) (length s)
            (reqOpenApiProperty options) = Some (SProp (POpenapi api))
        \<and> get (fst (request_copy options api (Inl clientError) (Some operation) r s)) (length s)
            (reqOperationProperty options) = Some (SProp (POperation operation))
        \<and> (\<forall>k. k \<notin> {reqOpenApiProperty options, reqOperationProperty options} \<longrightarrow>
             get (fst (request_copy options api (Inl clientError) (Some operation) r s)) (length s) k
               = get s r k))"
proof (intro conjI impI)
  show "take (length s) (fst (request_copy options api validation found r s)) = s"
    using request_copy_frame by blast
  show "snd (request_copy options api validation found r s) = length s"
    using request_copy_frame by blast
next
  assume h: "reqOpenApiProperty options \<notin>
          {reqOperationProperty options, ''params'', ''cookies'', ''headers'', ''query'', ''body''}
        \<and> reqOperationProperty options \<notin> {''params'', ''cookies'', ''headers'', ''query'', ''body''}
        \<and> (\<forall>k a. get s r k = Some (SRef a) \<longrightarrow> a < length s)"
  then have n1: "reqOpenApiProperty options \<notin>
          {reqOperationProperty options, ''params'', ''cookies'', ''headers'', ''query'', ''body''}"
    and n2: "reqOperationProperty options \<notin> {''params'', ''cookies'', ''headers'', ''query'', ''body''}"
    and closed: "\<forall>k a. get s r k = Some (SRef a) \<longrightarrow> a < length s"
    by blast+
  note a = request_copy_attached [OF assms n1 n2 closed, where api = api and request = request
      and found = found]
  show "get (fst (request_copy options api (Inr request) found r s)) (length s)
            (reqOpenApiProperty options) = Some (SProp (POpenapi api))"
    by (rule a)
  show "get (fst (request_copy options api (Inr request) found r s)) (length s)
            (reqOperationProperty options) = Some (SProp (POperation (rq_operation request)))"
    by (rule a)
  show "get (fst (request_copy options api (Inr request) found r s)) (length s) ''cookies''
            = Some (SRef (length s + 2))"
    by (rule a)
  show "fst (request_copy options api (Inr request) found r s) ! (length s + 2)
            = own_props s (get s r ''cookies'') ++ js_obj (rq_cookies request)"
    by (rule a)
  show "get (fst (request_copy options api (Inr request) found r s)) (length s) ''headers''
            = Some (SRef (length s + 3))"
    by (rule a)
  show "fst (request_copy options api (Inr request) found r s) ! (length s + 3)
            = own_props s (get s r ''headers'') ++ str_obj (rq_headers request)"
    by (rule a)
  show "get (fst (request_copy options api (Inr request) found r s)) (length s) ''params''
            = Some (SRef (length s + 4))"
    by (rule a)
  show "fst (request_copy options api (Inr request) found r s) ! (length s + 4)
            = js_obj (rq_path request) ++ js_obj (rq_params request)"
    by (rule a)
  show "get (fst (request_copy options api (Inr request) found r s)) (length s) ''query''
            = Some (SRef (length s + 5))"
    by (rule a)
  show "fst (request_copy options api (Inr request) found r s) ! (length s + 5)
            = own_props s (get s r ''query'') ++ js_obj (rq_query request)"
    by (rule a)
  show "get (fst (request_copy options api (Inr request) found r s)) (length s) ''body''
            = (case rq_body request of Some v \<Rightarrow> Some (SJs v) | None \<Rightarrow> get s r ''body'')"
    by (rule a)
  show "\<forall>k. k \<notin> {reqOpenApiProperty options, reqOperationProperty options,
                      ''params'', ''cookies'', ''headers'', ''query'', ''body''} \<longrightarrow>
             get (fst (request_copy options api (Inr request) found r s)) (length s) k
               = get s r k"
    by (rule a)
next
  assume "exc_statusCode clientError \<noteq> Some 404
        \<and> reqOpenApiProperty options \<noteq> reqOperationProperty options"
  then have c: "exc_statusCode clientError \<noteq> Some 404"
    and n: "reqOpenApiProperty options \<noteq> reqOperationProperty options"
    by blast+
  note b = request_copy_invalid [OF assms c n, where api = api and operation = operation]
  show "get (fst (request_copy options api (Inl clientError) (Some operation) r s)) (length s)
            (reqOpenApiProperty options) = Some (SProp (POpenapi api))"
    by (rule b)
  show "get (fst (request_copy options api (Inl clientError) (Some operation) r s)) (length s)
            (reqOperationProperty options) = Some (SProp (POperation operation))"
    by (rule b)
  show "\<forall>k. k \<notin> {reqOpenApiProperty options, reqOperationProperty options} \<longrightarrow>
             get (fst (request_copy options api (Inl clientError) (Some operation) r s)) (length s) k
               = get s r k"
    by (rule b)
qed

text \<open>
  The theorem at a host request with the query string \<^verbatim>\<open>limit=5\<close>: the copy's query is a new
  object holding the number 5, the host's query object still holds the string.  And at the
  request with \<^verbatim>\<open>limit=abc\<close>, which is matched and invalid: the copy carries catalog and
  operation.
\<close>

theorem host_request_untouched_witness:
  "take 3 (fst (request_copy options0 people_api (Inr people_request) None 0 host_store))
     = host_store
   \<and> snd (request_copy options0 people_api (Inr people_request) None 0 host_store) = 3
   \<and> get (fst (request_copy options0 people_api (Inr people_request) None 0 host_store)) 3
       ''operation'' = Some (SProp (POperation get_people))
   \<and> get (fst (request_copy options0 people_api (Inr people_request) None 0 host_store)) 3
       ''query'' = Some (SRef 8)
   \<and> (fst (request_copy options0 people_api (Inr people_request) None 0 host_store) ! 8)
       ''limit'' = Some (SJs (JNum 5))
   \<and> get host_store 0 ''query'' = Some (SRef 2)
   \<and> (host_store ! 2) ''limit'' = Some (SJs (JStr ''5''))
   \<and> get host_store 0 ''operation'' = None
   \<and> take 3 (fst (request_copy options0 people_api (Inl bad_request) (Some get_people) 0
        invalid_host_store)) = invalid_host_store
   \<and> get (fst (request_copy options0 people_api (Inl bad_request) (Some get_people) 0
        invalid_host_store)) 3 ''openapi'' = Some (SProp (POpenapi people_api))
   \<and> get (fst (request_copy options0 people_api (Inl bad_request) (Some get_people) 0
        invalid_host_store)) 3 ''operation'' = Some (SProp (POperation get_people))"
proof -
  have r: "0 < length host_store"
    by (simp add: host_store_def)
  have len: "length host_store = 3"
    by (simp add: host_store_def)
  have r': "0 < length invalid_host_store"
    by (simp add: invalid_host_store_def)
  have len': "length invalid_host_store = 3"
    by (simp add: invalid_host_store_def)
  have names: "reqOpenApiProperty options0 \<notin>
          {reqOperationProperty options0, ''params'', ''cookies'', ''headers'', ''query'', ''body''}
        \<and> reqOperationProperty options0 \<notin> {''params'', ''cookies'', ''headers'', ''query'', ''body''}
        \<and> (\<forall>k a. get host_store 0 k = Some (SRef a) \<longrightarrow> a < length host_store)"
    by (auto simp: options0_def host_store_def get_def split: if_splits)
  have invalid: "exc_statusCode bad_request \<noteq> Some 404
        \<and> reqOpenApiProperty options0 \<noteq> reqOperationProperty options0"
    by (simp add: bad_request_def options0_def)
  note t = host_request_untouched [OF r, where options = options0 and api = people_api
      and validation = "Inr people_request" and found = None and request = people_request
      and clientError = bad_request and operation = get_people]
  note t' = host_request_untouched [OF r', where options = options0 and api = people_api
      and validation = "Inl bad_request" and found = "Some get_people" and request = people_request
      and clientError = bad_request and operation = get_people]
  note frame = t [THEN conjunct1] t [THEN conjunct2, THEN conjunct1]
  note att = t [THEN conjunct2, THEN conjunct2, THEN conjunct1, THEN mp, OF names]
  note inv = t' [THEN conjunct2, THEN conjunct2, THEN conjunct2, THEN mp, OF invalid]
  have q: "get host_store 0 ''query'' = Some (SRef 2)"
    by (simp add: host_store_def get_def)
  have o: "get host_store 0 ''operation'' = None"
    by (simp add: host_store_def get_def)
  have l: "(host_store ! 2) ''limit'' = Some (SJs (JStr ''5''))"
    by (simp add: host_store_def)
  have a1: "get (fst (request_copy options0 people_api (Inr people_request) None 0 host_store)) 3
       ''operation'' = Some (SProp (POperation get_people))"
    using att by (simp add: len options0_def people_request_def)
  have a2: "get (fst (request_copy options0 people_api (Inr people_request) None 0 host_store)) 3
       ''query'' = Some (SRef 8)"
    using att by (simp add: len)
  have a3: "(fst (request_copy options0 people_api (Inr people_request) None 0 host_store) ! 8)
       ''limit'' = Some (SJs (JNum 5))"
    using att by (simp add: len js_obj_def people_request_def)
  have b0: "take 3 (fst (request_copy options0 people_api (Inl bad_request) (Some get_people) 0
        invalid_host_store)) = invalid_host_store"
    using t' [THEN conjunct1] by (simp add: len')
  have b1: "get (fst (request_copy options0 people_api (Inl bad_request) (Some get_people) 0
        invalid_host_store)) 3 ''openapi'' = Some (SProp (POpenapi people_api))"
    using inv by (simp add: len' options0_def)
  have b2: "get (fst (request_copy options0 people_api (Inl bad_request) (Some get_people) 0
        invalid_host_store)) 3 ''operation'' = Some (SProp (POperation get_people))"
    using inv by (simp add: len' options0_def)
  from frame a1 a2 a3 q l o b0 b1 b2 show ?thesis
    by (simp add: len)
qed

text \<open>
  The claim as written fails at a matched request that is invalid.  The route of
  \<^verbatim>\<open>GET /people?limit=abc\<close> is matched and the validation ends in a client error with status
  code 400.  The copy that the chain receives carries the catalog and the operation, but no
  normalized parameters: its query is the host's own query object, which holds the string
  as it came, and it has no path parameters.
\<close>

theorem invalid_request_not_normalized_counterexample:
  "exc_statusCode bad_request = Some 400
   \<and> snd (request_copy options0 people_api (Inl bad_request) (Some get_people) 0
        invalid_host_store) = 3
   \<and> get (fst (request_copy options0 people_api (Inl bad_request) (Some get_people) 0
        invalid_host_store)) 3 ''operation'' = Some (SProp (POperation get_people))
   \<and> get (fst (request_copy options0 people_api (Inl bad_request) (Some get_people) 0
        invalid_host_store)) 3 ''query'' = Some (SRef 2)
   \<and> get invalid_host_store 0 ''query'' = Some (SRef 2)
   \<and> (fst (request_copy options0 people_api (Inl bad_request) (Some get_people) 0
        invalid_host_store) ! 2) ''limit'' = Some (SJs (JStr ''abc''))
   \<and> get (fst (request_copy options0 people_api (Inl bad_request) (Some get_people) 0
        invalid_host_store)) 3 ''params'' = None"
  by (simp add: request_copy_def alloc_def own_props_def put_def get_def Let_def bad_request_def
      options0_def invalid_host_store_def nth_append)

section \<open>The controller registry\<close>

lemmas scan_defs =
  mapControllers_def finish_scan_def scan_paths_def scan_path_def scan_operation_def
  find_handler_def load_controller_def store_handler_def or_else_def truthy_str_def
  new_Exception_def mockStr_def Let_def

lemma resolve_controllers:
  "posix_resolve ''/app'' ''controllers'' ''people'' = ''/app/controllers/people''"
  "posix_resolve ''/app'' ''controllers'' ''pets'' = ''/app/controllers/pets''"
  by (simp_all add: posix_resolve_def Let_def)

text \<open>
  Claim C9 at a controller module that binds an operation name to a falsy value.  With the
  directory target the binding of \<^verbatim>\<open>getPeople\<close> to 0 is found (line 420) and then skipped by
  \<^verbatim>\<open>if (handler)\<close> (line 442): no message is recorded, no error is raised, and the registry
  is returned without a handler for the operation.  With the same binding in an object
  target (one in which property access finds the controller \<^verbatim>\<open>people\<close>, and in that the
  member \<^verbatim>\<open>getPeople\<close>) the failure is recorded and raised (line 435).
\<close>

theorem falsy_binding_not_recorded:
  "mapControllers zero_binding_node people_api False (TString ''controllers'') [] options0
     = Inr Map.empty
   \<and> mapControllers node people_api False
        (TObject [''people'' \<mapsto> [''getPeople'' \<mapsto> HFalsy]]) [] options0
     = Inl (Rendered (Exception ''Unable to load one or more controllers''
              [([At ''people''], ''Controller operation not found: getPeople'')] [] None))"
  by (simp add: scan_defs zero_binding_node_def node_def people_api_def get_people_def options0_def
      resolve_controllers)

text \<open>
  Three operations whose controllers are missing from an object target: one error, raised
  after the scan, that lists all three under their controllers.
\<close>

lemma three_missing_controllers_one_error:
  "mapControllers node three_api False (TObject Map.empty) [] options0
     = Inl (Rendered (Exception ''Unable to load one or more controllers''
              [([At ''people''], ''Controller not found''),
               ([At ''people''], ''Controller not found''),
               ([At ''pets''], ''Controller not found'')] [] None))"
  by (simp add: scan_defs three_api_def named_operation_def people_api_def options0_def)

lemma three_missing_modules_one_error:
  "mapControllers node three_api False (TString ''controllers'') [] options0
     = Inl (Rendered (Exception ''Unable to load one or more directory controllers within controllers''
              [([At ''people''], ''Controller file not found''),
               ([At ''people''], ''Controller file not found''),
               ([At ''pets''], ''Controller file not found'')] [] None))"
  by (simp add: scan_defs three_api_def named_operation_def people_api_def options0_def node_def
      resolve_controllers module_not_found_def)

lemma registry_only_without_messages:
  "mapControllers pf api isMock target deps options = Inr m \<Longrightarrow>
   target \<noteq> TOther \<and>
   (\<forall>dir. target = TString dir \<longrightarrow>
      \<not> hasException (scan_exception (scan_paths pf options deps (Inl dir) api
           (new_Exception (''Unable to load one or more '' @ mockStr isMock
              @ ''directory controllers within '' @ dir)))))
   \<and> (\<forall>obj. target = TObject obj \<longrightarrow>
      \<not> hasException (scan_exception (scan_paths pf options deps (Inr obj) api
           (new_Exception (''Unable to load one or more '' @ mockStr isMock @ ''controllers'')))))"
  by (auto simp: mapControllers_def finish_scan_def split: target.splits if_splits)

text \<open>
  Messages are only ever added during the scan, and an exception with a message is raised
  at the end: what was recorded for one operation is in the error raised after the last.
\<close>

lemma messages_exc_message [simp]:
  "messages (exc_message p m e) = messages e @ [(p, m)]"
  by (cases e) simp

lemma hasException_messages: "messages e \<noteq> [] \<Longrightarrow> hasException e"
  by (cases e) simp

lemma fold_exc_message_keeps:
  "set (messages e) \<subseteq> set (messages (fold (\<lambda>line. exc_message p line) ls e))"
proof (induction ls arbitrary: e)
  case Nil
  show ?case by simp
next
  case (Cons l ls)
  have "set (messages e) \<subseteq> set (messages (exc_message p l e))"
    by auto
  also have "\<dots> \<subseteq> set (messages (fold (\<lambda>line. exc_message p line) ls (exc_message p l e)))"
    by (rule Cons.IH)
  finally show ?case by simp
qed

lemma exceptionPushError_keeps:
  "set (messages e) \<subseteq> set (messages (exceptionPushError child err e))"
proof (cases "e_stack err")
  case Nil
  then show ?thesis by (auto simp: exceptionPushError_def)
next
  case (Cons l ls)
  then show ?thesis
    using fold_exc_message_keeps [of e "child @ [Nest l]" "takeWhile (\<lambda>line. line \<noteq> []) ls"]
    by (simp add: exceptionPushError_def)
qed

lemma not_a_function_messages_keeps:
  "set (messages e) \<subseteq> set (messages (not_a_function_messages g i items e))"
proof (induction items arbitrary: i e)
  case Nil
  show ?case by simp
next
  case (Cons item items)
  let ?e = "if is_function item then e else exc_message (g @ [AtIndex i]) ''Not a function'' e"
  have "set (messages e) \<subseteq> set (messages ?e)"
    by auto
  also have "\<dots> \<subseteq> set (messages (not_a_function_messages g (Suc i) items ?e))"
    by (rule Cons.IH)
  finally show ?case by simp
qed

lemma store_handler_keeps:
  "set (messages (scan_exception st))
     \<subseteq> set (messages (scan_exception (store_handler child op h st)))"
proof (cases h)
  case (HArr items)
  then show ?thesis
    using not_a_function_messages_keeps [of "scan_exception st"]
    by (simp add: store_handler_def)
qed (auto simp: store_handler_def)

lemma find_handler_keeps:
  "set (messages (scan_exception st))
     \<subseteq> set (messages (scan_exception (snd (find_handler pf deps target cn opn st))))"
proof (cases target)
  case (Inr obj)
  then show ?thesis
    by (auto simp: find_handler_def Let_def split: option.splits)
next
  case (Inl dir)
  obtain loaded r where l: "load_controller pf deps (path_resolve pf dir cn) (loadedControllers st)
      = (loaded, r)"
    by (cases "load_controller pf deps (path_resolve pf dir cn) (loadedControllers st)")
  show ?thesis
  proof (cases r)
    case (Inl err)
    with \<open>target = Inl dir\<close> l show ?thesis
      using exceptionPushError_keeps [of "scan_exception st" "[At cn]" err]
      by (auto simp: find_handler_def Let_def)
  next
    case (Inr controller)
    with \<open>target = Inl dir\<close> l show ?thesis
      by (auto simp: find_handler_def Let_def split: option.splits)
  qed
qed

lemma scan_operation_keeps:
  "set (messages (scan_exception st))
     \<subseteq> set (messages (scan_exception (scan_operation pf options deps target root pc operation st)))"
proof (cases operation)
  case None
  then show ?thesis by (simp add: scan_operation_def)
next
  case (Some op)
  let ?cn = "or_else (or_else (op_props op (xController options)) pc) root"
  let ?opn = "or_else (op_props op (xOperation options)) (op_props op ''operationId'')"
  show ?thesis
  proof (cases "truthy_str ?cn \<and> truthy_str ?opn")
    case False
    with Some show ?thesis
      by (auto simp: scan_operation_def Let_def)
  next
    case True
    then obtain cn opn where c: "?cn = Some cn" and n: "?opn = Some opn"
      by (auto simp: truthy_str_def split: option.splits)
    obtain r st1 where f: "find_handler pf deps target cn opn st = (r, st1)"
      by (cases "find_handler pf deps target cn opn st")
    have a: "set (messages (scan_exception st)) \<subseteq> set (messages (scan_exception st1))"
      using find_handler_keeps [of st pf deps target cn opn] f by simp
    show ?thesis
    proof (cases r)
      case None
      with Some True c n f a show ?thesis
        by (simp add: scan_operation_def Let_def)
    next
      case (Some h)
      have b: "set (messages (scan_exception st1))
          \<subseteq> set (messages (scan_exception (store_handler [At cn] op h st1)))"
        by (rule store_handler_keeps)
      from \<open>operation = Some op\<close> Some True c n f a b show ?thesis
        by (simp add: scan_operation_def Let_def)
    qed
  qed
qed

lemma fold_scan_operation_keeps:
  "set (messages (scan_exception st))
     \<subseteq> set (messages (scan_exception
            (fold (\<lambda>m. scan_operation pf options deps target root pc (ops m)) mths st)))"
proof (induction mths arbitrary: st)
  case Nil
  show ?case by simp
next
  case (Cons m mths)
  have "set (messages (scan_exception st))
      \<subseteq> set (messages (scan_exception (scan_operation pf options deps target root pc (ops m) st)))"
    by (rule scan_operation_keeps)
  also have "\<dots> \<subseteq> set (messages (scan_exception
        (fold (\<lambda>m. scan_operation pf options deps target root pc (ops m)) mths
           (scan_operation pf options deps target root pc (ops m) st))))"
    by (rule Cons.IH)
  finally show ?case by simp
qed

lemma scan_path_keeps:
  "set (messages (scan_exception st))
     \<subseteq> set (messages (scan_exception (scan_path pf options deps target root pathItem st)))"
  unfolding scan_path_def by (rule fold_scan_operation_keeps)

lemma fold_scan_path_keeps:
  "set (messages (scan_exception st))
     \<subseteq> set (messages (scan_exception
            (fold (\<lambda>(pathKey, pathItem). scan_path pf options deps target root pathItem) ps st)))"
proof (induction ps arbitrary: st)
  case Nil
  show ?case by simp
next
  case (Cons p ps)
  have "set (messages (scan_exception st))
      \<subseteq> set (messages (scan_exception (scan_path pf options deps target root (snd p) st)))"
    by (rule scan_path_keeps)
  also have "\<dots> \<subseteq> set (messages (scan_exception
        (fold (\<lambda>(pathKey, pathItem). scan_path pf options deps target root pathItem) ps
           (scan_path pf options deps target root (snd p) st))))"
    by (rule Cons.IH)
  finally show ?case by (simp add: split_def)
qed

lemma recorded_message_is_raised:
  assumes "x \<in> set (messages (scan_exception st))"
  shows "\<exists>e. finish_scan
            (fold (\<lambda>(pathKey, pathItem). scan_path pf options deps target root pathItem) ps st)
           = Inl (Rendered e) \<and> x \<in> set (messages e)"
proof -
  let ?st = "fold (\<lambda>(pathKey, pathItem). scan_path pf options deps target root pathItem) ps st"
  have x: "x \<in> set (messages (scan_exception ?st))"
    using assms fold_scan_path_keeps [of st pf options deps target root ps] by blast
  then have "messages (scan_exception ?st) \<noteq> []"
    by auto
  then have "hasException (scan_exception ?st)"
    by (rule hasException_messages)
  with x show ?thesis
    by (simp add: finish_scan_def)
qed

text \<open>
  A message that the scan of one operation records, whatever was scanned before it, is
  listed in the error raised for the catalog.
\<close>

lemma operation_failure_is_raised:
  assumes p: "(pathKey, pathItem) \<in> set (paths api)"
    and m: "m \<in> set (methods pathItem)"
    and x: "\<forall>st. x \<in> set (messages (scan_exception
              (scan_operation pf options deps target (api_props api (xController options))
                 (pi_props pathItem (xController options)) (pi_operations pathItem m) st)))"
  shows "\<exists>e. finish_scan (scan_paths pf options deps target api exception) = Inl (Rendered e)
             \<and> x \<in> set (messages e)"
proof -
  let ?root = "api_props api (xController options)"
  let ?f = "\<lambda>(pathKey, pathItem). scan_path pf options deps target ?root pathItem"
  let ?g = "\<lambda>m. scan_operation pf options deps target ?root
                  (pi_props pathItem (xController options)) (pi_operations pathItem m)"
  from p obtain ps1 ps2 where ps: "paths api = ps1 @ (pathKey, pathItem) # ps2"
    by (auto simp: in_set_conv_decomp)
  from m obtain ms1 ms2 where ms: "methods pathItem = ms1 @ m # ms2"
    by (auto simp: in_set_conv_decomp)
  define st0 where "st0 = \<lparr>loadedControllers = Map.empty, controller_map = Map.empty,
      scan_exception = exception\<rparr>"
  define st1 where "st1 = fold ?f ps1 st0"
  define st2 where "st2 = fold ?g ms1 st1"
  have a: "x \<in> set (messages (scan_exception (?g m st2)))"
    using x by blast
  have b: "x \<in> set (messages (scan_exception (fold ?g ms2 (?g m st2))))"
    using a fold_scan_operation_keeps [of "?g m st2" pf options deps target ?root
        "pi_props pathItem (xController options)" "pi_operations pathItem" ms2]
    by blast
  have c: "scan_path pf options deps target ?root pathItem st1 = fold ?g ms2 (?g m st2)"
    by (simp add: scan_path_def ms st2_def)
  have d: "scan_paths pf options deps target api exception
      = fold ?f ps2 (scan_path pf options deps target ?root pathItem st1)"
    by (simp add: scan_paths_def ps st1_def st0_def)
  show ?thesis
    unfolding d using b c
    by (intro recorded_message_is_raised) simp
qed

lemma not_a_function_messages_records:
  assumes "j < length items" and "\<not> is_function (items ! j)"
  shows "(g @ [AtIndex (i + j)], ''Not a function'')
           \<in> set (messages (not_a_function_messages g i items e))"
  using assms
proof (induction items arbitrary: i j e)
  case Nil
  then show ?case by simp
next
  case (Cons item items)
  show ?case
  proof (cases j)
    case 0
    with Cons.prems have n: "\<not> is_function item"
      by simp
    have "(g @ [AtIndex i], ''Not a function'')
        \<in> set (messages (exc_message (g @ [AtIndex i]) ''Not a function'' e))"
      by simp
    then have "(g @ [AtIndex i], ''Not a function'')
        \<in> set (messages (not_a_function_messages g (Suc i) items
                            (exc_message (g @ [AtIndex i]) ''Not a function'' e)))"
      using not_a_function_messages_keeps by blast
    with n 0 show ?thesis by simp
  next
    case (Suc k)
    with Cons.prems have "k < length items" "\<not> is_function (items ! k)"
      by simp_all
    then have "(g @ [AtIndex (Suc i + k)], ''Not a function'')
        \<in> set (messages (not_a_function_messages g (Suc i) items
              (if is_function item then e
               else exc_message (g @ [AtIndex i]) ''Not a function'' e)))"
      by (rule Cons.IH)
    with Suc show ?thesis by simp
  qed
qed

text \<open>
  The failures of a binding in an object target, and the message each of them records:
  property access finds no controller; it finds no handler in the controller, or a falsy
  one; the handler is truthy and neither a function nor an array; an item of a bound array
  is not a function.
\<close>

lemma object_target_records:
  assumes cn: "or_else (or_else (op_props op (xController options)) pc) root = Some cn"
      "cn \<noteq> []"
    and opn: "or_else (op_props op (xOperation options)) (op_props op ''operationId'') = Some opn"
      "opn \<noteq> []"
  shows "obj cn = None \<longrightarrow>
           ([At cn], ''Controller not found'')
             \<in> set (messages (scan_exception
                  (scan_operation pf options deps (Inr obj) root pc (Some op) st)))"
    and "obj cn = Some c \<and> (c opn = None \<or> c opn = Some HFalsy) \<longrightarrow>
           ([At cn], ''Controller operation not found: '' @ opn)
             \<in> set (messages (scan_exception
                  (scan_operation pf options deps (Inr obj) root pc (Some op) st)))"
    and "obj cn = Some c \<and> c opn = Some (HOther text) \<longrightarrow>
           ([At cn], ''Expected a function or an array of functions. Received: '' @ text)
             \<in> set (messages (scan_exception
                  (scan_operation pf options deps (Inr obj) root pc (Some op) st)))"
    and "obj cn = Some c \<and> c opn = Some (HArr items)
           \<and> j < length items \<and> \<not> is_function (items ! j) \<longrightarrow>
           ([At cn, Nest ''Expected a function or an array of functions'', AtIndex j],
            ''Not a function'')
             \<in> set (messages (scan_exception
                  (scan_operation pf options deps (Inr obj) root pc (Some op) st)))"
proof -
  have t: "truthy_str (Some cn)" "truthy_str (Some opn)"
    using cn(2) opn(2) by (simp_all add: truthy_str_def)
  show "obj cn = None \<longrightarrow>
           ([At cn], ''Controller not found'')
             \<in> set (messages (scan_exception
                  (scan_operation pf options deps (Inr obj) root pc (Some op) st)))"
    using cn(1) opn(1) t by (simp add: scan_operation_def find_handler_def Let_def)
  show "obj cn = Some c \<and> (c opn = None \<or> c opn = Some HFalsy) \<longrightarrow>
           ([At cn], ''Controller operation not found: '' @ opn)
             \<in> set (messages (scan_exception
                  (scan_operation pf options deps (Inr obj) root pc (Some op) st)))"
    using cn(1) opn(1) t by (auto simp: scan_operation_def find_handler_def Let_def)
  show "obj cn = Some c \<and> c opn = Some (HOther text) \<longrightarrow>
           ([At cn], ''Expected a function or an array of functions. Received: '' @ text)
             \<in> set (messages (scan_exception
                  (scan_operation pf options deps (Inr obj) root pc (Some op) st)))"
    using cn(1) opn(1) t
    by (simp add: scan_operation_def find_handler_def store_handler_def Let_def)
  show "obj cn = Some c \<and> c opn = Some (HArr items)
           \<and> j < length items \<and> \<not> is_function (items ! j) \<longrightarrow>
           ([At cn, Nest ''Expected a function or an array of functions'', AtIndex j],
            ''Not a function'')
             \<in> set (messages (scan_exception
                  (scan_operation pf options deps (Inr obj) root pc (Some op) st)))"
  proof
    assume h: "obj cn = Some c \<and> c opn = Some (HArr items)
           \<and> j < length items \<and> \<not> is_function (items ! j)"
    have "([At cn] @ [Nest ''Expected a function or an array of functions''] @ [AtIndex (0 + j)],
           ''Not a function'')
        \<in> set (messages (not_a_function_messages
              ([At cn] @ [Nest ''Expected a function or an array of functions'']) 0 items
              (scan_exception st)))"
      using h not_a_function_messages_records
        [of j items "[At cn] @ [Nest ''Expected a function or an array of functions'']" 0
            "scan_exception st"]
      by simp
    then show "([At cn, Nest ''Expected a function or an array of functions'', AtIndex j],
            ''Not a function'')
             \<in> set (messages (scan_exception
                  (scan_operation pf options deps (Inr obj) root pc (Some op) st)))"
      using cn(1) opn(1) t h
      by (simp add: scan_operation_def find_handler_def store_handler_def Let_def)
  qed
qed

text \<open>
  An object target is read by property access, so an inherited member counts like an own
  one: whatever function the access finds is bound to the operation and nothing is
  recorded.  (For the target \<^verbatim>\<open>{}\<close> and an operation that names the controller \<^verbatim>\<open>toString\<close>
  and the operation \<^verbatim>\<open>call\<close>, the access finds \<^verbatim>\<open>Function.prototype.call\<close>.)  A module of a
  directory target must have the operation name as an own property.
\<close>

lemma object_member_is_bound:
  assumes cn: "or_else (or_else (op_props op (xController options)) pc) root = Some cn"
      "cn \<noteq> []"
    and opn: "or_else (op_props op (xOperation options)) (op_props op ''operationId'') = Some opn"
      "opn \<noteq> []"
    and found: "obj cn = Some c" "c opn = Some (HFun f)"
  shows "scan_operation pf options deps (Inr obj) root pc (Some op) st
           = st\<lparr>controller_map := (controller_map st)(op_id op \<mapsto> f)\<rparr>"
proof -
  have t: "truthy_str (Some cn)" "truthy_str (Some opn)"
    using cn(2) opn(2) by (simp_all add: truthy_str_def)
  show ?thesis
    using cn(1) opn(1) t found
    by (simp add: scan_operation_def find_handler_def store_handler_def Let_def)
qed

lemma module_member_must_be_own:
  assumes cn: "or_else (or_else (op_props op (xController options)) pc) root = Some cn"
      "cn \<noteq> []"
    and opn: "or_else (op_props op (xOperation options)) (op_props op ''operationId'') = Some opn"
      "opn \<noteq> []"
    and loaded: "loadedControllers st (path_resolve pf dir cn) = Some c" "c opn = None"
  shows "scan_operation pf options deps (Inl dir) root pc (Some op) st
           = st\<lparr>scan_exception :=
                  exc_message [At cn] (''Operation not found: '' @ opn) (scan_exception st)\<rparr>"
proof -
  have t: "truthy_str (Some cn)" "truthy_str (Some opn)"
    using cn(2) opn(2) by (simp_all add: truthy_str_def)
  show ?thesis
    using cn(1) opn(1) t loaded
    by (simp add: scan_operation_def find_handler_def load_controller_def Let_def)
qed

section \<open>The request handed to the catalog\<close>

text \<open>
  \<^verbatim>\<open>isNaN\<close> on header values: numeric strings in the forms that JavaScript converts, and
  strings that it does not.
\<close>

lemma isNaN_examples:
  "isNaN None"
  "\<not> isNaN (Some ''12'')" "\<not> isNaN (Some [])" "\<not> isNaN (Some '' 12 '')"
  "\<not> isNaN (Some ''1e3'')" "\<not> isNaN (Some ''-1.5'')" "\<not> isNaN (Some ''.5'')"
  "\<not> isNaN (Some ''5.'')" "\<not> isNaN (Some ''0x1F'')" "\<not> isNaN (Some ''+Infinity'')"
  "isNaN (Some ''abc'')" "isNaN (Some ''12px'')" "isNaN (Some ''.'')" "isNaN (Some ''-'')"
  "isNaN (Some ''1e'')" "isNaN (Some ''-0x1F'')" "isNaN (Some ''1 2'')" "isNaN (Some ''infinity'')"
  by (simp_all add: isNaN_def is_numeric_string_def trim_def is_space_def is_radix_integer_def
      is_unsigned_decimal_def is_exponent_part_def digits_in_def is_digit_def Let_def)

lemma hasBody_examples:
  "\<not> hasBody node request0"
  "hasBody node (request0\<lparr>headers := [''content-length'' \<mapsto> ''12'']\<rparr>)"
  "\<not> hasBody node (request0\<lparr>headers := [''content-length'' \<mapsto> ''abc'']\<rparr>)"
  "hasBody node (request0\<lparr>headers := [''transfer-encoding'' \<mapsto> ''chunked'']\<rparr>)"
  by (simp_all add: hasBody_def node_def request0_def isNaN_examples)

lemma posix_resolve_examples:
  "posix_resolve ''/app'' ''controllers'' ''people'' = ''/app/controllers/people''"
  "posix_resolve ''/app'' ''./controllers/'' ''../mocks/people'' = ''/app/mocks/people''"
  "posix_resolve ''/app'' ''/srv/controllers'' ''people'' = ''/srv/controllers/people''"
  "posix_resolve ''/app'' ''controllers'' ''/etc/people'' = ''/etc/people''"
  "posix_resolve ''/app'' ''..'' ''..'' = ''/''"
  by (simp_all add: posix_resolve_def Let_def)

text \<open>
  Lines 200 to 203 on the request record: the path parameters are replaced and then
  merged with \<^verbatim>\<open>request.params\<close>; cookies, headers and query are merged into new objects,
  the deserialized values winning; the body is replaced when the result has one.
\<close>

lemma copy_parameters_fields:
  "params (copy_parameters request r) = Some (assign (rq_path request) (rq_params request))"
  "cookies (copy_parameters request r) = Some (assign (cookies r) (rq_cookies request))"
  "headers (copy_parameters request r) = assign (Some (headers r)) (rq_headers request)"
  "query (copy_parameters request r) = Some (assign (query r) (rq_query request))"
  "body (copy_parameters request r) = (case rq_body request of None \<Rightarrow> body r | Some v \<Rightarrow> Some v)"
  "props (copy_parameters request r) = props r"
  by (simp_all add: copy_parameters_def Let_def assign_def split: option.splits)

text \<open>
  On a valid request the chain starts with the interceptor installed, the catalog and the
  operation attached and the parameters copied; on a matched request that fails validation
  it starts with the error made from the client error, and the parameters are the host's.
\<close>

lemma middleware_starts_chain:
  "request_fn api (requestObj pf (req w)) = Inr request \<Longrightarrow>
   middleware options pf (Inr api) w =
     middlewareRunner (opt_middleware options) True next_local JUndefined
       ((set_prop (reqOperationProperty options) (POperation (rq_operation request))
          (set_prop (reqOpenApiProperty options) (POpenapi api)
             (w\<lparr>res := (res w)\<lparr>sendHooked := True\<rparr>\<rparr>)))
        \<lparr>req := copy_parameters request
           (req (set_prop (reqOperationProperty options) (POperation (rq_operation request))
                  (set_prop (reqOpenApiProperty options) (POpenapi api) w)))\<rparr>)"
  "request_fn api (requestObj pf (req w)) = Inl clientError \<Longrightarrow>
   exc_statusCode clientError \<noteq> Some 404 \<Longrightarrow>
   path_fn api (ro_method (requestObj pf (req w))) (ro_path (requestObj pf (req w))) = Some operation \<Longrightarrow>
   middleware options pf (Inr api) w =
     middlewareRunner (opt_middleware options) True next_local (errorFromException clientError)
       (set_prop (reqOperationProperty options) (POperation operation)
          (set_prop (reqOpenApiProperty options) (POpenapi api)
             (w\<lparr>res := (res w)\<lparr>sendHooked := True\<rparr>\<rparr>)))"
  by (simp_all add: middleware_def Let_def set_prop_def)

section \<open>Controllers that throw, generation that fails\<close>

text \<open>
  What a bound controller throws is handed to the advance callback, in the controllers
  middleware and in the mock middleware alike.
\<close>

lemma thrown_by_controller_advances:
  "fst (invoke (controllers_middleware options0 (Inr [1 \<mapsto> pushing 3 7 (Throw (JError ''boom''))])) None
          (people_world Map.empty)) = CallNext (JError ''boom'')"
  "fst (invoke (mocks_middleware options0 False people_api (Inr [1 \<mapsto> pushing 3 7 (Throw (JError ''boom''))]))
          None (people_world [''x-mock'' \<mapsto> []])) = CallNext (JError ''boom'')"
  by (simp_all add: controllers_middleware_def mocks_middleware_def registry_get_def Let_def
      people_world_def set_prop_def options0_def world0_def request0_def get_people_def
      mock_decision_def code_or_default_def or_else_def truthy_str_def first_code_def
      version_of_def people_api_def truthy_opt_def call_controller_def pushing_def res_set_def)

text \<open>
  The failures of generation for a declared response, each with status code 501: the
  schema's random generation reports an error or a warning, which is pushed to the
  exception; or, in a Swagger 2 catalog, the response has no schema.
\<close>

lemma generation_failure_is_501:
  "random sch = (v, Some err, warning) \<Longrightarrow>
   mock_from_schema options exception mock sch w
     = (CallNext (errorFromException (exc_set_statusCode 501
          (exc_message [] ''Unable to generate mock response'' (exc_push err exception)))), w)"
  "random sch = (v, None, Some warning') \<Longrightarrow>
   mock_from_schema options exception mock sch w
     = (CallNext (errorFromException (exc_set_statusCode 501
          (exc_message [] ''Unable to generate mock response'' (exc_push warning' exception)))), w)"
  "rs_schema response = None \<Longrightarrow>
   generate_mock options (JNum 2) exception operation mock response w
     = (CallNext (errorFromException (exc_set_statusCode 501
          (exc_message [] ''Unable to generate mock response'' exception))), w)"
  "outcome_status (fst (unableToMock exception w)) = Some 501"
  by (simp_all add: mock_from_schema_def generate_mock_def unableToMock_def errorFromException_def
      split: option.splits) (cases exception, simp)

section \<open>The registry: arrays of handlers, load errors, the target\<close>

text \<open>
  An array of functions bound to an operation is stored as one handler that runs them in
  order, without clearing the marker header, and advances when the last of them does.
\<close>

lemma array_binding_runs_in_order:
  "(case mapControllers node people_api False
           (TObject [''people'' \<mapsto> [''getPeople'' \<mapsto>
              HArr [HFun (pushing 3 1 (CallNext JUndefined)), HFun (pushing 3 2 (CallNext JUndefined))]]])
           [] options0 of
      Inr controllers \<Rightarrow>
        (case controllers 1 of
           Some h \<Rightarrow> Some (arity h, fst (invoke h None world0), flow (snd (invoke h None world0)))
         | None \<Rightarrow> None)
    | Inl e \<Rightarrow> None)
   = Some (3, CallNext JUndefined, [1, 2])"
  by (simp add: scan_defs node_def people_api_def get_people_def options0_def array_handler_def
      pushing_def isErrorHandling_def clearHeader_def world0_def)

text \<open>
  An error caught while a module is loaded, other than a missing module: the first line
  of its stack heads a nested exception that gets the following lines, up to the first
  empty one; an error without a stack is recorded by its text.
\<close>

lemma exceptionPushError_records:
  "e_stack error = [] \<Longrightarrow>
   exceptionPushError child error exception = exc_message child (e_string error) exception"
  "e_stack error = [l, l1, l2] \<Longrightarrow> l1 \<noteq> [] \<Longrightarrow> l2 \<noteq> [] \<Longrightarrow>
   messages (exceptionPushError child error exception)
     = messages exception @ [(child @ [Nest l], l1), (child @ [Nest l], l2)]"
  "e_stack error = [l, l1, [], l2] \<Longrightarrow> l1 \<noteq> [] \<Longrightarrow>
   messages (exceptionPushError child error exception)
     = messages exception @ [(child @ [Nest l], l1)]"
  by (simp_all add: exceptionPushError_def)

text \<open>A module that exports \<^verbatim>\<open>null\<close>: the \<^verbatim>\<open>TypeError\<close> of line 417 is caught and recorded.\<close>

lemma null_module_is_recorded:
  "mapControllers
     (node\<lparr>require := (\<lambda>p. ModuleLoaded (MVal None))\<rparr>) people_api False (TString ''controllers'') []
     options0
   = Inl (Rendered (Exception ''Unable to load one or more directory controllers within controllers''
            [([At ''people'', Nest ''TypeError: Cannot read property hasOwnProperty of null''],
              ''    at mapControllers'')] [] None))"
  by (simp add: scan_defs node_def people_api_def get_people_def options0_def resolve_controllers
      exceptionPushError_def)

text \<open>
  A target that is neither a string nor an object nor a function, and a target function
  that returns no object, are refused at once; what a target function throws is thrown on.
\<close>

lemma target_is_validated:
  "mapControllers pf api isMock TOther deps options
     = Inl (Rendered (Exception (''Unable to load '' @ mockStr isMock @ ''controllers'')
         [([], ''Controllers target must be a string, a non-null object, or a function that returns a non-null object'')]
         [] None))"
  "mapControllers pf api isMock (TFunction (\<lambda>deps. Inr None)) deps options
     = Inl (Rendered (Exception (''Unable to load '' @ mockStr isMock @ ''controllers'')
         [([], ''Controllers target function must return a non-null object'')] [] None))"
  "mapControllers pf api isMock (TFunction (\<lambda>deps. Inl thrown)) deps options = Inl (Rethrown thrown)"
  "mapControllers pf api isMock (TFunction (\<lambda>deps. Inr (Some obj))) deps options
     = mapControllers pf api isMock (TObject obj) deps options"
  by (simp_all add: mapControllers_def new_Exception_def)

text \<open>
  When the registry cannot be built, the middleware registered by \<^verbatim>\<open>controllers\<close> or
  \<^verbatim>\<open>mocks\<close> hands the error to the advance callback on every request: no operation is served
  from a partial registry.
\<close>

lemma failed_registry_serves_nothing:
  assumes "mapControllers pf api isMock target deps options = Inl (Rendered exception)"
  shows "invoke (controllers_middleware options
            (registry_promise pf (Inr api) isMock target deps options)) a w
           = (CallNext (JTextError exception), w)"
    and "invoke (mocks_middleware options automatic api
            (registry_promise pf (Inr api) isMock target deps options)) a w
           = (CallNext (JTextError exception), w)"
  using assms by (simp_all add: registry_promise_def controllers_middleware_def mocks_middleware_def)

section \<open>Mock middleware and controllers middleware together\<close>

text \<open>
  The mock middleware registered before the controllers middleware, a mock controller
  (it records 7) and a controller (it records 8) bound to \<^verbatim>\<open>GET /people\<close>.  With the mock
  header the mock controller answers and the marker is \<^verbatim>\<open>mock\<close>; without it the mock
  middleware passes the request on, the controller answers and the marker is
  \<^verbatim>\<open>controller\<close>.
\<close>

lemma mocks_before_controllers:
  "opt_middleware (use (controllers_middleware options0 (Inr [1 \<mapsto> pushing 3 8 End]))
      (use (mocks_middleware options0 False people_api (Inr [1 \<mapsto> pushing 3 7 End])) options0))
     = [mocks_middleware options0 False people_api (Inr [1 \<mapsto> pushing 3 7 End]),
        controllers_middleware options0 (Inr [1 \<mapsto> pushing 3 8 End])]"
  "flow (middleware
      (use (controllers_middleware options0 (Inr [1 \<mapsto> pushing 3 8 End]))
         (use (mocks_middleware options0 False people_api (Inr [1 \<mapsto> pushing 3 7 End])) options0))
      node (Inr people_api) (world0\<lparr>req := request0\<lparr>headers := [''x-mock'' \<mapsto> []]\<rparr>\<rparr>)) = [7]"
  "resHeaders (res (middleware
      (use (controllers_middleware options0 (Inr [1 \<mapsto> pushing 3 8 End]))
         (use (mocks_middleware options0 False people_api (Inr [1 \<mapsto> pushing 3 7 End])) options0))
      node (Inr people_api) (world0\<lparr>req := request0\<lparr>headers := [''x-mock'' \<mapsto> []]\<rparr>\<rparr>)))
     ENFORCER_HEADER = Some (JStr ''mock'')"
  "flow (middleware
      (use (controllers_middleware options0 (Inr [1 \<mapsto> pushing 3 8 End]))
         (use (mocks_middleware options0 False people_api (Inr [1 \<mapsto> pushing 3 7 End])) options0))
      node (Inr people_api) world0) = [8]"
  "resHeaders (res (middleware
      (use (controllers_middleware options0 (Inr [1 \<mapsto> pushing 3 8 End]))
         (use (mocks_middleware options0 False people_api (Inr [1 \<mapsto> pushing 3 7 End])) options0))
      node (Inr people_api) world0))
     ENFORCER_HEADER = Some (JStr ''controller'')"
  by (simp_all add: use_def world0_def request0_def options0_def middleware_def people_api_def
      requestObj_def hasBody_def node_def isNaN_def set_prop_def copy_parameters_def assign_def
      middlewareRunner_def isErrorHandling_def mocks_middleware_def controllers_middleware_def
      registry_get_def mock_decision_def code_or_default_def or_else_def truthy_str_def
      first_code_def version_of_def truthy_opt_def call_controller_def pushing_def Let_def
      clearHeader_def res_removeHeader_def get_people_def ENFORCER_HEADER_def res_set_def)

end
